theory Spec2Isabelle
  imports Complex_Main "HOL-Library.Multiset"
begin

section \<open>Data model\<close>

text \<open>
  The repository holds two copies of one strategy: the plain strategy module (1244 lines,
  called module A below) and the notifier variant that \<^verbatim>\<open>run_monitor.py\<close> imports
  (1746 lines, called module B below). Both file names are Chinese (pinyin: di fen xing,
  "bottom fractal", and di fen xing wei xin tong zhi); the indicator functions and the
  batch detectors are the same text in both.

  Prices are \<^verbatim>\<open>numpy.float64\<close> in the source and \<^typ>\<open>real\<close> here: a real stands
  for the binary64 value of that number, and the indicators, scores and profits are the
  program's over exact arithmetic. The two stop levels of the simulators are the
  exception: a close is compared with a product, and whether a close at the level fires
  depends on how that product is rounded, so they are rounded as binary64 rounds
  (section ``Binary64 rounding''). A \<^verbatim>\<open>trade_date\<close> is a string \<^verbatim>\<open>YYYYMMDD\<close> in the
  source, only ever compared for equality and subtracted after \<^verbatim>\<open>pd.to_datetime\<close>; it
  is the day number (an \<^typ>\<open>int\<close>) here. A row of the data frame that the market-data
  call returns, after \<^verbatim>\<open>sort_values('trade_date')\<close>:
\<close>

record bar =
  trade_date :: int
  open_p :: real
  high :: real
  low :: real
  close :: real
  vol :: real

text \<open>
  The data frame \<^verbatim>\<open>self.data\<close>. The moving-average columns always exist and hold NaN
  (here \<^const>\<open>None\<close>) where pandas' \<^verbatim>\<open>rolling(n).mean()\<close> has fewer than n values; the
  other indicator columns exist only when the series is long enough (a column that was
  never assigned is \<^const>\<open>None\<close>).
\<close>

record frame =
  rows :: "bar list"
  ma5 :: "real option list"
  ma10 :: "real option list"
  ma20 :: "real option list"
  ma60 :: "real option list"
  rsi :: "real list option"
  macd :: "real list option"
  macd_signal :: "real list option"
  macd_hist :: "real list option"
  bb_upper :: "real list option"
  bb_middle :: "real list option"
  bb_lower :: "real list option"
  atr :: "real list option"

text \<open>
  The labels that the detectors append to \<^verbatim>\<open>reason\<close>. The source writes them as Chinese
  string literals: yang xian (bullish candle), fang liang (volume expansion), xia jiang
  qu shi (downtrend), RSI di wei (RSI low), bu lin xia gui zhi cheng (lower-band support),
  MACD di bu fan zhuan (MACD bottom reversal), and for tops yin xian (bearish candle),
  shang sheng qu shi (uptrend), RSI gao wei (RSI high), bu lin shang gui zu li (upper-band
  resistance), MACD ding bu zhuan xiang (MACD top turn).
\<close>

datatype label =
    Bullish_Candle | Volume_Expansion | Downtrend | RSI_Low | Lower_Band_Support
  | MACD_Bottom_Reversal
  | Bearish_Candle | Uptrend | RSI_High | Upper_Band_Resistance | MACD_Top_Turn

text \<open>The dictionary appended to \<^verbatim>\<open>patterns\<close>; key \<^verbatim>\<open>low\<close> (bottom) or \<^verbatim>\<open>high\<close> (top)
  is the field \<open>p_extreme\<close>.\<close>

record pattern =
  p_date :: int
  p_price :: real
  p_extreme :: real
  p_volume :: real
  p_score :: real
  p_reason :: "label list"

section \<open>Indicator engine\<close>

definition np_mean :: "real list \<Rightarrow> real" where
  "np_mean xs = sum_list xs / real (length xs)"

definition np_std :: "real list \<Rightarrow> real" where
  "np_std xs = sqrt (np_mean (map (\<lambda>x. (x - np_mean xs)\<^sup>2) xs))"

definition np_diff :: "real list \<Rightarrow> real list" where
  "np_diff xs = map (\<lambda>i. xs ! (i + 1) - xs ! i) [0..<length xs - 1]"

text \<open>The slice \<^verbatim>\<open>xs[a:b]\<close> for \<open>0 \<le> a\<close>, \<open>0 \<le> b\<close>.\<close>

definition slice :: "'a list \<Rightarrow> nat \<Rightarrow> nat \<Rightarrow> 'a list" where
  "slice xs a b = take (b - a) (drop a xs)"

text \<open>\<^verbatim>\<open>series.rolling(n).mean()\<close>: NaN until n values are in the window.\<close>

definition rolling_mean :: "nat \<Rightarrow> real list \<Rightarrow> real option list" where
  "rolling_mean n xs =
     map (\<lambda>i. if i + 1 < n then None else Some (np_mean (slice xs (i + 1 - n) (i + 1))))
       [0..<length xs]"

subsection \<open>calculate_rsi\<close>

text \<open>
  The periods of all four indicator functions are positive in every call of the
  repository (14, 12, 26, 9, 20); the model is read for positive periods only (with a
  period of 0 the source indexes with -1 and divides by zero).
\<close>

definition rsi_seed :: "real list \<Rightarrow> nat \<Rightarrow> real \<times> real" where
  "rsi_seed prices period =
     (let deltas = np_diff prices;
          seed = take (period + 1) deltas;
          up = sum_list (filter (\<lambda>d. d \<ge> 0) seed) / real period;
          down = - sum_list (filter (\<lambda>d. d < 0) seed) / real period
      in (up, down))"

definition rsi_value :: "real \<Rightarrow> real \<Rightarrow> real" where
  "rsi_value up down = (let rs = (if down \<noteq> 0 then up / down else 0) in 100 - 100 / (1 + rs))"

definition rsi_step :: "real list \<Rightarrow> nat \<Rightarrow> nat \<Rightarrow> real \<times> real \<times> real list \<Rightarrow> real \<times> real \<times> real list" where
  "rsi_step deltas period i = (\<lambda>(up, down, rsi).
     (let delta = deltas ! (i - 1);
          upval = (if delta > 0 then delta else 0);
          downval = (if delta > 0 then 0 else - delta);
          up' = (up * (real period - 1) + upval) / real period;
          down' = (down * (real period - 1) + downval) / real period
      in (up', down', rsi[i := rsi_value up' down'])))"

definition calculate_rsi :: "real list \<Rightarrow> nat \<Rightarrow> real list" where
  "calculate_rsi prices period =
     (let deltas = np_diff prices;
          (up, down) = rsi_seed prices period;
          rsi = map (\<lambda>i. if i < period then rsi_value up down else 0) [0..<length prices]
      in snd (snd (fold (rsi_step deltas period) [period..<length prices] (up, down, rsi))))"

subsection \<open>calculate_macd\<close>

text \<open>An assignment to an index outside the array raises IndexError: the result \<^const>\<open>None\<close>.\<close>

definition ema_step :: "real list \<Rightarrow> real \<Rightarrow> nat \<Rightarrow> real list \<Rightarrow> real list" where
  "ema_step src multiplier i ema =
     ema[i := (src ! i - ema ! (i - 1)) * multiplier + ema ! (i - 1)]"

definition calculate_macd ::
  "real list \<Rightarrow> nat \<Rightarrow> nat \<Rightarrow> nat \<Rightarrow> (real list \<times> real list \<times> real list) option" where
  "calculate_macd prices fast_period slow_period signal_period =
     (let n = length prices; zeros = replicate n (0::real) in
      if \<not> slow_period - 1 < n then None
      else
        let ema_fast0 = zeros[slow_period - 1 := np_mean (slice prices 0 slow_period)];
            ema_slow0 = zeros[slow_period - 1 := np_mean (slice prices 0 slow_period)];
            fast_multiplier = 2 / (real fast_period + 1);
            slow_multiplier = 2 / (real slow_period + 1);
            ema_fast = fold (ema_step prices fast_multiplier) [slow_period..<n] ema_fast0;
            ema_slow = fold (ema_step prices slow_multiplier) [slow_period..<n] ema_slow0;
            macd_line = map (\<lambda>i. ema_fast ! i - ema_slow ! i) [0..<n]
        in
          if \<not> slow_period + signal_period - 1 < n then None
          else
            let signal0 = zeros[slow_period + signal_period - 1 :=
                    np_mean (slice macd_line (slow_period - 1) (slow_period + signal_period - 1))];
                signal_multiplier = 2 / (real signal_period + 1);
                signal_line = fold (ema_step macd_line signal_multiplier)
                                [slow_period + signal_period..<n] signal0;
                histogram = map (\<lambda>i. macd_line ! i - signal_line ! i) [0..<n]
            in Some (macd_line, signal_line, histogram))"

subsection \<open>calculate_bollinger_bands\<close>

definition bollinger_step ::
  "real list \<Rightarrow> nat \<Rightarrow> real \<Rightarrow> nat \<Rightarrow> real list \<times> real list \<times> real list
     \<Rightarrow> real list \<times> real list \<times> real list" where
  "bollinger_step prices period num_std i = (\<lambda>(middle_band, upper_band, lower_band).
     (let window = slice prices (i - (period - 1)) (i + 1);
          mid = np_mean window;
          std_dev = np_std window
      in (middle_band[i := mid],
          upper_band[i := mid + std_dev * num_std],
          lower_band[i := mid - std_dev * num_std])))"

definition calculate_bollinger_bands ::
  "real list \<Rightarrow> nat \<Rightarrow> real \<Rightarrow> real list \<times> real list \<times> real list" where
  "calculate_bollinger_bands prices period num_std =
     (let zeros = replicate (length prices) (0::real);
          (middle_band, upper_band, lower_band) =
             fold (bollinger_step prices period num_std) [period - 1..<length prices]
               (zeros, zeros, zeros)
      in (upper_band, middle_band, lower_band))"

subsection \<open>calculate_atr\<close>

definition true_range :: "real list \<Rightarrow> real list \<Rightarrow> real list \<Rightarrow> nat \<Rightarrow> real" where
  "true_range hs ls cs i =
     (let hl = hs ! i - ls ! i;
          hpc = \<bar>hs ! i - cs ! (i - 1)\<bar>;
          lpc = \<bar>ls ! i - cs ! (i - 1)\<bar>
      in max (max hl hpc) lpc)"

definition atr_step :: "real list \<Rightarrow> nat \<Rightarrow> nat \<Rightarrow> real list \<Rightarrow> real list" where
  "atr_step tr period i atr_arr =
     atr_arr[i := (atr_arr ! (i - 1) * (real period - 1) + tr ! i) / real period]"

definition calculate_atr :: "real list \<Rightarrow> real list \<Rightarrow> real list \<Rightarrow> nat \<Rightarrow> real list option" where
  "calculate_atr hs ls cs period =
     (let n = length hs;
          tr = map (\<lambda>i. if 1 \<le> i then true_range hs ls cs i else 0) [0..<n]
      in if \<not> period < n then None
         else Some (fold (atr_step tr period) [period + 1..<n]
                      ((replicate n 0)[period := np_mean (slice tr 1 (period + 1))])))"

subsection \<open>get_data\<close>

text \<open>
  The part of \<^verbatim>\<open>get_data\<close> after the rows are fetched and sorted. Any exception in it is
  caught: the method then returns an empty frame and leaves \<^verbatim>\<open>self.data\<close> unset, which is
  the result \<^const>\<open>None\<close> here.
\<close>

definition get_data :: "bar list \<Rightarrow> frame option" where
  "get_data bars =
     (let n = length bars; closes = map close bars in
      case (if n > 26 then map_option Some (calculate_macd closes 12 26 9) else Some None) of
        None \<Rightarrow> None
      | Some macd_cols \<Rightarrow>
         (case (if n > 14 then map_option Some (calculate_atr (map high bars) (map low bars) closes 14)
                else Some None) of
            None \<Rightarrow> None
          | Some atr_col \<Rightarrow>
             (let bb = (if n > 20 then Some (calculate_bollinger_bands closes 20 2) else None) in
              Some \<lparr> rows = bars,
                     ma5 = rolling_mean 5 closes,
                     ma10 = rolling_mean 10 closes,
                     ma20 = rolling_mean 20 closes,
                     ma60 = rolling_mean 60 closes,
                     rsi = (if n > 14 then Some (calculate_rsi closes 14) else None),
                     macd = map_option fst macd_cols,
                     macd_signal = map_option (fst \<circ> snd) macd_cols,
                     macd_hist = map_option (snd \<circ> snd) macd_cols,
                     bb_upper = map_option fst bb,
                     bb_middle = map_option (fst \<circ> snd) bb,
                     bb_lower = map_option (snd \<circ> snd) bb,
                     atr = atr_col \<rparr>)))"

section \<open>Pattern detector\<close>

abbreviation open_at :: "frame \<Rightarrow> nat \<Rightarrow> real" where "open_at df i \<equiv> open_p (rows df ! i)"
abbreviation high_at :: "frame \<Rightarrow> nat \<Rightarrow> real" where "high_at df i \<equiv> high (rows df ! i)"
abbreviation low_at :: "frame \<Rightarrow> nat \<Rightarrow> real" where "low_at df i \<equiv> low (rows df ! i)"
abbreviation close_at :: "frame \<Rightarrow> nat \<Rightarrow> real" where "close_at df i \<equiv> close (rows df ! i)"
abbreviation vol_at :: "frame \<Rightarrow> nat \<Rightarrow> real" where "vol_at df i \<equiv> vol (rows df ! i)"
abbreviation date_at :: "frame \<Rightarrow> nat \<Rightarrow> int" where "date_at df i \<equiv> trade_date (rows df ! i)"

text \<open>A comparison with NaN is false.\<close>

definition lt_nan :: "real \<Rightarrow> real option \<Rightarrow> bool" where
  "lt_nan x y = (case y of None \<Rightarrow> False | Some v \<Rightarrow> x < v)"

definition gt_nan :: "real \<Rightarrow> real option \<Rightarrow> bool" where
  "gt_nan x y = (case y of None \<Rightarrow> False | Some v \<Rightarrow> x > v)"

text \<open>
  A detector runs a fixed sequence of statements
  \<^verbatim>\<open>if condition: score += weight; reason.append(label)\<close>
  on \<^verbatim>\<open>score = 0\<close>, \<^verbatim>\<open>reason = []\<close>. One statement is a triple (condition, weight,
  label), and \<open>accumulate\<close> runs a sequence of them on the two variables.
\<close>

type_synonym factor = "bool \<times> real \<times> label"

fun accumulate :: "factor list \<Rightarrow> real \<times> label list \<Rightarrow> real \<times> label list" where
  "accumulate [] acc = acc"
| "accumulate ((c, w, l) # fs) (score, reason) =
     accumulate fs (if c then (score + w, reason @ [l]) else (score, reason))"

text \<open>The six statements of \<^verbatim>\<open>identify_bottom_pattern\<close> at index \<open>i\<close>, in source order.\<close>

definition bottom_factors :: "frame \<Rightarrow> nat \<Rightarrow> factor list" where
  "bottom_factors df i =
     [(close_at df i > open_at df i, 1, Bullish_Candle),
      (i > 0 \<and> vol_at df i > vol_at df (i - 1), 1, Volume_Expansion),
      (lt_nan (close_at df i) (ma10 df ! i), 1, Downtrend),
      ((case rsi df of None \<Rightarrow> False | Some r \<Rightarrow> r ! i < 30), 2, RSI_Low),
      ((case bb_lower df of None \<Rightarrow> False | Some b \<Rightarrow> low_at df i \<le> b ! i), 1.5,
         Lower_Band_Support),
      ((case macd df of None \<Rightarrow> False | Some m \<Rightarrow>
          (case macd_hist df of None \<Rightarrow> False | Some h \<Rightarrow>
             m ! i < 0 \<and> i > 0 \<and> h ! i > h ! (i - 1))), 1.5, MACD_Bottom_Reversal)]"

text \<open>The six statements of \<^verbatim>\<open>identify_top_pattern\<close>.\<close>

definition top_factors :: "frame \<Rightarrow> nat \<Rightarrow> factor list" where
  "top_factors df i =
     [(close_at df i < open_at df i, 1, Bearish_Candle),
      (i > 0 \<and> vol_at df i > vol_at df (i - 1), 1, Volume_Expansion),
      (gt_nan (close_at df i) (ma10 df ! i), 1, Uptrend),
      ((case rsi df of None \<Rightarrow> False | Some r \<Rightarrow> r ! i > 70), 2, RSI_High),
      ((case bb_upper df of None \<Rightarrow> False | Some b \<Rightarrow> high_at df i \<ge> b ! i), 1.5,
         Upper_Band_Resistance),
      ((case macd df of None \<Rightarrow> False | Some m \<Rightarrow>
          (case macd_hist df of None \<Rightarrow> False | Some h \<Rightarrow>
             m ! i > 0 \<and> i > 0 \<and> h ! i < h ! (i - 1))), 1.5, MACD_Top_Turn)]"

definition is_bottom :: "frame \<Rightarrow> nat \<Rightarrow> bool" where
  "is_bottom df i \<longleftrightarrow> low_at df i < low_at df (i - 1) \<and> low_at df i < low_at df (i + 1)"

definition is_top :: "frame \<Rightarrow> nat \<Rightarrow> bool" where
  "is_top df i \<longleftrightarrow> high_at df i > high_at df (i - 1) \<and> high_at df i > high_at df (i + 1)"

definition bottom_pattern :: "frame \<Rightarrow> nat \<Rightarrow> real \<Rightarrow> label list \<Rightarrow> pattern" where
  "bottom_pattern df i score reason =
     \<lparr> p_date = date_at df i, p_price = close_at df i, p_extreme = low_at df i,
       p_volume = vol_at df i, p_score = score, p_reason = reason \<rparr>"

definition top_pattern :: "frame \<Rightarrow> nat \<Rightarrow> real \<Rightarrow> label list \<Rightarrow> pattern" where
  "top_pattern df i score reason =
     \<lparr> p_date = date_at df i, p_price = close_at df i, p_extreme = high_at df i,
       p_volume = vol_at df i, p_score = score, p_reason = reason \<rparr>"

text \<open>The body of the loop \<^verbatim>\<open>for i in range(1, len(df) - 1)\<close>, and the loop.\<close>

definition bottom_pattern_step :: "frame \<Rightarrow> nat \<Rightarrow> pattern list \<Rightarrow> pattern list" where
  "bottom_pattern_step df i patterns =
     (if is_bottom df i then
        (case accumulate (bottom_factors df i) (0, []) of (score, reason) \<Rightarrow>
           if score \<ge> 3 then patterns @ [bottom_pattern df i score reason] else patterns)
      else patterns)"

definition identify_bottom_pattern :: "frame \<Rightarrow> pattern list" where
  "identify_bottom_pattern df = fold (bottom_pattern_step df) [1..<length (rows df) - 1] []"

definition top_pattern_step :: "frame \<Rightarrow> nat \<Rightarrow> pattern list \<Rightarrow> pattern list" where
  "top_pattern_step df i patterns =
     (if is_top df i then
        (case accumulate (top_factors df i) (0, []) of (score, reason) \<Rightarrow>
           if score \<ge> 3 then patterns @ [top_pattern df i score reason] else patterns)
      else patterns)"

definition identify_top_pattern :: "frame \<Rightarrow> pattern list" where
  "identify_top_pattern df = fold (top_pattern_step df) [1..<length (rows df) - 1] []"

text \<open>
  The specification's reading of a score, to compare the detectors with: the table of
  weights by label, the labels of the satisfied statements, and the sum of the weights
  over that set.
\<close>

definition spec_weight :: "label \<Rightarrow> real" where
  "spec_weight l =
     (case l of
        Bullish_Candle \<Rightarrow> 1 | Bearish_Candle \<Rightarrow> 1
      | Volume_Expansion \<Rightarrow> 1
      | Downtrend \<Rightarrow> 1 | Uptrend \<Rightarrow> 1
      | RSI_Low \<Rightarrow> 2 | RSI_High \<Rightarrow> 2
      | Lower_Band_Support \<Rightarrow> 1.5 | Upper_Band_Resistance \<Rightarrow> 1.5
      | MACD_Bottom_Reversal \<Rightarrow> 1.5 | MACD_Top_Turn \<Rightarrow> 1.5)"

definition satisfied :: "factor list \<Rightarrow> label list" where
  "satisfied fs = map (\<lambda>f. snd (snd f)) (filter fst fs)"

definition spec_total :: "label set \<Rightarrow> real" where
  "spec_total S = sum spec_weight S"

section \<open>Binary64 rounding\<close>

text \<open>
  Python's \<^verbatim>\<open>float\<close> and \<^verbatim>\<open>numpy.float64\<close> are IEEE 754 binary64: every arithmetic
  operation returns the representable number nearest to the exact result, a tie going
  to the neighbour with the even significand. A number whose magnitude lies between
  \<^verbatim>\<open>2**e\<close> and \<^verbatim>\<open>2**(e+1)\<close> is representable when it is a multiple of \<^verbatim>\<open>2**(e-52)\<close>, so
  \<open>fl64 x\<close> is \<open>x\<close> rounded to such a multiple, with \<open>e\<close> the integer part of the binary
  logarithm of the magnitude. The exponent range (overflow from \<^verbatim>\<open>2**1024\<close>, subnormal
  numbers below \<^verbatim>\<open>2**-1022\<close>) is not modelled; prices are far inside it.
\<close>

definition round_half_even :: "real \<Rightarrow> int" where
  "round_half_even q =
     (let f = \<lfloor>q\<rfloor>; r = q - of_int f in
      if r < 1 / 2 then f else if 1 / 2 < r then f + 1 else if even f then f else f + 1)"

definition fl64 :: "real \<Rightarrow> real" where
  "fl64 x =
     (if x = 0 then 0
      else (let e = \<lfloor>log 2 \<bar>x\<bar>\<rfloor> - 52
            in of_int (round_half_even (x / 2 powr of_int e)) * 2 powr of_int e))"

section \<open>Execution simulator\<close>

text \<open>
  The simulators are modelled with the notifier disabled (\<^verbatim>\<open>enabled\<close> is false), which is
  its state when no key is configured, as in a fresh checkout. (With it enabled, the
  message of a signal is formatted from the \<^verbatim>\<open>rsi\<close>, \<^verbatim>\<open>macd\<close> and Bollinger columns of the
  newest row, and a missing column raises KeyError out of the loop.) The profit of a
  trade divides by the entry price; an entry price of 0, for which the source's float
  division gives inf or nan, is outside the model.

  The arguments of \<^verbatim>\<open>backtest_strategy_realtime\<close>, the sell reasons it writes (Chinese
  string literals in the source: ding fen xing, "top fractal"; zhi sun, "stop loss", with
  the percentage formatted into it; gen zong zhi sun, "trailing stop"; chi you tian shu da
  dao, "holding days reached", with the bound formatted into it; hui ce jie shu, "end of
  backtest") and the dictionary appended to \<^verbatim>\<open>trades\<close>.
\<close>

record params =
  hold_days :: int
  use_stop_loss :: bool
  stop_loss_pct :: real
  use_trailing_stop :: bool

datatype sell_reason =
  Empty_String | Top_Fractal | Stop_Loss real | Trailing_Stop | Hold_Days_Reached int
  | Backtest_End

text \<open>The exception that leaves module A's loop (below); a call that raises returns
  \<^const>\<open>Inl\<close> of it.\<close>

datatype error = UnboundLocalError

record trade =
  t_buy_date :: "int option"
  t_buy_price :: real
  t_buy_reason :: "label list option"
  t_sell_date :: int
  t_sell_price :: real
  t_sell_reason :: sell_reason
  t_profit_pct :: real
  t_hold_days :: int

text \<open>
  The local variables of the loop. \<^verbatim>\<open>buy_date\<close> starts as the empty string in module A
  and as \<^verbatim>\<open>None\<close> in module B (both \<^const>\<open>None\<close> here), \<^verbatim>\<open>buy_reason\<close> and
  \<^verbatim>\<open>pending_buy_reason\<close> as \<^verbatim>\<open>[]\<close> in A and \<^verbatim>\<open>None\<close> in B, \<^verbatim>\<open>pending_sell_reason\<close>
  (module A only) as the empty string.
\<close>

record sim =
  holding :: bool
  buy_price :: real
  buy_date :: "int option"
  buy_reason :: "label list option"
  highest_price :: real
  pending_buy_signal :: bool
  pending_buy_reason :: "label list option"
  pending_sell_signal :: bool
  pending_sell_reason :: sell_reason
  trades :: "trade list"

text \<open>\<^verbatim>\<open>(pd.to_datetime(d) - pd.to_datetime(buy_date)).days\<close>; a trade is closed only while
  holding, when \<^verbatim>\<open>buy_date\<close> is a date.\<close>

definition days_since :: "int option \<Rightarrow> int \<Rightarrow> int" where
  "days_since bd d = (case bd of None \<Rightarrow> 0 | Some b \<Rightarrow> d - b)"

text \<open>The dictionary of a closed trade, from the variables of the open position.\<close>

definition close_trade :: "sim \<Rightarrow> int \<Rightarrow> real \<Rightarrow> sell_reason \<Rightarrow> trade" where
  "close_trade st sell_date sell_price r =
     \<lparr> t_buy_date = buy_date st, t_buy_price = buy_price st, t_buy_reason = buy_reason st,
       t_sell_date = sell_date, t_sell_price = sell_price, t_sell_reason = r,
       t_profit_pct = (sell_price - buy_price st) / buy_price st * 100,
       t_hold_days = days_since (buy_date st) sell_date \<rparr>"

text \<open>\<^verbatim>\<open>df.iloc[:k]\<close>: the first k rows, of every column.\<close>

definition iloc_upto :: "frame \<Rightarrow> nat \<Rightarrow> frame" where
  "iloc_upto df k =
     \<lparr> rows = take k (rows df),
       ma5 = take k (ma5 df), ma10 = take k (ma10 df),
       ma20 = take k (ma20 df), ma60 = take k (ma60 df),
       rsi = map_option (take k) (rsi df),
       macd = map_option (take k) (macd df),
       macd_signal = map_option (take k) (macd_signal df),
       macd_hist = map_option (take k) (macd_hist df),
       bb_upper = map_option (take k) (bb_upper df),
       bb_middle = map_option (take k) (bb_middle df),
       bb_lower = map_option (take k) (bb_lower df),
       atr = map_option (take k) (atr df) \<rparr>"

subsection \<open>Module A\<close>

text \<open>
  The scoring statements that module A's loop runs on \<^verbatim>\<open>current_data\<close> at \<^verbatim>\<open>prev_idx\<close>
  (the batch detector's, without its \<^verbatim>\<open>i > 0\<close> tests; the top variant keeps no reason
  list, so only the score of \<open>accumulate\<close> is read there).
\<close>

definition causal_bottom_factors :: "frame \<Rightarrow> nat \<Rightarrow> factor list" where
  "causal_bottom_factors cd p =
     [(close_at cd p > open_at cd p, 1, Bullish_Candle),
      (vol_at cd p > vol_at cd (p - 1), 1, Volume_Expansion),
      (lt_nan (close_at cd p) (ma10 cd ! p), 1, Downtrend),
      ((case rsi cd of None \<Rightarrow> False | Some r \<Rightarrow> r ! p < 30), 2, RSI_Low),
      ((case bb_lower cd of None \<Rightarrow> False | Some b \<Rightarrow> low_at cd p \<le> b ! p), 1.5,
         Lower_Band_Support),
      ((case macd cd of None \<Rightarrow> False | Some m \<Rightarrow>
          (case macd_hist cd of None \<Rightarrow> False | Some h \<Rightarrow>
             m ! p < 0 \<and> h ! p > h ! (p - 1))), 1.5, MACD_Bottom_Reversal)]"

definition causal_top_factors :: "frame \<Rightarrow> nat \<Rightarrow> factor list" where
  "causal_top_factors cd p =
     [(close_at cd p < open_at cd p, 1, Bearish_Candle),
      (vol_at cd p > vol_at cd (p - 1), 1, Volume_Expansion),
      (gt_nan (close_at cd p) (ma10 cd ! p), 1, Uptrend),
      ((case rsi cd of None \<Rightarrow> False | Some r \<Rightarrow> r ! p > 70), 2, RSI_High),
      ((case bb_upper cd of None \<Rightarrow> False | Some b \<Rightarrow> high_at cd p \<ge> b ! p), 1.5,
         Upper_Band_Resistance),
      ((case macd cd of None \<Rightarrow> False | Some m \<Rightarrow>
          (case macd_hist cd of None \<Rightarrow> False | Some h \<Rightarrow>
             m ! p > 0 \<and> h ! p < h ! (p - 1))), 1.5, MACD_Top_Turn)]"

definition init_A :: sim where
  "init_A = \<lparr> holding = False, buy_price = 0, buy_date = None, buy_reason = Some [],
              highest_price = 0, pending_buy_signal = False, pending_buy_reason = Some [],
              pending_sell_signal = False, pending_sell_reason = Empty_String,
              trades = [] \<rparr>"

text \<open>The statements of one iteration \<open>i\<close> of module A's loop, in source order.\<close>

definition update_highest_A :: "frame \<Rightarrow> nat \<Rightarrow> sim \<Rightarrow> sim" where
  "update_highest_A df i st =
     (if holding st \<and> high_at df i > highest_price st
      then st\<lparr>highest_price := high_at df i\<rparr> else st)"

definition fill_buy_A :: "frame \<Rightarrow> nat \<Rightarrow> sim \<Rightarrow> sim" where
  "fill_buy_A df i st =
     (if pending_buy_signal st \<and> \<not> holding st
      then st\<lparr>buy_price := open_at df i, buy_date := Some (date_at df i),
               buy_reason := pending_buy_reason st, holding := True,
               highest_price := open_at df i, pending_buy_signal := False\<rparr>
      else st)"

definition fill_sell_A :: "frame \<Rightarrow> nat \<Rightarrow> sim \<Rightarrow> sim" where
  "fill_sell_A df i st =
     (if pending_sell_signal st \<and> holding st
      then st\<lparr>trades := trades st @
                  [close_trade st (date_at df i) (open_at df i) (pending_sell_reason st)],
               holding := False, pending_sell_signal := False\<rparr>
      else st)"

text \<open>Whether the loop at \<open>i\<close> recognises a bottom (a top) at \<open>i - 1\<close>, with score and reasons.\<close>

definition bottom_signal_A :: "frame \<Rightarrow> nat \<Rightarrow> (real \<times> label list) option" where
  "bottom_signal_A df i =
     (let current_data = iloc_upto df (i + 1); prev_idx = i - 1 in
      if is_bottom current_data prev_idx then
        (case accumulate (causal_bottom_factors current_data prev_idx) (0, []) of
           (score, reason) \<Rightarrow> if score \<ge> 3 then Some (score, reason) else None)
      else None)"

definition top_signal_A :: "frame \<Rightarrow> nat \<Rightarrow> (real \<times> label list) option" where
  "top_signal_A df i =
     (let current_data = iloc_upto df (i + 1); prev_idx = i - 1 in
      if is_top current_data prev_idx then
        (case accumulate (causal_top_factors current_data prev_idx) (0, []) of
           (score, reason) \<Rightarrow> if score \<ge> 3 then Some (score, reason) else None)
      else None)"

definition detect_bottom_A :: "frame \<Rightarrow> nat \<Rightarrow> sim \<Rightarrow> sim" where
  "detect_bottom_A df i st =
     (if \<not> holding st \<and> \<not> pending_buy_signal st \<and> i \<ge> 2 then
        (case bottom_signal_A df i of
           Some (score, reason) \<Rightarrow>
             st\<lparr>pending_buy_signal := True, pending_buy_reason := Some reason\<rparr>
         | None \<Rightarrow> st)
      else st)"

text \<open>
  The two stop levels (both modules). The loops test
  \<^verbatim>\<open>current_price <= buy_price * (1 - stop_loss_pct/100)\<close> and
  \<^verbatim>\<open>current_price <= highest_price * 0.95\<close>: the quotient, the difference and the products
  are each rounded to binary64, and the literal \<^verbatim>\<open>0.95\<close> is the binary64 number nearest
  to 95/100.
\<close>

definition stop_level :: "real \<Rightarrow> real \<Rightarrow> real" where
  "stop_level pct b = fl64 (b * fl64 (1 - fl64 (pct / 100)))"

definition trail_level :: "real \<Rightarrow> real" where
  "trail_level h = fl64 (h * fl64 (95 / 100))"

definition stop_loss_hit :: "params \<Rightarrow> sim \<Rightarrow> real \<Rightarrow> bool" where
  "stop_loss_hit prm st current_price \<longleftrightarrow>
     use_stop_loss prm \<and> current_price \<le> stop_level (stop_loss_pct prm) (buy_price st)"

definition trailing_stop_hit :: "params \<Rightarrow> sim \<Rightarrow> real \<Rightarrow> bool" where
  "trailing_stop_hit prm st current_price \<longleftrightarrow>
     use_trailing_stop prm \<and> highest_price st > buy_price st
       \<and> current_price \<le> trail_level (highest_price st)"

text \<open>
  The last block of the iteration: the top detection sets the local
  \<^verbatim>\<open>sell_reason_text\<close>; the stop-loss appends the closed trade at \<^verbatim>\<open>current_price\<close>,
  notifies inside \<^verbatim>\<open>if self.wechat.enabled:\<close> and leaves the iteration with
  \<^verbatim>\<open>continue\<close>; only when no stop fires is the pending flag set.

  The trailing-stop branch appends its trade to the local list and assigns \<^verbatim>\<open>title\<close> and
  \<^verbatim>\<open>content\<close> inside \<^verbatim>\<open>if self.wechat.enabled:\<close>, but its two statements
  \<^verbatim>\<open>level = ...\<close> and \<^verbatim>\<open>self.wechat.send_notification(title, content, level)\<close> stand after
  that test, not inside it. Every assignment to \<^verbatim>\<open>title\<close> in the function is under such a
  test, so with the notifier disabled the call raises UnboundLocalError before
  \<^verbatim>\<open>holding = False\<close>; nothing catches it, it leaves \<^verbatim>\<open>backtest_strategy_realtime\<close>, and
  the local trade list is lost with it.
\<close>

definition exits_A :: "frame \<Rightarrow> params \<Rightarrow> nat \<Rightarrow> sim \<Rightarrow> error + sim" where
  "exits_A df prm i st =
     (if holding st \<and> \<not> pending_sell_signal st then
        (let sell_reason_text =
               (if i \<ge> 2 then (case top_signal_A df i of Some _ \<Rightarrow> Some Top_Fractal | None \<Rightarrow> None)
                else None);
             current_price = close_at df i; current_date = date_at df i
         in
           if stop_loss_hit prm st current_price then
             Inr (st\<lparr>trades := trades st @
                        [close_trade st current_date current_price (Stop_Loss (stop_loss_pct prm))],
                     holding := False\<rparr>)
           else if trailing_stop_hit prm st current_price then
             Inl UnboundLocalError
           else
             Inr (case sell_reason_text of
                    Some r \<Rightarrow> st\<lparr>pending_sell_signal := True, pending_sell_reason := r\<rparr>
                  | None \<Rightarrow> st))
      else Inr st)"

definition step_A :: "frame \<Rightarrow> params \<Rightarrow> nat \<Rightarrow> sim \<Rightarrow> error + sim" where
  "step_A df prm i st =
     exits_A df prm i (detect_bottom_A df i (fill_sell_A df i (fill_buy_A df i
       (update_highest_A df i st))))"

text \<open>The loop \<^verbatim>\<open>for i in range(2, len(df))\<close>; \<open>run_A df prm k\<close> is the state when iteration
  \<open>k\<close> starts, or the exception that an earlier iteration raised.\<close>

definition run_A :: "frame \<Rightarrow> params \<Rightarrow> nat \<Rightarrow> error + sim" where
  "run_A df prm k =
     fold (\<lambda>i r. case r of Inl e \<Rightarrow> Inl e | Inr st \<Rightarrow> step_A df prm i st) [2..<k] (Inr init_A)"

text \<open>After the loop: a position still open is closed at the last close.\<close>

definition finish :: "frame \<Rightarrow> sim \<Rightarrow> trade list" where
  "finish df st =
     (if holding st \<and> length (rows df) > 0 then
        trades st @ [close_trade st (date_at df (length (rows df) - 1))
                       (close_at df (length (rows df) - 1)) Backtest_End]
      else trades st)"

text \<open>The returned dictionary; the two message strings are the other results.\<close>

record report =
  total_trades :: nat
  avg_profit_pct :: real
  win_rate :: real
  total_profit_pct :: real
  max_profit_pct :: real
  max_loss_pct :: real
  avg_hold_days :: real
  details :: "trade list"

datatype result = No_Data_Message | No_Trades_Message | Report report

definition summarize :: "trade list \<Rightarrow> result" where
  "summarize ts =
     (if ts = [] then No_Trades_Message
      else Report
        \<lparr> total_trades = length ts,
          avg_profit_pct = sum_list (map t_profit_pct ts) / real (length ts),
          win_rate = real (length (filter (\<lambda>t. t_profit_pct t > 0) ts)) / real (length ts),
          total_profit_pct = sum_list (map t_profit_pct ts),
          max_profit_pct = fold max (map t_profit_pct (tl ts)) (t_profit_pct (hd ts)),
          max_loss_pct = fold min (map t_profit_pct (tl ts)) (t_profit_pct (hd ts)),
          avg_hold_days = real_of_int (sum_list (map t_hold_days ts)) / real (length ts),
          details = ts \<rparr>)"

text \<open>The trade list of a result (\<^verbatim>\<open>result['details']\<close>; none for a message).\<close>

definition details_of :: "result \<Rightarrow> trade list" where
  "details_of r = (case r of Report rep \<Rightarrow> details rep | _ \<Rightarrow> [])"

definition backtest_strategy_realtime_A :: "frame \<Rightarrow> params \<Rightarrow> error + result" where
  "backtest_strategy_realtime_A df prm =
     (case run_A df prm (length (rows df)) of
        Inl e \<Rightarrow> Inl e
      | Inr st \<Rightarrow> Inr (summarize (finish df st)))"

subsection \<open>Module B\<close>

text \<open>
  Module B tests the fractal with the operands swapped, runs the batch detector's six
  statements (with their \<^verbatim>\<open>prev_idx > 0\<close> tests) on \<^verbatim>\<open>current_data\<close>, and detects only
  from \<^verbatim>\<open>i >= 3\<close>.
\<close>

definition is_bottom_B :: "frame \<Rightarrow> nat \<Rightarrow> bool" where
  "is_bottom_B cd p \<longleftrightarrow> low_at cd (p - 1) > low_at cd p \<and> low_at cd (p + 1) > low_at cd p"

definition is_top_B :: "frame \<Rightarrow> nat \<Rightarrow> bool" where
  "is_top_B cd p \<longleftrightarrow> high_at cd (p - 1) < high_at cd p \<and> high_at cd (p + 1) < high_at cd p"

definition init_B :: sim where
  "init_B = \<lparr> holding = False, buy_price = 0, buy_date = None, buy_reason = None,
              highest_price = 0, pending_buy_signal = False, pending_buy_reason = None,
              pending_sell_signal = False, pending_sell_reason = Empty_String,
              trades = [] \<rparr>"

text \<open>The assignments that follow every close of a position in module B.\<close>

definition reset_position :: "sim \<Rightarrow> sim" where
  "reset_position st = st\<lparr>holding := False, buy_price := 0, buy_date := None, highest_price := 0\<rparr>"

definition fills_B :: "frame \<Rightarrow> nat \<Rightarrow> sim \<Rightarrow> sim" where
  "fills_B df i st =
     (if pending_buy_signal st \<and> \<not> holding st then
        st\<lparr>holding := True, buy_price := open_at df i, buy_date := Some (date_at df i),
           highest_price := open_at df i, buy_reason := pending_buy_reason st,
           pending_buy_signal := False, pending_buy_reason := None\<rparr>
      else if pending_sell_signal st \<and> holding st then
        (reset_position
           (st\<lparr>trades := trades st @ [close_trade st (date_at df i) (open_at df i) Top_Fractal]\<rparr>))
          \<lparr>pending_sell_signal := False\<rparr>
      else st)"

definition update_highest_B :: "frame \<Rightarrow> nat \<Rightarrow> sim \<Rightarrow> sim" where
  "update_highest_B df i st =
     (if holding st \<and> close_at df i > highest_price st
      then st\<lparr>highest_price := close_at df i\<rparr> else st)"

definition bottom_signal_B :: "frame \<Rightarrow> nat \<Rightarrow> (real \<times> label list) option" where
  "bottom_signal_B df i =
     (let prev_idx = i - 1 in
      if i \<ge> 3 then
        (let current_data = iloc_upto df (i + 1) in
         if is_bottom_B current_data prev_idx then
           (case accumulate (bottom_factors current_data prev_idx) (0, []) of
              (score, reason) \<Rightarrow> if score \<ge> 3 then Some (score, reason) else None)
         else None)
      else None)"

definition top_signal_B :: "frame \<Rightarrow> nat \<Rightarrow> (real \<times> label list) option" where
  "top_signal_B df i =
     (let prev_idx = i - 1 in
      if i \<ge> 3 then
        (let current_data = iloc_upto df (i + 1) in
         if is_top_B current_data prev_idx then
           (case accumulate (top_factors current_data prev_idx) (0, []) of
              (score, reason) \<Rightarrow> if score \<ge> 3 then Some (score, reason) else None)
         else None)
      else None)"

definition detect_bottom_B :: "frame \<Rightarrow> nat \<Rightarrow> sim \<Rightarrow> sim" where
  "detect_bottom_B df i st =
     (if \<not> holding st \<and> \<not> pending_buy_signal st then
        (case bottom_signal_B df i of
           Some (score, reason) \<Rightarrow>
             st\<lparr>pending_buy_signal := True, pending_buy_reason := Some reason\<rparr>
         | None \<Rightarrow> st)
      else st)"

definition detect_top_B :: "frame \<Rightarrow> nat \<Rightarrow> sim \<Rightarrow> sim" where
  "detect_top_B df i st =
     (if holding st \<and> \<not> pending_sell_signal st then
        (case top_signal_B df i of
           Some _ \<Rightarrow> st\<lparr>pending_sell_signal := True\<rparr>
         | None \<Rightarrow> st)
      else st)"

text \<open>The three exits at \<^verbatim>\<open>current_price\<close>, each followed by \<^verbatim>\<open>continue\<close>.\<close>

definition risk_exits_B :: "frame \<Rightarrow> params \<Rightarrow> nat \<Rightarrow> sim \<Rightarrow> sim" where
  "risk_exits_B df prm i st =
     (let current_price = close_at df i; current_date = date_at df i in
      if holding st \<and> stop_loss_hit prm st current_price then
        reset_position (st\<lparr>trades := trades st @
          [close_trade st current_date current_price (Stop_Loss (stop_loss_pct prm))]\<rparr>)
      else if holding st \<and> trailing_stop_hit prm st current_price then
        reset_position (st\<lparr>trades := trades st @
          [close_trade st current_date current_price Trailing_Stop]\<rparr>)
      else if holding st \<and> buy_date st \<noteq> None \<and> hold_days prm > 0 then
        (let days_held = days_since (buy_date st) current_date in
         if days_held \<ge> hold_days prm then
           reset_position (st\<lparr>trades := trades st @
             [close_trade st current_date current_price (Hold_Days_Reached (hold_days prm))]\<rparr>)
         else st)
      else st)"

definition step_B :: "frame \<Rightarrow> params \<Rightarrow> nat \<Rightarrow> sim \<Rightarrow> sim" where
  "step_B df prm i st =
     risk_exits_B df prm i (detect_top_B df i (detect_bottom_B df i (update_highest_B df i
       (fills_B df i st))))"

definition run_B :: "frame \<Rightarrow> params \<Rightarrow> nat \<Rightarrow> sim" where
  "run_B df prm k = fold (step_B df prm) [2..<k] init_B"

text \<open>Module B returns a message for missing or empty data; its final close has no
  length test (the frame is not empty there).\<close>

definition backtest_strategy_realtime_B :: "frame option \<Rightarrow> params \<Rightarrow> result" where
  "backtest_strategy_realtime_B data prm =
     (case data of
        None \<Rightarrow> No_Data_Message
      | Some df \<Rightarrow>
          if length (rows df) = 0 then No_Data_Message
          else summarize (finish df (run_B df prm (length (rows df)))))"

text \<open>The default arguments of \<^verbatim>\<open>backtest_strategy_realtime\<close> (both modules).\<close>

definition default_params :: params where
  "default_params =
     \<lparr> hold_days = 10, use_stop_loss = True, stop_loss_pct = 5, use_trailing_stop = True \<rparr>"

section \<open>Live monitor\<close>

text \<open>
  The block that both monitors run on the batch detector's list, once for bottoms and
  once for tops (\<^verbatim>\<open>run_live_monitor\<close> in module A with the local \<^verbatim>\<open>last_bottom_date\<close>,
  \<^verbatim>\<open>run_multi_monitor\<close> in module B with \<^verbatim>\<open>last_signals[code]["bottom"]\<close>): it returns the
  stored date and the pattern it sends a notification for, if any. \<open>enabled\<close> is the
  notifier's flag and \<open>now\<close> the current date.
\<close>

definition check_new_pattern ::
  "bool \<Rightarrow> int \<Rightarrow> pattern list \<Rightarrow> int option \<Rightarrow> int option \<times> pattern list" where
  "check_new_pattern enabled now patterns last_date =
     (if patterns \<noteq> [] \<and> Some (p_date (last patterns)) \<noteq> last_date then
        (let last_pattern = last patterns;
             days_diff = now - p_date last_pattern
         in (Some (p_date last_pattern),
             if days_diff \<le> 3 \<and> enabled then [last_pattern] else []))
      else (last_date, []))"

record watch =
  last_bottom :: "int option"
  last_top :: "int option"

datatype alert = Bottom_Alert pattern | Top_Alert pattern

text \<open>
  One polling cycle for one instrument; \<open>data\<close> is what \<^verbatim>\<open>get_data\<close> left in
  \<^verbatim>\<open>self.data\<close> (an empty or failed fetch skips the cycle).
\<close>

definition monitor_cycle :: "bool \<Rightarrow> int \<Rightarrow> frame option \<Rightarrow> watch \<Rightarrow> watch \<times> alert list" where
  "monitor_cycle enabled now data w =
     (case data of
        None \<Rightarrow> (w, [])
      | Some df \<Rightarrow>
          if rows df = [] then (w, [])
          else
            (case check_new_pattern enabled now (identify_bottom_pattern df) (last_bottom w) of
               (lb, bottom_alerts) \<Rightarrow>
                 (case check_new_pattern enabled now (identify_top_pattern df) (last_top w) of
                    (lt, top_alerts) \<Rightarrow>
                      (\<lparr> last_bottom = lb, last_top = lt \<rparr>,
                       map Bottom_Alert bottom_alerts @ map Top_Alert top_alerts))))"

text \<open>
  Module B's cycle over the watch list: \<^verbatim>\<open>last_signals\<close> maps each instrument code to
  its pair of dates (it is created with an entry for every code of the list; a missing
  key would raise inside the per-instrument \<^verbatim>\<open>try\<close> and skip the instrument), and
  \<open>fetch\<close> gives the rows fetched for a code.
\<close>

definition multi_step ::
  "bool \<Rightarrow> int \<Rightarrow> (string \<Rightarrow> bar list) \<Rightarrow> string
     \<Rightarrow> (string \<rightharpoonup> watch) \<times> (string \<times> alert) list
     \<Rightarrow> (string \<rightharpoonup> watch) \<times> (string \<times> alert) list" where
  "multi_step enabled now fetch code = (\<lambda>(last_signals, sent).
     (case last_signals code of
        None \<Rightarrow> (last_signals, sent)
      | Some w \<Rightarrow>
          (case monitor_cycle enabled now (get_data (fetch code)) w of
             (w', alerts) \<Rightarrow> (last_signals(code \<mapsto> w'), sent @ map (Pair code) alerts))))"

definition multi_cycle ::
  "bool \<Rightarrow> int \<Rightarrow> (string \<Rightarrow> bar list) \<Rightarrow> string list \<Rightarrow> (string \<rightharpoonup> watch)
     \<Rightarrow> (string \<rightharpoonup> watch) \<times> (string \<times> alert) list" where
  "multi_cycle enabled now fetch watchlist last_signals =
     fold (multi_step enabled now fetch) watchlist (last_signals, [])"

text \<open>The first cycles of the endless loop: each cycle has its date and its fetched rows.\<close>

fun run_monitor :: "bool \<Rightarrow> (int \<times> bar list) list \<Rightarrow> watch \<Rightarrow> alert list" where
  "run_monitor enabled [] w = []"
| "run_monitor enabled ((now, bars) # cycles) w =
     (case monitor_cycle enabled now (get_data bars) w of
        (w', alerts) \<Rightarrow> alerts @ run_monitor enabled cycles w')"

text \<open>The same loop seen from one stored date: the detector's list of each cycle.\<close>

fun alerts_over :: "bool \<Rightarrow> (int \<times> pattern list) list \<Rightarrow> int option \<Rightarrow> pattern list" where
  "alerts_over enabled [] last_date = []"
| "alerts_over enabled ((now, patterns) # cycles) last_date =
     (case check_new_pattern enabled now patterns last_date of
        (last_date', sent) \<Rightarrow> sent @ alerts_over enabled cycles last_date')"

text \<open>The list that a cycle's bottom check sees (none when the cycle is skipped).\<close>

definition bottom_view :: "bar list \<Rightarrow> pattern list" where
  "bottom_view bars =
     (case get_data bars of
        None \<Rightarrow> []
      | Some df \<Rightarrow> if rows df = [] then [] else identify_bottom_pattern df)"

definition bottom_alerts :: "alert list \<Rightarrow> pattern list" where
  "bottom_alerts alerts =
     concat (map (\<lambda>a. case a of Bottom_Alert p \<Rightarrow> [p] | Top_Alert p \<Rightarrow> []) alerts)"

text \<open>The date of the most recent pattern in each cycle that has one.\<close>

definition latest_dates :: "(int \<times> pattern list) list \<Rightarrow> int list" where
  "latest_dates cycles = map (\<lambda>c. p_date (last (snd c))) (filter (\<lambda>c. snd c \<noteq> []) cycles)"

section \<open>The specification's RSI seed\<close>

text \<open>
  The specification's words for the seed of the RSI, to compare \<open>rsi_seed\<close> with: the
  average gain and the average loss over the first \<open>period\<close> deltas.
\<close>

definition spec_rsi_seed :: "real list \<Rightarrow> nat \<Rightarrow> real \<times> real" where
  "spec_rsi_seed prices period =
     (let first_deltas = take period (np_diff prices)
      in (sum_list (filter (\<lambda>d. d \<ge> 0) first_deltas) / real period,
          - sum_list (filter (\<lambda>d. d < 0) first_deltas) / real period))"

section \<open>What a run of module A has done\<close>

text \<open>
  Predicates on the run of module A's loop, used to state where its fills happen:
  a position entered at iteration \<open>j\<close> (a bottom recognised by iteration \<open>j - 1\<close>, filled
  at the open of bar \<open>j\<close>), a trade closed by the top signal of iteration \<open>m - 1\<close> at the
  open of bar \<open>m\<close>, a trade closed by the stop-loss at the close of the bar \<open>m\<close> whose
  close is at or below the stop level of the trade's entry price, and the facts that
  hold of the loop variables when iteration \<open>k\<close> starts. (No trade of a loop that is still
  running was closed by the trailing stop: that branch raises.)
\<close>

definition entered_at :: "frame \<Rightarrow> nat \<Rightarrow> real \<Rightarrow> int option \<Rightarrow> bool" where
  "entered_at df j price d \<longleftrightarrow>
     3 \<le> j \<and> bottom_signal_A df (j - 1) \<noteq> None \<and> price = open_at df j \<and> d = Some (date_at df j)"

definition pattern_exit_at :: "frame \<Rightarrow> nat \<Rightarrow> trade \<Rightarrow> bool" where
  "pattern_exit_at df m t \<longleftrightarrow>
     top_signal_A df (m - 1) \<noteq> None \<and> t_sell_reason t = Top_Fractal
       \<and> t_sell_price t = open_at df m \<and> t_sell_date t = date_at df m"

definition stop_exit_at :: "frame \<Rightarrow> params \<Rightarrow> nat \<Rightarrow> trade \<Rightarrow> bool" where
  "stop_exit_at df prm m t \<longleftrightarrow>
     t_sell_price t = close_at df m \<and> t_sell_date t = date_at df m
       \<and> t_sell_reason t = Stop_Loss (stop_loss_pct prm) \<and> use_stop_loss prm
       \<and> close_at df m \<le> stop_level (stop_loss_pct prm) (t_buy_price t)"

definition trade_ok_A :: "frame \<Rightarrow> params \<Rightarrow> nat \<Rightarrow> trade \<Rightarrow> bool" where
  "trade_ok_A df prm k t \<longleftrightarrow>
     (\<exists>j m. j \<le> m \<and> m < k \<and> entered_at df j (t_buy_price t) (t_buy_date t)
        \<and> ((j < m \<and> pattern_exit_at df m t) \<or> stop_exit_at df prm m t))"

definition inv_A :: "frame \<Rightarrow> params \<Rightarrow> nat \<Rightarrow> sim \<Rightarrow> bool" where
  "inv_A df prm k st \<longleftrightarrow>
     (pending_buy_signal st \<longrightarrow> \<not> holding st \<and> 3 \<le> k \<and> bottom_signal_A df (k - 1) \<noteq> None)
   \<and> (pending_sell_signal st \<longrightarrow>
        holding st \<and> top_signal_A df (k - 1) \<noteq> None \<and> pending_sell_reason st = Top_Fractal)
   \<and> (holding st \<longrightarrow> (\<exists>j. j < k \<and> entered_at df j (buy_price st) (buy_date st)))
   \<and> (\<forall>t \<in> set (trades st). trade_ok_A df prm k t)"

section \<open>Frames by length\<close>

text \<open>What \<open>get_data\<close> builds from at most 14 rows: the moving averages and no other
  indicator column.\<close>

definition base_frame :: "bar list \<Rightarrow> frame" where
  "base_frame bars =
     \<lparr> rows = bars,
       ma5 = rolling_mean 5 (map close bars), ma10 = rolling_mean 10 (map close bars),
       ma20 = rolling_mean 20 (map close bars), ma60 = rolling_mean 60 (map close bars),
       rsi = None, macd = None, macd_signal = None, macd_hist = None,
       bb_upper = None, bb_middle = None, bb_lower = None, atr = None \<rparr>"

text \<open>What \<open>get_data\<close> builds from 15 to 20 rows: also the RSI and ATR columns.\<close>

definition mid_frame :: "bar list \<Rightarrow> frame" where
  "mid_frame bars =
     (base_frame bars)
       \<lparr> rsi := Some (calculate_rsi (map close bars) 14),
         atr := calculate_atr (map high bars) (map low bars) (map close bars) 14 \<rparr>"

text \<open>What \<open>get_data\<close> builds from 21 to 26 rows: also the Bollinger columns.\<close>

definition band_frame :: "bar list \<Rightarrow> frame" where
  "band_frame bars =
     (mid_frame bars)
       \<lparr> bb_upper := Some (fst (calculate_bollinger_bands (map close bars) 20 2)),
         bb_middle := Some (fst (snd (calculate_bollinger_bands (map close bars) 20 2))),
         bb_lower := Some (snd (snd (calculate_bollinger_bands (map close bars) 20 2))) \<rparr>"

section \<open>Example series\<close>

definition mk_bar :: "int \<Rightarrow> real \<Rightarrow> real \<Rightarrow> real \<Rightarrow> real \<Rightarrow> real \<Rightarrow> bar" where
  "mk_bar d o_p h l c v = \<lparr> trade_date = d, open_p = o_p, high = h, low = l, close = c, vol = v \<rparr>"

text \<open>The three bars of the specification's worked example.\<close>

definition worked_bars :: "bar list" where
  "worked_bars =
     [mk_bar 1 10 11 9 10.5 100, mk_bar 2 10.5 10.6 9.5 9.8 90, mk_bar 3 9.8 10.2 9.6 10.0 150]"

text \<open>Nine falling bars and a bullish bar with a lower low at index 8.\<close>

definition falling_bars :: "bar list" where
  "falling_bars =
     [mk_bar 1 1001 1002 999 1000 100, mk_bar 2 1000 1001 998 999 100,
      mk_bar 3 999 1000 997 998 100, mk_bar 4 998 999 996 997 100,
      mk_bar 5 997 998 995 996 100, mk_bar 6 996 997 994 995 100,
      mk_bar 7 995 996 993 994 100, mk_bar 8 994 995 992 993 100,
      mk_bar 9 992 994 990 993 100]"

text \<open>
  Fifteen bars: after the bottom at index 8 a bearish high-volume top at index 9, a bar
  that opens at 1000 and closes at 940, and quiet bars.
\<close>

definition stale_bars :: "bar list" where
  "stale_bars = falling_bars @
     [mk_bar 10 1005 1010 995 1000 200, mk_bar 11 1000 1001 930 940 300,
      mk_bar 12 940 945 935 940 100, mk_bar 13 940 944 936 940 100,
      mk_bar 14 941 943 937 940 100, mk_bar 15 940 942 938 940 100]"

text \<open>
  On these bars: the trade that the stop-loss closes on the bar at index 10, the
  variables of module B's loop after that iteration, and the trade that module B closes
  at the open of the bar at index 13.
\<close>

definition stale_stopped :: trade where
  "stale_stopped =
     \<lparr> t_buy_date = Some 11, t_buy_price = 1000, t_buy_reason = Some [Bullish_Candle, RSI_Low],
       t_sell_date = 11, t_sell_price = 940, t_sell_reason = Stop_Loss 5,
       t_profit_pct = - 6, t_hold_days = 0 \<rparr>"

definition stale_flat :: sim where
  "stale_flat =
     init_B\<lparr>buy_reason := Some [Bullish_Candle, RSI_Low], pending_sell_signal := True,
       trades := [stale_stopped]\<rparr>"

definition stale_sold :: trade where
  "stale_sold =
     \<lparr> t_buy_date = Some 13, t_buy_price = 940,
       t_buy_reason = Some [Volume_Expansion, Downtrend, RSI_Low],
       t_sell_date = 14, t_sell_price = 941, t_sell_reason = Top_Fractal,
       t_profit_pct = 5 / 47, t_hold_days = 1 \<rparr>"

text \<open>Fifteen bars: after the bottom at index 8 six identical quiet bars.\<close>

definition calm_bars :: "bar list" where
  "calm_bars = falling_bars @
     [mk_bar 10 993 994 991 993 100, mk_bar 11 993 994 991 993 100,
      mk_bar 12 993 994 991 993 100, mk_bar 13 993 994 991 993 100,
      mk_bar 14 993 994 991 993 100, mk_bar 15 993 994 991 993 100]"

text \<open>The variables of module B's loop on these bars while it holds the position.\<close>

definition calm_held :: sim where
  "calm_held =
     init_B\<lparr>holding := True, buy_price := 993, buy_date := Some 11,
       buy_reason := Some [Bullish_Candle, RSI_Low], highest_price := 993\<rparr>"

text \<open>
  Fifteen bars: after the bottom at index 8 two quiet bars, a bar at index 11 whose high
  spikes to 1050 and that closes at 995, and quiet bars. With them the variables of
  module A's loop when iteration 11 starts, and the trade that the trailing-stop branch
  builds in that iteration.
\<close>

definition spike_bars :: "bar list" where
  "spike_bars = falling_bars @
     [mk_bar 10 993 994 991 993 100, mk_bar 11 993 994 991 993 100,
      mk_bar 12 993 1050 992 995 100, mk_bar 13 995 996 993 995 100,
      mk_bar 14 995 996 993 995 100, mk_bar 15 995 996 993 995 100]"

definition spike_held :: sim where
  "spike_held =
     init_A\<lparr>holding := True, buy_price := 993, buy_date := Some 11,
       buy_reason := Some [Bullish_Candle, RSI_Low], highest_price := 993,
       pending_buy_reason := Some [Bullish_Candle, RSI_Low]\<rparr>"

definition spike_trade :: trade where
  "spike_trade = close_trade spike_held 12 995 Trailing_Stop"

text \<open>
  Fifteen bars: after the bottom at index 8 a quiet bar, a rising bar, a bearish
  high-volume top at index 11 and slowly falling bars.
\<close>

definition cycle_bars :: "bar list" where
  "cycle_bars = falling_bars @
     [mk_bar 10 993 994 991 993 100, mk_bar 11 993 996 992 995 100,
      mk_bar 12 998 1000 994 996 200, mk_bar 13 996 998 993 995 100,
      mk_bar 14 995 996 993 994 100, mk_bar 15 994 995 992 993 100]"

text \<open>
  Sixteen falling bars with a bullish bar and a low spike at index 2, and the same
  series with the close and the high of the bar at index 4 changed.
\<close>

definition leak_head :: "bar list" where
  "leak_head =
     [mk_bar 1 101 102 98 100 100, mk_bar 2 100 101 97 99 100, mk_bar 3 97 98.5 90 98 100,
      mk_bar 4 98 99 95 97 100]"

definition leak_tail :: "bar list" where
  "leak_tail =
     [mk_bar 6 96 97 93 95 100, mk_bar 7 95 96 92 94 100,
      mk_bar 8 94 95 91 93 100, mk_bar 9 93 94 90 92 100, mk_bar 10 92 93 89 91 100,
      mk_bar 11 91 92 88 90 100, mk_bar 12 90 91 87 89 100, mk_bar 13 89 90 86 88 100,
      mk_bar 14 88 89 85 87 100, mk_bar 15 87 88 84 86 100, mk_bar 16 86 87 83 85 100]"

definition leak_bars :: "bar list" where
  "leak_bars = leak_head @ [mk_bar 5 97 98 94 96 100] @ leak_tail"

definition leak_bars_changed :: "bar list" where
  "leak_bars_changed = leak_head @ [mk_bar 5 97 122 94 120 100] @ leak_tail"

text \<open>
  Three fetches of one instrument: eleven bars with a bottom at index 9 (date 10); two
  more bars, with a second bottom at index 11 (date 12); and the same thirteen dates
  with a lower low in the last bar.
\<close>

definition window_head :: "bar list" where
  "window_head =
     [mk_bar 1 101 102 99 100 100, mk_bar 2 100 101 98 99 100, mk_bar 3 99 100 97 98 100,
      mk_bar 4 98 99 96 97 100, mk_bar 5 97 98 95 96 100, mk_bar 6 96 97 94 95 100,
      mk_bar 7 95 96 93 94 100, mk_bar 8 94 95 92 93 100, mk_bar 9 93 94 91 92 100,
      mk_bar 10 88 90 85 89 150, mk_bar 11 89 91 87 89.5 100]"

definition window1 :: "bar list" where
  "window1 = window_head"

definition window2 :: "bar list" where
  "window2 = window_head @ [mk_bar 12 86 88 84 87 150, mk_bar 13 87 89 86 87.5 50]"

definition window3 :: "bar list" where
  "window3 = window_head @ [mk_bar 12 86 88 84 87 150, mk_bar 13 87 89 83 84 120]"

text \<open>
  The loop variables of a position entered at \<open>e\<close> whose highest price so far is \<open>p\<close>,
  and three bars that rise from \<open>e\<close> to \<open>p\<close>, fall to \<open>m\<close> and close at \<open>c\<close>.
\<close>

definition peak_state :: "real \<Rightarrow> real \<Rightarrow> sim" where
  "peak_state e p =
     \<lparr> holding = True, buy_price = e, buy_date = Some 1, buy_reason = None,
       highest_price = p, pending_buy_signal = False, pending_buy_reason = None,
       pending_sell_signal = False, pending_sell_reason = Empty_String, trades = [] \<rparr>"

definition peak_bars :: "real \<Rightarrow> real \<Rightarrow> real \<Rightarrow> real \<Rightarrow> bar list" where
  "peak_bars e p m c =
     [mk_bar 1 e p e p 100, mk_bar 2 p p m m 100, mk_bar 3 m (max m c) (min m c) c 100]"

text \<open>The bottom patterns of these fetches, at index 9 and at index 11.\<close>

definition pattern_10 :: pattern where
  "pattern_10 =
     \<lparr> p_date = 10, p_price = 89, p_extreme = 85, p_volume = 150, p_score = 3,
       p_reason = [Bullish_Candle, Volume_Expansion, Downtrend] \<rparr>"

definition pattern_12 :: pattern where
  "pattern_12 =
     \<lparr> p_date = 12, p_price = 87, p_extreme = 84, p_volume = 150, p_score = 3,
       p_reason = [Bullish_Candle, Volume_Expansion, Downtrend] \<rparr>"

text \<open>Thirty-five identical bars.\<close>

definition long_bars :: "bar list" where
  "long_bars = map (\<lambda>d. mk_bar (int d) 10 11 9 10 100) [1..<36]"

text \<open>Twenty-one bars with a top fractal at index 1.\<close>

definition band_bars :: "bar list" where
  "band_bars =
     [mk_bar 1 10 11 9 10 100, mk_bar 2 10 12 9 10 100, mk_bar 3 10 11 9 10 100] @
     map (\<lambda>d. mk_bar d 10 11 9 10 100) [4, 5, 6, 7, 8, 9, 10, 11, 12, 13, 14, 15, 16, 17, 18,
       19, 20, 21]"

section \<open>The score is the sum of the satisfied weights\<close>

lemma accumulate_general:
  "accumulate fs (s, r) = (s + sum_list (map (\<lambda>f. fst (snd f)) (filter fst fs)), r @ satisfied fs)"
  by (induction fs arbitrary: s r) (auto simp: satisfied_def)



lemma weights_sum_over_set:
  "distinct (map (\<lambda>f. snd (snd f)) fs) \<Longrightarrow> (\<forall>f \<in> set fs. fst (snd f) = spec_weight (snd (snd f))) \<Longrightarrow>
   sum_list (map (\<lambda>f. fst (snd f)) (filter fst fs)) = spec_total (set (satisfied fs))"
proof (induction fs)
  case Nil
  then show ?case by (simp add: spec_total_def satisfied_def)
next
  case (Cons f fs)
  have ih: "sum_list (map (\<lambda>f. fst (snd f)) (filter fst fs)) = spec_total (set (satisfied fs))"
    by (rule Cons.IH) (use Cons.prems in auto)
  have notin: "snd (snd f) \<notin> set (satisfied fs)"
    using Cons.prems(1) by (auto simp: satisfied_def)
  show ?case
  proof (cases "fst f")
    case True
    then show ?thesis using ih notin Cons.prems(2)
      by (simp add: satisfied_def spec_total_def)
  next
    case False
    then show ?thesis using ih by (simp add: satisfied_def)
  qed
qed

lemma bottom_factors_table:
  "distinct (map (\<lambda>f. snd (snd f)) (bottom_factors df i))"
  "\<forall>f \<in> set (bottom_factors df i). fst (snd f) = spec_weight (snd (snd f))"
  by (simp_all add: bottom_factors_def spec_weight_def)

lemma top_factors_table:
  "distinct (map (\<lambda>f. snd (snd f)) (top_factors df i))"
  "\<forall>f \<in> set (top_factors df i). fst (snd f) = spec_weight (snd (snd f))"
  by (simp_all add: top_factors_def spec_weight_def)

lemma bottom_score_reason:
  "accumulate (bottom_factors df i) (0, []) =
     (spec_total (set (satisfied (bottom_factors df i))), satisfied (bottom_factors df i))"
  using weights_sum_over_set[OF bottom_factors_table] by (simp add: accumulate_general)

lemma top_score_reason:
  "accumulate (top_factors df i) (0, []) =
     (spec_total (set (satisfied (top_factors df i))), satisfied (top_factors df i))"
  using weights_sum_over_set[OF top_factors_table] by (simp add: accumulate_general)



lemma fold_bottom_pattern_step:
  "fold (bottom_pattern_step df) is acc =
     acc @ map (\<lambda>i. bottom_pattern df i (spec_total (set (satisfied (bottom_factors df i))))
                       (satisfied (bottom_factors df i)))
             (filter (\<lambda>i. is_bottom df i \<and> 3 \<le> spec_total (set (satisfied (bottom_factors df i)))) is)"
  by (induction "is" arbitrary: acc) (simp_all add: bottom_pattern_step_def bottom_score_reason)

lemma fold_top_pattern_step:
  "fold (top_pattern_step df) is acc =
     acc @ map (\<lambda>i. top_pattern df i (spec_total (set (satisfied (top_factors df i))))
                       (satisfied (top_factors df i)))
             (filter (\<lambda>i. is_top df i \<and> 3 \<le> spec_total (set (satisfied (top_factors df i)))) is)"
  by (induction "is" arbitrary: acc) (simp_all add: top_pattern_step_def top_score_reason)

lemma identify_bottom_pattern_eq:
  "identify_bottom_pattern df =
     map (\<lambda>i. bottom_pattern df i (spec_total (set (satisfied (bottom_factors df i))))
                (satisfied (bottom_factors df i)))
       (filter (\<lambda>i. is_bottom df i \<and> 3 \<le> spec_total (set (satisfied (bottom_factors df i))))
          [1..<length (rows df) - 1])"
  by (simp add: identify_bottom_pattern_def fold_bottom_pattern_step)

lemma identify_top_pattern_eq:
  "identify_top_pattern df =
     map (\<lambda>i. top_pattern df i (spec_total (set (satisfied (top_factors df i))))
                (satisfied (top_factors df i)))
       (filter (\<lambda>i. is_top df i \<and> 3 \<le> spec_total (set (satisfied (top_factors df i))))
          [1..<length (rows df) - 1])"
  by (simp add: identify_top_pattern_def fold_top_pattern_step)


lemmas window_eval = base_frame_def window1_def window2_def window3_def window_head_def mk_bar_def is_bottom_def is_top_def
  satisfied_def bottom_factors_def top_factors_def rolling_mean_def np_mean_def slice_def lt_nan_def gt_nan_def
  spec_total_def spec_weight_def bottom_pattern_def top_pattern_def


section \<open>Frames that get_data builds\<close>

lemma get_data_short: "length bars \<le> 14 \<Longrightarrow> get_data bars = Some (base_frame bars)"
  by (simp add: get_data_def base_frame_def Let_def)

lemma calculate_atr_Some: "period < length hs \<Longrightarrow> calculate_atr hs ls cs period \<noteq> None"
  by (simp add: calculate_atr_def Let_def)

lemma get_data_mid:
  assumes "14 < length bars" "length bars \<le> 20"
  shows "get_data bars = Some (mid_frame bars)"
proof -
  obtain a where a: "calculate_atr (map high bars) (map low bars) (map close bars) 14 = Some a"
    using calculate_atr_Some[of 14 "map high bars"] assms by auto
  show ?thesis using assms a by (simp add: get_data_def mid_frame_def base_frame_def Let_def)
qed

section \<open>The stop levels\<close>

text \<open>
  How \<open>fl64\<close> is evaluated: once the binade of the argument is known, it is a rounding
  of a quotient of integers. The rounded value is within one part in \<^verbatim>\<open>2**53\<close> of the
  argument, which decides every comparison of a close with a stop level away from a
  tie; at a tie the level is computed exactly.
\<close>

lemma binade_unique:
  assumes "2 powr of_int k \<le> \<bar>x\<bar>" "\<bar>x\<bar> < 2 powr (of_int k + 1)"
  shows "\<lfloor>log 2 \<bar>x\<bar>\<rfloor> = k"
proof -
  have pos: "0 < \<bar>x\<bar>" using assms(1) by (smt (verit) powr_gt_zero)
  have "of_int k \<le> log 2 \<bar>x\<bar>" using assms(1) pos by (simp add: le_log_iff)
  moreover have "log 2 \<bar>x\<bar> < of_int k + 1" using assms(2) pos by (simp add: log_less_iff)
  ultimately show ?thesis by (simp add: floor_eq_iff)
qed

lemma fl64_binade:
  assumes "2 powr of_int k \<le> \<bar>x\<bar>" "\<bar>x\<bar> < 2 powr (of_int k + 1)"
  shows "fl64 x = of_int (round_half_even (x / 2 powr of_int (k - 52))) * 2 powr of_int (k - 52)"
proof -
  have "x \<noteq> 0" using assms(1) by (smt (verit) powr_gt_zero)
  then show ?thesis using binade_unique[OF assms] by (simp add: fl64_def Let_def)
qed

lemma fl64_above_one:
  assumes "2 ^ n \<le> \<bar>x\<bar>" "\<bar>x\<bar> < 2 ^ Suc n" "n \<le> 52"
  shows "fl64 x = of_int (round_half_even (x * 2 ^ (52 - n))) / 2 ^ (52 - n)"
proof -
  have a: "2 powr of_int (int n) \<le> \<bar>x\<bar>" "\<bar>x\<bar> < 2 powr (of_int (int n) + 1)"
    using assms(1,2) by (simp_all add: powr_realpow powr_add)
  have "(2::real) powr of_int (int n - 52) = 2 powr (- real (52 - n))"
    using assms(3) by (simp add: of_nat_diff)
  also have "\<dots> = 1 / 2 ^ (52 - n)"
    by (simp add: powr_minus powr_realpow divide_inverse)
  finally show ?thesis using fl64_binade[OF a] by simp
qed

lemma fl64_below_two:
  assumes "1 / 2 ^ n \<le> \<bar>x\<bar>" "\<bar>x\<bar> < 2 / 2 ^ n"
  shows "fl64 x = of_int (round_half_even (x * 2 ^ (52 + n))) / 2 ^ (52 + n)"
proof -
  have p: "(2::real) powr (- real m) = 1 / 2 ^ m" for m
    by (simp add: powr_minus powr_realpow divide_inverse)
  have q: "(2::real) powr (1 - real n) = 2 / 2 ^ n"
    by (simp add: powr_diff powr_realpow)
  have a: "2 powr of_int (- int n) \<le> \<bar>x\<bar>" "\<bar>x\<bar> < 2 powr (of_int (- int n) + 1)"
    using assms by (simp_all add: p q)
  have "of_int (- int n - 52) = - real (52 + n)"
    by simp
  then have "(2::real) powr of_int (- int n - 52) = 2 powr (- real (52 + n))"
    by (rule arg_cong)
  also have "\<dots> = 1 / 2 ^ (52 + n)"
    by (rule p)
  finally show ?thesis using fl64_binade[OF a] by simp
qed

lemma fl64_095:
  "fl64 (95 / 100) = 4278419646001971 / 4503599627370496"
  "fl64 (19 / 20) = 4278419646001971 / 4503599627370496"
  using fl64_below_two[of 1 "95/100"]
  by (simp_all add: round_half_even_def Let_def)

lemma fl64_005:
  "fl64 (5 / 100) = 3602879701896397 / 72057594037927936"
  "fl64 (1 / 20) = 3602879701896397 / 72057594037927936"
  using fl64_below_two[of 5 "5/100"]
  by (simp_all add: round_half_even_def Let_def)

lemma abs_round_half_even: "\<bar>of_int (round_half_even q) - q\<bar> \<le> 1 / 2"
  unfolding round_half_even_def Let_def by (auto; linarith)

lemma fl64_error: "\<bar>fl64 x - x\<bar> \<le> \<bar>x\<bar> / 2 ^ 53"
proof (cases "x = 0")
  case True then show ?thesis by (simp add: fl64_def)
next
  case False
  define e where "e = \<lfloor>log 2 \<bar>x\<bar>\<rfloor> - 52"
  define u :: real where "u = 2 powr of_int e"
  have u: "0 < u" by (simp add: u_def)
  have "2 powr of_int \<lfloor>log 2 \<bar>x\<bar>\<rfloor> \<le> 2 powr log 2 \<bar>x\<bar>"
    by (intro powr_mono) simp_all
  then have "2 powr of_int \<lfloor>log 2 \<bar>x\<bar>\<rfloor> \<le> \<bar>x\<bar>" using False by simp
  moreover have "2 powr of_int \<lfloor>log 2 \<bar>x\<bar>\<rfloor> = u * 2 ^ 52"
    by (simp add: u_def e_def powr_diff)
  ultimately have ub: "u \<le> \<bar>x\<bar> / 2 ^ 52" by (simp add: field_simps)
  have "fl64 x = of_int (round_half_even (x / u)) * u"
    using False by (simp add: fl64_def Let_def e_def u_def)
  then have "fl64 x - x = (of_int (round_half_even (x / u)) - x / u) * u"
    using u by (simp add: field_simps)
  then have "\<bar>fl64 x - x\<bar> = \<bar>of_int (round_half_even (x / u)) - x / u\<bar> * u"
    using u by (simp add: abs_mult)
  also have "\<dots> \<le> 1 / 2 * u"
    using abs_round_half_even[of "x / u"] u by (intro mult_right_mono) simp_all
  also have "\<dots> \<le> \<bar>x\<bar> / 2 ^ 53" using ub by simp
  finally show ?thesis .
qed

lemma stop_level_5: "stop_level 5 b = trail_level b"
proof -
  have "fl64 (1 - fl64 (5 / 100)) = fl64 (95 / 100)"
    unfolding fl64_005 fl64_095
    using fl64_below_two[of 1 "1 - 3602879701896397 / 72057594037927936"]
    by (simp add: round_half_even_def Let_def)
  then show ?thesis by (simp add: stop_level_def trail_level_def)
qed

lemma trail_level_bounds:
  assumes "0 < h"
  shows "h * (9499 / 10000) < trail_level h" "trail_level h < h * (9501 / 10000)"
proof -
  define x where "x = h * (4278419646001971 / 4503599627370496)"
  have x: "0 < x" using assms by (simp add: x_def)
  have t: "trail_level h = fl64 x" by (simp add: trail_level_def fl64_095 x_def)
  have "\<bar>fl64 x - x\<bar> \<le> x / 2 ^ 53"
    using fl64_error[of x] x by simp
  then have e: "x - x / 2 ^ 53 \<le> fl64 x" "fl64 x \<le> x + x / 2 ^ 53"
    by linarith+
  have "x - x / 2 ^ 53 = h * (4278419646001971 / 4503599627370496 * (1 - 1 / 2 ^ 53))"
    "x + x / 2 ^ 53 = h * (4278419646001971 / 4503599627370496 * (1 + 1 / 2 ^ 53))"
    by (simp_all add: x_def algebra_simps)
  moreover have "h * (9499 / 10000) < h * (4278419646001971 / 4503599627370496 * (1 - 1 / 2 ^ 53))"
    "h * (4278419646001971 / 4503599627370496 * (1 + 1 / 2 ^ 53)) < h * (9501 / 10000)"
    using assms by (simp_all only: mult_less_cancel_left_pos) simp_all
  ultimately show "h * (9499 / 10000) < trail_level h" "trail_level h < h * (9501 / 10000)"
    using e unfolding t by linarith+
qed

lemma level_decided:
  "0 < h \<Longrightarrow> h * (9501 / 10000) \<le> c \<Longrightarrow> (c \<le> trail_level h) = False"
  "0 < h \<Longrightarrow> c \<le> h * (9499 / 10000) \<Longrightarrow> (c \<le> trail_level h) = True"
  using trail_level_bounds[of h] by simp_all

lemma trail_level_120: "trail_level 120 = 114"
  unfolding trail_level_def fl64_095
  using fl64_above_one[of 6 "120 * (4278419646001971 / 4503599627370496)"]
  by (simp add: round_half_even_def Let_def)

lemma trail_level_3: "trail_level 3 = 1604407367250739 / 562949953421312"
  unfolding trail_level_def fl64_095
  using fl64_above_one[of 1 "3 * (4278419646001971 / 4503599627370496)"]
  by (simp add: round_half_even_def Let_def)

lemma fl64_285:
  "fl64 (285 / 100) = 6417629469002957 / 2251799813685248"
  "fl64 (57 / 20) = 6417629469002957 / 2251799813685248"
  using fl64_above_one[of 1 "285 / 100"]
  by (simp_all add: round_half_even_def Let_def)

lemma fl64_1805:
  "fl64 (1805 / 100) = 5080623329627341 / 281474976710656"
  "fl64 (361 / 20) = 5080623329627341 / 281474976710656"
  using fl64_above_one[of 4 "1805 / 100"]
  by (simp_all add: round_half_even_def Let_def)

lemma trail_level_19: "trail_level 19 = 5080623329627341 / 281474976710656"
  unfolding trail_level_def fl64_095
  using fl64_above_one[of 4 "19 * (4278419646001971 / 4503599627370496)"]
  by (simp add: round_half_even_def Let_def)

lemma fl64_11401: "fl64 (11401 / 100) = 8022740523695473 / 70368744177664"
  using fl64_above_one[of 6 "11401 / 100"]
  by (simp add: round_half_even_def Let_def)

section \<open>Module A: the invariant of the loop\<close>

lemma trade_ok_A_mono: "trade_ok_A df prm k t \<Longrightarrow> trade_ok_A df prm (Suc k) t"
  unfolding trade_ok_A_def by (meson less_SucI)

lemma inv_A_init: "inv_A df prm 2 init_A"
  by (simp add: inv_A_def init_A_def)

lemma inv_A_fills:
  assumes "inv_A df prm k st" "2 \<le> k"
  defines "st2 \<equiv> fill_sell_A df k (fill_buy_A df k (update_highest_A df k st))"
  shows "\<not> pending_buy_signal st2" "\<not> pending_sell_signal st2"
        "holding st2 \<longrightarrow> (\<exists>j. j \<le> k \<and> entered_at df j (buy_price st2) (buy_date st2))"
        "\<forall>t \<in> set (trades st2). trade_ok_A df prm (Suc k) t"
proof -
  show "\<not> pending_buy_signal st2" "\<not> pending_sell_signal st2"
    using assms(1) unfolding st2_def inv_A_def fill_sell_A_def fill_buy_A_def update_highest_A_def
    by auto
  show "holding st2 \<longrightarrow> (\<exists>j. j \<le> k \<and> entered_at df j (buy_price st2) (buy_date st2))"
    using assms(1) unfolding st2_def inv_A_def fill_sell_A_def fill_buy_A_def update_highest_A_def entered_at_def
    by (auto intro: less_imp_le)
  show "\<forall>t \<in> set (trades st2). trade_ok_A df prm (Suc k) t"
  proof
    fix t assume t: "t \<in> set (trades st2)"
    show "trade_ok_A df prm (Suc k) t"
    proof (cases "t \<in> set (trades st)")
      case True
      then show ?thesis using assms(1) trade_ok_A_mono unfolding inv_A_def by blast
    next
      case False
      then have ps: "pending_sell_signal st" "holding st"
        and teq: "t = close_trade (update_highest_A df k st) (date_at df k) (open_at df k) Top_Fractal"
        using t assms(1) unfolding st2_def inv_A_def fill_sell_A_def fill_buy_A_def update_highest_A_def
        by (auto split: if_splits)
      from ps assms(1) obtain j where j: "j < k" "entered_at df j (buy_price st) (buy_date st)"
        and top: "top_signal_A df (k - 1) \<noteq> None"
        unfolding inv_A_def by blast
      show ?thesis
        unfolding trade_ok_A_def
        apply (rule exI[of _ j], rule exI[of _ k])
        using j top teq
        by (auto simp: pattern_exit_at_def close_trade_def update_highest_A_def entered_at_def)
    qed
  qed
qed


lemma exits_A_cases:
  "exits_A df prm k st = Inr st
   \<or> (holding st \<and> \<not> pending_sell_signal st \<and>
       ((stop_loss_hit prm st (close_at df k) \<and>
           exits_A df prm k st =
             Inr (st\<lparr>trades := trades st @
                   [close_trade st (date_at df k) (close_at df k) (Stop_Loss (stop_loss_pct prm))],
                holding := False\<rparr>))
        \<or> (\<not> stop_loss_hit prm st (close_at df k) \<and> trailing_stop_hit prm st (close_at df k) \<and>
           exits_A df prm k st = Inl UnboundLocalError)
        \<or> (\<not> stop_loss_hit prm st (close_at df k) \<and> \<not> trailing_stop_hit prm st (close_at df k) \<and>
           2 \<le> k \<and> top_signal_A df k \<noteq> None \<and>
           exits_A df prm k st =
             Inr (st\<lparr>pending_sell_signal := True, pending_sell_reason := Top_Fractal\<rparr>))))"
  by (auto simp: exits_A_def Let_def split: option.splits)

lemma detect_bottom_A_cases:
  "detect_bottom_A df k st = st
   \<or> (\<not> holding st \<and> \<not> pending_buy_signal st \<and> bottom_signal_A df k \<noteq> None \<and>
       (\<exists>r. detect_bottom_A df k st = st\<lparr>pending_buy_signal := True, pending_buy_reason := Some r\<rparr>))"
  by (auto simp: detect_bottom_A_def split: option.splits)

lemma inv_A_step:
  assumes inv: "inv_A df prm k st" and k: "2 \<le> k" and ret: "step_A df prm k st = Inr st'"
  shows "inv_A df prm (Suc k) st'"
proof -
  define st2 where "st2 = fill_sell_A df k (fill_buy_A df k (update_highest_A df k st))"
  define st3 where "st3 = detect_bottom_A df k st2"
  have step: "exits_A df prm k st3 = Inr st'"
    using ret by (simp add: step_A_def st2_def st3_def)
  note f = inv_A_fills[OF inv k, folded st2_def]
  have i3: "pending_buy_signal st3 \<longrightarrow> \<not> holding st3 \<and> bottom_signal_A df k \<noteq> None"
    and s3: "\<not> pending_sell_signal st3"
    and h3: "holding st3 \<longrightarrow> (\<exists>j. j \<le> k \<and> entered_at df j (buy_price st3) (buy_date st3))"
    and t3: "\<forall>t \<in> set (trades st3). trade_ok_A df prm (Suc k) t"
    using detect_bottom_A_cases[of df k st2] f unfolding st3_def by auto
  consider (same) "st' = st3"
    | (stop) "holding st3" "stop_loss_hit prm st3 (close_at df k)"
        "st' = st3\<lparr>trades := trades st3 @
           [close_trade st3 (date_at df k) (close_at df k) (Stop_Loss (stop_loss_pct prm))],
           holding := False\<rparr>"
    | (top) "holding st3" "top_signal_A df k \<noteq> None"
        "st' = st3\<lparr>pending_sell_signal := True, pending_sell_reason := Top_Fractal\<rparr>"
    using exits_A_cases[of df prm k st3] step by auto
  then show ?thesis
  proof cases
    case same
    then show ?thesis using i3 s3 h3 t3 k unfolding inv_A_def by (auto intro: le_imp_less_Suc)
  next
    case stop
    from stop(1) h3 obtain j where j: "j \<le> k" "entered_at df j (buy_price st3) (buy_date st3)"
      by blast
    have "trade_ok_A df prm (Suc k)
            (close_trade st3 (date_at df k) (close_at df k) (Stop_Loss (stop_loss_pct prm)))"
      unfolding trade_ok_A_def
      apply (rule exI[of _ j], rule exI[of _ k])
      using j stop(2)
      by (simp add: stop_exit_at_def close_trade_def stop_loss_hit_def)
    then show ?thesis using i3 s3 t3 k stop(1) unfolding stop(3) inv_A_def by auto
  next
    case top
    then show ?thesis using i3 s3 h3 t3 k unfolding top(3) inv_A_def
      by (auto intro: le_imp_less_Suc)
  qed
qed

lemma run_A_Suc:
  "2 \<le> k \<Longrightarrow> run_A df prm (Suc k) =
     (case run_A df prm k of Inl e \<Rightarrow> Inl e | Inr st \<Rightarrow> step_A df prm k st)"
  by (simp add: run_A_def)

lemma inv_A_run: "2 \<le> k \<Longrightarrow> run_A df prm k = Inr st \<Longrightarrow> inv_A df prm k st"
proof (induction k arbitrary: st rule: dec_induct)
  case base
  then show ?case by (simp add: run_A_def inv_A_init)
next
  case (step n)
  from step.prems step.hyps(1) obtain st0 where
    st0: "run_A df prm n = Inr st0" "step_A df prm n st0 = Inr st"
    by (auto simp: run_A_Suc split: sum.splits)
  show ?case using inv_A_step[OF step.IH[OF st0(1)] step.hyps(1) st0(2)] .
qed

section \<open>Evaluating the detectors and the loop\<close>

lemma rsi_fold_outside:
  "i \<notin> set js \<Longrightarrow> snd (snd (fold (rsi_step deltas period) js (u, d, r))) ! i = r ! i"
proof (induction js arbitrary: u d r)
  case Nil
  then show ?case by simp
next
  case (Cons j js)
  then have "i \<noteq> j" "i \<notin> set js" by auto
  then show ?case using Cons.IH
    by (simp add: rsi_step_def Let_def)
qed

lemma calculate_rsi_warmup:
  assumes "i < period" "i < length prices"
  shows "calculate_rsi prices period ! i =
           rsi_value (fst (rsi_seed prices period)) (snd (rsi_seed prices period))"
proof -
  have "i \<notin> set [period..<length prices]" using assms by simp
  then show ?thesis using assms
    by (simp add: calculate_rsi_def Let_def case_prod_unfold rsi_fold_outside)
qed

lemma causal_factors_prefix:
  "causal_bottom_factors (iloc_upto df (Suc i)) (i - Suc 0) = causal_bottom_factors df (i - Suc 0)"
  "causal_top_factors (iloc_upto df (Suc i)) (i - Suc 0) = causal_top_factors df (i - Suc 0)"
  by (auto simp: causal_bottom_factors_def causal_top_factors_def iloc_upto_def
      split: option.splits)

lemma fractal_prefix:
  "1 \<le> i \<Longrightarrow> is_bottom (iloc_upto df (Suc i)) (i - Suc 0) = is_bottom df (i - Suc 0)"
  "1 \<le> i \<Longrightarrow> is_top (iloc_upto df (Suc i)) (i - Suc 0) = is_top df (i - Suc 0)"
  by (simp_all add: is_bottom_def is_top_def iloc_upto_def)

lemma bottom_signal_A_eq:
  "1 \<le> i \<Longrightarrow> bottom_signal_A df i =
     (if is_bottom df (i - 1) then
        (case accumulate (causal_bottom_factors df (i - 1)) (0, []) of
           (score, reason) \<Rightarrow> if score \<ge> 3 then Some (score, reason) else None)
      else None)"
  by (simp add: bottom_signal_A_def Let_def causal_factors_prefix fractal_prefix)

lemma top_signal_A_eq:
  "1 \<le> i \<Longrightarrow> top_signal_A df i =
     (if is_top df (i - 1) then
        (case accumulate (causal_top_factors df (i - 1)) (0, []) of
           (score, reason) \<Rightarrow> if score \<ge> 3 then Some (score, reason) else None)
      else None)"
  by (simp add: top_signal_A_def Let_def causal_factors_prefix fractal_prefix)

lemmas bars_eval = falling_bars_def mk_bar_def base_frame_def mid_frame_def

lemma rows_frame: "rows (mid_frame bars) = bars" "rows (base_frame bars) = bars"
  by (simp_all add: mid_frame_def base_frame_def)

lemma cycle_seed: "rsi_seed (map close cycle_bars) 14 = (3/14, 10/14)"
  by (simp add: rsi_seed_def np_diff_def cycle_bars_def bars_eval Let_def)

lemma cycle_rsi: "i < 14 \<Longrightarrow> rsi (mid_frame cycle_bars) = Some r \<Longrightarrow> r ! i = 300/13"
  using calculate_rsi_warmup[of i 14 "map close cycle_bars"]
  by (auto simp: mid_frame_def base_frame_def cycle_seed rsi_value_def) (simp add: cycle_bars_def falling_bars_def)


lemmas signal_eval = bottom_signal_A_eq top_signal_A_eq is_bottom_def is_top_def
  causal_bottom_factors_def causal_top_factors_def lt_nan_def gt_nan_def
  rolling_mean_def np_mean_def slice_def calculate_rsi_warmup rsi_seed_def np_diff_def
  rsi_value_def Let_def

lemma cycle_bottom_9: "bottom_signal_A (mid_frame cycle_bars) 9 = Some (3, [Bullish_Candle, RSI_Low])"
  by (simp add: signal_eval cycle_bars_def bars_eval)

lemma cycle_bottom_none:
  "i \<in> {2, 3, 4, 5, 6, 7, 8, 13, 14} \<Longrightarrow> bottom_signal_A (mid_frame cycle_bars) i = None"
  by (auto simp: signal_eval cycle_bars_def bars_eval)

lemma cycle_top_12: "top_signal_A (mid_frame cycle_bars) 12 = Some (3, [Bearish_Candle, Volume_Expansion, Uptrend])"
  by (simp add: signal_eval cycle_bars_def bars_eval)

lemma cycle_top_none:
  "i \<in> {10, 11} \<Longrightarrow> top_signal_A (mid_frame cycle_bars) i = None"
  by (auto simp: signal_eval cycle_bars_def bars_eval)


lemmas step_A_eval = step_A_def update_highest_A_def fill_buy_A_def fill_sell_A_def
  detect_bottom_A_def exits_A_def stop_loss_hit_def trailing_stop_hit_def close_trade_def
  days_since_def default_params_def init_A_def stop_level_5 level_decided


lemma run_A_2: "run_A df prm 2 = Inr init_A"
  by (simp add: run_A_def)

lemma step_A_idle:
  "\<not> holding st \<Longrightarrow> \<not> pending_buy_signal st \<Longrightarrow> bottom_signal_A df i = None
     \<Longrightarrow> step_A df prm i st = Inr st"
  by (simp add: step_A_def update_highest_A_def fill_buy_A_def fill_sell_A_def
      detect_bottom_A_def exits_A_def)

lemma step_A_signal:
  "\<not> holding st \<Longrightarrow> \<not> pending_buy_signal st \<Longrightarrow> 2 \<le> i \<Longrightarrow> bottom_signal_A df i = Some (sc, r)
     \<Longrightarrow> step_A df prm i st = Inr (st\<lparr>pending_buy_signal := True, pending_buy_reason := Some r\<rparr>)"
  by (simp add: step_A_def update_highest_A_def fill_buy_A_def fill_sell_A_def
      detect_bottom_A_def exits_A_def)

lemma run_A_next:
  "2 \<le> k \<Longrightarrow> run_A df prm k = Inr st \<Longrightarrow> run_A df prm (Suc k) = step_A df prm k st"
  by (simp add: run_A_def)

lemma run_A_raised:
  "2 \<le> k \<Longrightarrow> run_A df prm k = Inl e \<Longrightarrow> run_A df prm (Suc k) = Inl e"
  by (simp add: run_A_def)

lemma run_A_idle_9:
  assumes "bottom_signal_A df 2 = None" "bottom_signal_A df 3 = None"
    "bottom_signal_A df 4 = None" "bottom_signal_A df 5 = None" "bottom_signal_A df 6 = None"
    "bottom_signal_A df 7 = None" "bottom_signal_A df 8 = None"
  shows "run_A df prm 9 = Inr init_A"
proof -
  have idle: "bottom_signal_A df i = None \<Longrightarrow> step_A df prm i init_A = Inr init_A" for i
    by (rule step_A_idle) (simp_all add: init_A_def)
  have "run_A df prm (Suc (Suc (Suc (Suc (Suc (Suc (Suc 2))))))) = Inr init_A"
    by (simp add: run_A_def idle assms)
  then show ?thesis by (simp add: eval_nat_numeral)
qed

lemma cycle_run_9: "run_A (mid_frame cycle_bars) default_params 9 = Inr init_A"
  by (rule run_A_idle_9) (simp_all add: cycle_bottom_none)

lemmas cycle_data = rows_frame cycle_bars_def falling_bars_def mk_bar_def

lemma cycle_row:
  "rows (mid_frame cycle_bars) ! 10 = mk_bar 11 993 996 992 995 100"
  "rows (mid_frame cycle_bars) ! 11 = mk_bar 12 998 1000 994 996 200"
  "rows (mid_frame cycle_bars) ! 12 = mk_bar 13 996 998 993 995 100"
  "rows (mid_frame cycle_bars) ! 13 = mk_bar 14 995 996 993 994 100"
  "rows (mid_frame cycle_bars) ! 14 = mk_bar 15 994 995 992 993 100"
  by (simp_all add: rows_frame cycle_bars_def falling_bars_def)

lemmas cycle_step = step_A_eval Let_def cycle_row mk_bar_def
  cycle_bottom_none[of 13, simplified] cycle_bottom_none[of 14, simplified]
  cycle_top_none[of 10, simplified] cycle_top_none[of 11, simplified] cycle_top_12

lemma cycle_run_10:
  "run_A (mid_frame cycle_bars) default_params 10 =
     Inr (init_A\<lparr>pending_buy_signal := True, pending_buy_reason := Some [Bullish_Candle, RSI_Low]\<rparr>)"
  using run_A_next[OF _ cycle_run_9]
  by (simp add: step_A_signal[OF _ _ _ cycle_bottom_9] init_A_def)

lemma cycle_run_11:
  "run_A (mid_frame cycle_bars) default_params 11 =
     Inr (init_A\<lparr>holding := True, buy_price := 993, buy_date := Some 11,
            buy_reason := Some [Bullish_Candle, RSI_Low], highest_price := 993,
            pending_buy_reason := Some [Bullish_Candle, RSI_Low]\<rparr>)"
  using run_A_next[OF _ cycle_run_10]
  by (simp add: cycle_step)

lemma cycle_run_12:
  "run_A (mid_frame cycle_bars) default_params 12 =
     Inr (init_A\<lparr>holding := True, buy_price := 993, buy_date := Some 11,
            buy_reason := Some [Bullish_Candle, RSI_Low], highest_price := 1000,
            pending_buy_reason := Some [Bullish_Candle, RSI_Low]\<rparr>)"
  using run_A_next[OF _ cycle_run_11]
  by (simp add: cycle_step)

lemma cycle_run_13:
  "run_A (mid_frame cycle_bars) default_params 13 =
     Inr (init_A\<lparr>holding := True, buy_price := 993, buy_date := Some 11,
            buy_reason := Some [Bullish_Candle, RSI_Low], highest_price := 1000,
            pending_buy_reason := Some [Bullish_Candle, RSI_Low],
            pending_sell_signal := True, pending_sell_reason := Top_Fractal\<rparr>)"
  using run_A_next[OF _ cycle_run_12]
  by (simp add: cycle_step)

lemma cycle_run_14:
  "run_A (mid_frame cycle_bars) default_params 14 =
     Inr (init_A\<lparr>buy_price := 993, buy_date := Some 11,
            buy_reason := Some [Bullish_Candle, RSI_Low], highest_price := 1000,
            pending_buy_reason := Some [Bullish_Candle, RSI_Low],
            pending_sell_reason := Top_Fractal,
            trades := [\<lparr> t_buy_date = Some 11, t_buy_price = 993,
               t_buy_reason = Some [Bullish_Candle, RSI_Low],
               t_sell_date = 14, t_sell_price = 995, t_sell_reason = Top_Fractal,
               t_profit_pct = 200 / 993, t_hold_days = 3 \<rparr>]\<rparr>)"
  using run_A_next[OF _ cycle_run_13]
  by (simp add: cycle_step)


lemma step_A_buy_fill:
  assumes "pending_buy_signal st" "\<not> holding st"
  shows "\<exists>st'. step_A df prm k st = Inr st' \<and> buy_price st' = open_at df k
            \<and> buy_date st' = Some (date_at df k)"
  using assms
  by (auto simp: step_A_def update_highest_A_def fill_buy_A_def fill_sell_A_def
      detect_bottom_A_def exits_A_def Let_def trailing_stop_hit_def split: option.splits)

lemma step_A_sell_fill:
  assumes "pending_sell_signal st" "holding st" "top_signal_A df (k - 1) \<noteq> None"
    "pending_sell_reason st = Top_Fractal"
  shows "\<exists>st' t. step_A df prm k st = Inr st' \<and> \<not> holding st'
            \<and> trades st' = trades st @ [t] \<and> pattern_exit_at df k t"
  using assms
  by (auto simp: step_A_def update_highest_A_def fill_buy_A_def fill_sell_A_def
      detect_bottom_A_def exits_A_def Let_def pattern_exit_at_def close_trade_def
      split: option.splits)

lemma finish_trades_A:
  assumes "inv_A df prm k st" "t \<in> set (finish df st)"
  shows "trade_ok_A df prm k t
     \<or> (t_sell_reason t = Backtest_End
        \<and> (\<exists>j<k. entered_at df j (t_buy_price t) (t_buy_date t))
        \<and> t_sell_price t = close_at df (length (rows df) - 1)
        \<and> t_sell_date t = date_at df (length (rows df) - 1))"
  using assms
  by (auto simp: finish_def inv_A_def close_trade_def split: if_splits)

text \<open>
  While module A's loop has not raised: a pending entry at the start of iteration \<open>k\<close>
  was raised by the bottom signal of iteration \<open>k - 1\<close>, has not been filled on that
  bar, and is filled at the open of bar \<open>k\<close>; a pending exit was raised by the top signal
  of iteration \<open>k - 1\<close> while holding and is filled at the open of bar \<open>k\<close>; neither fill
  raises; every open position was entered this way; and every trade was entered this
  way and closed by such a pattern exit at a later bar's open, by the stop-loss at the
  close of the very bar whose close is at or below the stop level, or at the end of the
  data.
\<close>

lemma module_A_fills_while_it_runs:
  assumes "2 \<le> k" "run_A df prm k = Inr st"
  shows "(pending_buy_signal st \<longrightarrow>
            bottom_signal_A df (k - 1) \<noteq> None \<and> 3 \<le> k \<and> \<not> holding st
            \<and> (\<exists>st'. run_A df prm (Suc k) = Inr st' \<and> buy_price st' = open_at df k
                   \<and> buy_date st' = Some (date_at df k)))
       \<and> (pending_sell_signal st \<longrightarrow>
            top_signal_A df (k - 1) \<noteq> None \<and> holding st
            \<and> (\<exists>st' t. run_A df prm (Suc k) = Inr st' \<and> \<not> holding st'
                   \<and> trades st' = trades st @ [t] \<and> pattern_exit_at df k t))
       \<and> (holding st \<longrightarrow> (\<exists>j<k. entered_at df j (buy_price st) (buy_date st)))
       \<and> (\<forall>t \<in> set (finish df st).
            trade_ok_A df prm k t
            \<or> (t_sell_reason t = Backtest_End
               \<and> (\<exists>j<k. entered_at df j (t_buy_price t) (t_buy_date t))
               \<and> t_sell_price t = close_at df (length (rows df) - 1)
               \<and> t_sell_date t = date_at df (length (rows df) - 1)))"
proof -
  note inv = inv_A_run[OF assms]
  have step: "run_A df prm (Suc k) = step_A df prm k st"
    using assms by (rule run_A_next)
  have buy: "pending_buy_signal st \<longrightarrow>
            bottom_signal_A df (k - 1) \<noteq> None \<and> 3 \<le> k \<and> \<not> holding st
            \<and> (\<exists>st'. run_A df prm (Suc k) = Inr st' \<and> buy_price st' = open_at df k
                   \<and> buy_date st' = Some (date_at df k))"
    using inv step_A_buy_fill[of st df prm k] unfolding step inv_A_def by blast
  have sell: "pending_sell_signal st \<longrightarrow>
            top_signal_A df (k - 1) \<noteq> None \<and> holding st
            \<and> (\<exists>st' t. run_A df prm (Suc k) = Inr st' \<and> \<not> holding st'
                   \<and> trades st' = trades st @ [t] \<and> pattern_exit_at df k t)"
    using inv step_A_sell_fill[of st df k prm] unfolding step inv_A_def by blast
  have hold: "holding st \<longrightarrow> (\<exists>j<k. entered_at df j (buy_price st) (buy_date st))"
    using inv unfolding inv_A_def by blast
  show ?thesis using buy sell hold finish_trades_A[OF inv] by blast
qed

text \<open>
  While a position is held with no exit pending, a close at or below the stop-loss level
  closes the trade in that iteration, at that close; and the iteration raises exactly
  when the stop-loss does not fire and the trailing-stop condition holds of the highest
  price updated with the bar's high.
\<close>

lemma stop_loss_fills_at_close_A:
  assumes "holding st" "\<not> pending_sell_signal st" "stop_loss_hit prm st (close_at df k)"
  shows "step_A df prm k st =
           Inr ((update_highest_A df k st)\<lparr>trades := trades st @
                  [close_trade st (date_at df k) (close_at df k) (Stop_Loss (stop_loss_pct prm))],
                holding := False\<rparr>)"
  using assms
  by (simp add: step_A_def update_highest_A_def fill_buy_A_def fill_sell_A_def
      detect_bottom_A_def exits_A_def Let_def stop_loss_hit_def close_trade_def)

lemma trailing_stop_raises_A:
  assumes "holding st" "\<not> pending_sell_signal st"
  shows "step_A df prm k st = Inl UnboundLocalError \<longleftrightarrow>
           \<not> stop_loss_hit prm st (close_at df k) \<and> use_trailing_stop prm
           \<and> buy_price st < max (highest_price st) (high_at df k)
           \<and> close_at df k \<le> trail_level (max (highest_price st) (high_at df k))"
  using assms
  by (auto simp: step_A_def update_highest_A_def fill_buy_A_def fill_sell_A_def
      detect_bottom_A_def exits_A_def Let_def stop_loss_hit_def trailing_stop_hit_def
      max_def split: option.splits)

lemma step_A_returns_when_flat:
  "\<not> holding st \<Longrightarrow> \<exists>st'. step_A df prm k st = Inr st'"
  by (auto simp: step_A_def update_highest_A_def fill_buy_A_def fill_sell_A_def
      detect_bottom_A_def exits_A_def Let_def trailing_stop_hit_def split: option.splits)

lemma cycle_run_15:
  "run_A (mid_frame cycle_bars) default_params 15 =
     Inr (init_A\<lparr>buy_price := 993, buy_date := Some 11,
            buy_reason := Some [Bullish_Candle, RSI_Low], highest_price := 1000,
            pending_buy_reason := Some [Bullish_Candle, RSI_Low],
            pending_sell_reason := Top_Fractal,
            trades := [\<lparr> t_buy_date = Some 11, t_buy_price = 993,
               t_buy_reason = Some [Bullish_Candle, RSI_Low],
               t_sell_date = 14, t_sell_price = 995, t_sell_reason = Top_Fractal,
               t_profit_pct = 200 / 993, t_hold_days = 3 \<rparr>]\<rparr>)"
    using run_A_next[OF _ cycle_run_14]
  by (simp add: cycle_step)

lemma batch_factors_prefix:
  "bottom_factors (iloc_upto df (Suc i)) (i - Suc 0) = bottom_factors df (i - Suc 0)"
  "top_factors (iloc_upto df (Suc i)) (i - Suc 0) = top_factors df (i - Suc 0)"
  by (auto simp: bottom_factors_def top_factors_def iloc_upto_def split: option.splits)

lemma fractal_B_prefix:
  "1 \<le> i \<Longrightarrow> is_bottom_B (iloc_upto df (Suc i)) (i - Suc 0) = is_bottom_B df (i - Suc 0)"
  "1 \<le> i \<Longrightarrow> is_top_B (iloc_upto df (Suc i)) (i - Suc 0) = is_top_B df (i - Suc 0)"
  by (simp_all add: is_bottom_B_def is_top_B_def iloc_upto_def)

lemma bottom_signal_B_eq:
  "bottom_signal_B df i =
     (if 3 \<le> i \<and> is_bottom_B df (i - 1) then
        (case accumulate (bottom_factors df (i - 1)) (0, []) of
           (score, reason) \<Rightarrow> if score \<ge> 3 then Some (score, reason) else None)
      else None)"
  by (simp add: bottom_signal_B_def Let_def batch_factors_prefix fractal_B_prefix)

lemma top_signal_B_eq:
  "top_signal_B df i =
     (if 3 \<le> i \<and> is_top_B df (i - 1) then
        (case accumulate (top_factors df (i - 1)) (0, []) of
           (score, reason) \<Rightarrow> if score \<ge> 3 then Some (score, reason) else None)
      else None)"
  by (simp add: top_signal_B_def Let_def batch_factors_prefix fractal_B_prefix)

lemmas signal_B_eval = bottom_signal_B_eq top_signal_B_eq is_bottom_B_def is_top_B_def
  bottom_factors_def top_factors_def lt_nan_def gt_nan_def
  rolling_mean_def np_mean_def slice_def calculate_rsi_warmup rsi_seed_def np_diff_def
  rsi_value_def Let_def

lemma run_B_next: "2 \<le> k \<Longrightarrow> run_B df prm k = st \<Longrightarrow> run_B df prm (Suc k) = step_B df prm k st"
  by (simp add: run_B_def)

lemma run_B_2: "run_B df prm 2 = init_B"
  by (simp add: run_B_def)

lemma step_B_idle:
  "\<not> holding st \<Longrightarrow> \<not> pending_buy_signal st \<Longrightarrow> bottom_signal_B df i = None
     \<Longrightarrow> step_B df prm i st = st"
  by (simp add: step_B_def update_highest_B_def fills_B_def detect_bottom_B_def detect_top_B_def
      risk_exits_B_def Let_def)

lemmas step_B_eval = step_B_def update_highest_B_def fills_B_def detect_bottom_B_def
  detect_top_B_def risk_exits_B_def reset_position_def stop_loss_hit_def trailing_stop_hit_def
  close_trade_def days_since_def default_params_def init_B_def Let_def stop_level_5 level_decided

section \<open>Module A: the trailing stop\<close>

lemma spike_frame: "get_data spike_bars = Some (mid_frame spike_bars)"
  by (rule get_data_mid) (simp_all add: spike_bars_def falling_bars_def)

lemma spike_row:
  "rows (mid_frame spike_bars) ! 10 = mk_bar 11 993 994 991 993 100"
  "rows (mid_frame spike_bars) ! 11 = mk_bar 12 993 1050 992 995 100"
  by (simp_all add: rows_frame spike_bars_def falling_bars_def)

lemma spike_bottom:
  "bottom_signal_A (mid_frame spike_bars) 2 = None"
  "bottom_signal_A (mid_frame spike_bars) 3 = None"
  "bottom_signal_A (mid_frame spike_bars) 4 = None"
  "bottom_signal_A (mid_frame spike_bars) 5 = None"
  "bottom_signal_A (mid_frame spike_bars) 6 = None"
  "bottom_signal_A (mid_frame spike_bars) 7 = None"
  "bottom_signal_A (mid_frame spike_bars) 8 = None"
  "bottom_signal_A (mid_frame spike_bars) 9 = Some (3, [Bullish_Candle, RSI_Low])"
  by (simp_all add: signal_eval spike_bars_def bars_eval)

lemma spike_top:
  "top_signal_A (mid_frame spike_bars) 10 = None"
  "top_signal_A (mid_frame spike_bars) 11 = None"
  by (simp_all add: signal_eval spike_bars_def bars_eval)

lemma spike_run_9: "run_A (mid_frame spike_bars) prm 9 = Inr init_A"
  by (rule run_A_idle_9) (simp_all add: spike_bottom)

lemma spike_run_10:
  "run_A (mid_frame spike_bars) prm 10 =
     Inr (init_A\<lparr>pending_buy_signal := True, pending_buy_reason := Some [Bullish_Candle, RSI_Low]\<rparr>)"
  using run_A_next[OF _ spike_run_9]
  by (simp add: step_A_signal[OF _ _ _ spike_bottom(8)] init_A_def)

lemmas spike_step = step_A_eval Let_def spike_row mk_bar_def spike_bottom spike_top

lemma spike_run_11: "run_A (mid_frame spike_bars) default_params 11 = Inr spike_held"
  using run_A_next[OF _ spike_run_10, of default_params]
  by (simp add: spike_step spike_held_def)

lemma spike_levels:
  "trailing_stop_hit default_params (spike_held\<lparr>highest_price := 1050\<rparr>) 995"
  "\<not> stop_loss_hit default_params (spike_held\<lparr>highest_price := 1050\<rparr>) 995"
  by (simp_all add: trailing_stop_hit_def stop_loss_hit_def default_params_def spike_held_def
      init_A_def stop_level_5 level_decided)

lemma spike_step_11:
  "step_A (mid_frame spike_bars) default_params 11 spike_held = Inl UnboundLocalError"
  by (simp add: spike_step spike_held_def)

lemma spike_run_15: "run_A (mid_frame spike_bars) default_params 15 = Inl UnboundLocalError"
proof -
  have r12: "run_A (mid_frame spike_bars) default_params 12 = Inl UnboundLocalError"
    using run_A_next[OF _ spike_run_11] spike_step_11 by simp
  have r13: "run_A (mid_frame spike_bars) default_params 13 = Inl UnboundLocalError"
    using run_A_raised[OF _ r12] by simp
  have r14: "run_A (mid_frame spike_bars) default_params 14 = Inl UnboundLocalError"
    using run_A_raised[OF _ r13] by simp
  show ?thesis using run_A_raised[OF _ r14] by simp
qed

text \<open>
  Claim C3 fails on module A. On the fifteen bars the position entered at the open of
  the bar at index 10 (993) sees a high of 1050 and a close of 995 on the bar at index
  11: the close is at or below the trailing level of that high (997.5) and above the
  stop-loss level of the entry, so the trailing-stop condition holds. The iteration
  does not close the trade at 995: it raises UnboundLocalError, and so do the loop and
  \<^verbatim>\<open>backtest_strategy_realtime\<close>, which return no trade list. Module B's statements for
  the same exit, run on the same loop variables and bar, close the trade at that close.
\<close>

theorem trailing_stop_raises_in_module_A:
  "get_data spike_bars = Some (mid_frame spike_bars)
   \<and> run_A (mid_frame spike_bars) default_params 11 = Inr spike_held
   \<and> holding spike_held \<and> \<not> pending_sell_signal spike_held
   \<and> buy_price spike_held = open_at (mid_frame spike_bars) 10
   \<and> update_highest_A (mid_frame spike_bars) 11 spike_held = spike_held\<lparr>highest_price := 1050\<rparr>
   \<and> high_at (mid_frame spike_bars) 11 = 1050 \<and> close_at (mid_frame spike_bars) 11 = 995
   \<and> trailing_stop_hit default_params (spike_held\<lparr>highest_price := 1050\<rparr>) 995
   \<and> \<not> stop_loss_hit default_params (spike_held\<lparr>highest_price := 1050\<rparr>) 995
   \<and> step_A (mid_frame spike_bars) default_params 11 spike_held = Inl UnboundLocalError
   \<and> run_A (mid_frame spike_bars) default_params 12 = Inl UnboundLocalError
   \<and> length (rows (mid_frame spike_bars)) = 15
   \<and> backtest_strategy_realtime_A (mid_frame spike_bars) default_params = Inl UnboundLocalError
   \<and> risk_exits_B (mid_frame spike_bars) default_params 11 (spike_held\<lparr>highest_price := 1050\<rparr>)
       = reset_position (spike_held\<lparr>highest_price := 1050, trades := [spike_trade]\<rparr>)
   \<and> t_sell_reason spike_trade = Trailing_Stop
   \<and> t_sell_price spike_trade = close_at (mid_frame spike_bars) 11
   \<and> t_sell_date spike_trade = date_at (mid_frame spike_bars) 11"
proof -
  have n: "length (rows (mid_frame spike_bars)) = 15"
    by (simp add: rows_frame spike_bars_def falling_bars_def)
  have r12: "run_A (mid_frame spike_bars) default_params 12 = Inl UnboundLocalError"
    using run_A_next[OF _ spike_run_11] spike_step_11 by simp
  have b: "backtest_strategy_realtime_A (mid_frame spike_bars) default_params
             = Inl UnboundLocalError"
    by (simp add: backtest_strategy_realtime_A_def n spike_run_15)
  have u: "update_highest_A (mid_frame spike_bars) 11 spike_held
             = spike_held\<lparr>highest_price := 1050\<rparr>"
    by (simp add: update_highest_A_def spike_row mk_bar_def spike_held_def init_A_def)
  have x: "risk_exits_B (mid_frame spike_bars) default_params 11
             (spike_held\<lparr>highest_price := 1050\<rparr>)
           = reset_position (spike_held\<lparr>highest_price := 1050, trades := [spike_trade]\<rparr>)"
    by (simp add: step_B_eval spike_row mk_bar_def spike_held_def init_A_def spike_trade_def)
  show ?thesis
    using spike_frame spike_run_11 spike_levels spike_step_11 r12 n b u x
    by (simp add: spike_held_def init_A_def spike_row mk_bar_def spike_trade_def close_trade_def)
qed

section \<open>The worked example\<close>

lemma worked_frame: "get_data worked_bars = Some (base_frame worked_bars)"
  by (rule get_data_short) (simp add: worked_bars_def)

text \<open>
  Claim C8 as stated fails on the three bars: the low of d2 (9.5) is above the low of d1
  (9), so the fractal test is false, and the statement for volume expansion, run on
  the window that ends with d3, compares the volume of d2 with that of d1 and adds
  nothing.
\<close>

theorem worked_example_counterexample:
  "\<not> is_bottom (iloc_upto (base_frame worked_bars) 3) 1
   \<and> \<not> low_at (base_frame worked_bars) 1 < low_at (base_frame worked_bars) 0
   \<and> Volume_Expansion \<notin> set (snd (accumulate
       (causal_bottom_factors (iloc_upto (base_frame worked_bars) 3) 1) (0, [])))
   \<and> fst (accumulate (causal_bottom_factors (iloc_upto (base_frame worked_bars) 3) 1) (0, [])) = 0"
  by (simp add: causal_bottom_factors_def iloc_upto_def base_frame_def worked_bars_def mk_bar_def
      rolling_mean_def lt_nan_def is_bottom_def)

text \<open>
  Claim C8, amended. For the three bars of the worked example the low of d2 is below
  the low of d3 but above the low of d1, so the bottom-fractal test at d2 is false; the
  bullish-candle condition is false (close below open); the volume condition that the
  detectors test (volume of d2 above volume of d1) is false, although 150 > 90; no
  statement is satisfied, the score over the window ending at d3 is 0 with an empty
  reason list, and neither the causal step of module A or B nor the batch detector
  recognises a bottom.
\<close>

theorem worked_example_no_fractal_no_score:
  "get_data worked_bars = Some (base_frame worked_bars)
   \<and> \<not> is_bottom (iloc_upto (base_frame worked_bars) 3) 1
   \<and> low_at (base_frame worked_bars) 0 < low_at (base_frame worked_bars) 1
   \<and> low_at (base_frame worked_bars) 1 < low_at (base_frame worked_bars) 2
   \<and> close_at (base_frame worked_bars) 1 < open_at (base_frame worked_bars) 1
   \<and> vol_at (base_frame worked_bars) 1 < vol_at (base_frame worked_bars) 0
   \<and> vol_at (base_frame worked_bars) 2 > vol_at (base_frame worked_bars) 1
   \<and> satisfied (causal_bottom_factors (iloc_upto (base_frame worked_bars) 3) 1) = []
   \<and> accumulate (causal_bottom_factors (iloc_upto (base_frame worked_bars) 3) 1) (0, []) = (0, [])
   \<and> bottom_signal_A (base_frame worked_bars) 2 = None
   \<and> run_A (base_frame worked_bars) default_params 3 = Inr init_A
   \<and> run_B (base_frame worked_bars) default_params 3 = init_B
   \<and> identify_bottom_pattern (base_frame worked_bars) = []"
proof -
  have s: "bottom_signal_A (base_frame worked_bars) 2 = None"
    by (simp add: signal_eval base_frame_def worked_bars_def mk_bar_def)
  have sb: "bottom_signal_B (base_frame worked_bars) 2 = None"
    by (simp add: bottom_signal_B_eq)
  have a: "run_A (base_frame worked_bars) default_params 3 = Inr init_A"
    using run_A_next[OF _ run_A_2, of "base_frame worked_bars" default_params]
    by (simp add: step_A_idle[OF _ _ s] init_A_def)
  have b: "run_B (base_frame worked_bars) default_params 3 = init_B"
    using run_B_next[OF _ run_B_2, of "base_frame worked_bars" default_params]
    by (simp add: step_B_idle[OF _ _ sb] init_B_def)
  have i: "identify_bottom_pattern (base_frame worked_bars) = []"
    by (simp add: identify_bottom_pattern_eq base_frame_def worked_bars_def mk_bar_def is_bottom_def
        satisfied_def bottom_factors_def rolling_mean_def lt_nan_def spec_total_def)
  show ?thesis
    using worked_frame s a b i
    by (simp add: causal_bottom_factors_def iloc_upto_def base_frame_def worked_bars_def mk_bar_def
      rolling_mean_def lt_nan_def is_bottom_def satisfied_def)
qed

section \<open>The holding period\<close>

lemma exits_A_hold_days: "exits_A df (prm\<lparr>hold_days := h\<rparr>) i st = exits_A df prm i st"
  by (simp add: exits_A_def stop_loss_hit_def trailing_stop_hit_def Let_def cong: if_cong)

lemma step_A_hold_days: "step_A df (prm\<lparr>hold_days := h\<rparr>) i st = step_A df prm i st"
  by (simp add: step_A_def exits_A_hold_days)

lemma run_A_hold_days: "run_A df (prm\<lparr>hold_days := h\<rparr>) k = run_A df prm k"
proof -
  have "step_A df (prm\<lparr>hold_days := h\<rparr>) = step_A df prm"
    by (intro ext) (rule step_A_hold_days)
  then show ?thesis unfolding run_A_def by (rule arg_cong)
qed

lemma details_of_summarize: "details_of (summarize ts) = ts"
  by (simp add: details_of_def summarize_def)

lemma no_hold_exit_A:
  assumes "backtest_strategy_realtime_A df prm = Inr r" "t \<in> set (details_of r)"
  shows "t_sell_reason t \<noteq> Hold_Days_Reached h"
proof -
  from assms(1) obtain st where st: "run_A df prm (length (rows df)) = Inr st"
    and r: "r = summarize (finish df st)"
    by (auto simp: backtest_strategy_realtime_A_def split: sum.splits)
  have t: "t \<in> set (finish df st)" using assms(2) r by (simp add: details_of_summarize)
  show ?thesis
  proof (cases "2 \<le> length (rows df)")
    case True
    from finish_trades_A[OF inv_A_run[OF True st] t] show ?thesis
      by (auto simp: trade_ok_A_def pattern_exit_at_def stop_exit_at_def)
  next
    case False
    then have "st = init_A" using st by (simp add: run_A_def)
    then show ?thesis using t by (simp add: finish_def init_A_def)
  qed
qed

lemma risk_exits_B_max_hold:
  assumes "holding st" "buy_date st = Some b"
    "\<not> stop_loss_hit prm st (close_at df i)" "\<not> trailing_stop_hit prm st (close_at df i)"
    "0 < hold_days prm" "hold_days prm \<le> date_at df i - b"
  shows "risk_exits_B df prm i st =
     reset_position (st\<lparr>trades := trades st @
       [close_trade st (date_at df i) (close_at df i) (Hold_Days_Reached (hold_days prm))]\<rparr>)"
  using assms by (simp add: risk_exits_B_def Let_def days_since_def)

lemma risk_exits_B_before_max_hold:
  assumes "holding st" "buy_date st = Some b"
    "\<not> stop_loss_hit prm st (close_at df i)" "\<not> trailing_stop_hit prm st (close_at df i)"
    "date_at df i - b < hold_days prm"
  shows "risk_exits_B df prm i st = st"
  using assms by (simp add: risk_exits_B_def Let_def days_since_def)

lemma risk_exits_B_no_max_hold:
  assumes "\<not> stop_loss_hit prm st (close_at df i)" "\<not> trailing_stop_hit prm st (close_at df i)"
    "hold_days prm \<le> 0"
  shows "risk_exits_B df prm i st = st"
  using assms by (simp add: risk_exits_B_def Let_def)

lemma calm_row:
  "rows (mid_frame calm_bars) ! 10 = mk_bar 11 993 994 991 993 100"
  "rows (mid_frame calm_bars) ! 11 = mk_bar 12 993 994 991 993 100"
  "rows (mid_frame calm_bars) ! 12 = mk_bar 13 993 994 991 993 100"
  "rows (mid_frame calm_bars) ! 13 = mk_bar 14 993 994 991 993 100"
  "rows (mid_frame calm_bars) ! 14 = mk_bar 15 993 994 991 993 100"
  by (simp_all add: rows_frame calm_bars_def falling_bars_def)

lemma calm_bottom_9:
  "bottom_signal_B (mid_frame calm_bars) 9 = Some (3, [Bullish_Candle, RSI_Low])"
  by (simp add: signal_B_eval calm_bars_def bars_eval)

lemma calm_bottom_none:
  "bottom_signal_B (mid_frame calm_bars) 2 = None"
  "bottom_signal_B (mid_frame calm_bars) 3 = None"
  "bottom_signal_B (mid_frame calm_bars) 4 = None"
  "bottom_signal_B (mid_frame calm_bars) 5 = None"
  "bottom_signal_B (mid_frame calm_bars) 6 = None"
  "bottom_signal_B (mid_frame calm_bars) 7 = None"
  "bottom_signal_B (mid_frame calm_bars) 8 = None"
  "bottom_signal_B (mid_frame calm_bars) 13 = None"
  "bottom_signal_B (mid_frame calm_bars) 14 = None"
  by (simp_all add: signal_B_eval calm_bars_def bars_eval)

lemma calm_top_none:
  "top_signal_B (mid_frame calm_bars) 10 = None"
  "top_signal_B (mid_frame calm_bars) 11 = None"
  "top_signal_B (mid_frame calm_bars) 12 = None"
  "top_signal_B (mid_frame calm_bars) 13 = None"
  "top_signal_B (mid_frame calm_bars) 14 = None"
  by (simp_all add: signal_B_eval calm_bars_def bars_eval)

lemma step_B_signal:
  "\<not> holding st \<Longrightarrow> \<not> pending_buy_signal st \<Longrightarrow> bottom_signal_B df i = Some (sc, r)
     \<Longrightarrow> step_B df prm i st = st\<lparr>pending_buy_signal := True, pending_buy_reason := Some r\<rparr>"
  by (simp add: step_B_def update_highest_B_def fills_B_def detect_bottom_B_def detect_top_B_def
      risk_exits_B_def Let_def)

lemma calm_run_B_9: "run_B (mid_frame calm_bars) prm 9 = init_B"
proof -
  have idle: "bottom_signal_B (mid_frame calm_bars) i = None
      \<Longrightarrow> step_B (mid_frame calm_bars) prm i init_B = init_B" for i
    by (rule step_B_idle) (simp_all add: init_B_def)
  have "run_B (mid_frame calm_bars) prm (Suc (Suc (Suc (Suc (Suc (Suc (Suc 2))))))) = init_B"
    by (simp add: run_B_def idle calm_bottom_none)
  then show ?thesis by (simp add: eval_nat_numeral)
qed

lemma calm_run_B_10:
  "run_B (mid_frame calm_bars) prm 10 =
     init_B\<lparr>pending_buy_signal := True, pending_buy_reason := Some [Bullish_Candle, RSI_Low]\<rparr>"
  using run_B_next[OF _ calm_run_B_9]
  by (simp add: step_B_signal[OF _ _ calm_bottom_9] init_B_def)

lemmas calm_step = step_B_eval calm_row mk_bar_def calm_bottom_none calm_top_none

lemma calm_run_B_11:
  "run_B (mid_frame calm_bars) (default_params\<lparr>hold_days := 2\<rparr>) 11 = calm_held"
  "run_B (mid_frame calm_bars) default_params 11 = calm_held"
  "run_B (mid_frame calm_bars) (default_params\<lparr>hold_days := 0\<rparr>) 11 = calm_held"
  using run_B_next[OF _ calm_run_B_10, of "default_params\<lparr>hold_days := 2\<rparr>"]
    run_B_next[OF _ calm_run_B_10, of default_params]
    run_B_next[OF _ calm_run_B_10, of "default_params\<lparr>hold_days := 0\<rparr>"]
  by (simp_all add: calm_step calm_held_def)

lemma calm_run_B_12:
  "run_B (mid_frame calm_bars) (default_params\<lparr>hold_days := 2\<rparr>) 12 = calm_held"
  "run_B (mid_frame calm_bars) default_params 12 = calm_held"
  "run_B (mid_frame calm_bars) (default_params\<lparr>hold_days := 0\<rparr>) 12 = calm_held"
  using run_B_next[OF _ calm_run_B_11(1)] run_B_next[OF _ calm_run_B_11(2)]
    run_B_next[OF _ calm_run_B_11(3)]
  by (simp_all add: calm_step calm_held_def)

lemma calm_run_B_13:
  "run_B (mid_frame calm_bars) (default_params\<lparr>hold_days := 2\<rparr>) 13 =
     init_B\<lparr>buy_reason := Some [Bullish_Candle, RSI_Low],
       trades := [\<lparr> t_buy_date = Some 11, t_buy_price = 993,
               t_buy_reason = Some [Bullish_Candle, RSI_Low],
               t_sell_date = 13, t_sell_price = 993, t_sell_reason = Hold_Days_Reached 2,
               t_profit_pct = 0, t_hold_days = 2 \<rparr>]\<rparr>"
  "run_B (mid_frame calm_bars) default_params 13 = calm_held"
  "run_B (mid_frame calm_bars) (default_params\<lparr>hold_days := 0\<rparr>) 13 = calm_held"
  using run_B_next[OF _ calm_run_B_12(1)] run_B_next[OF _ calm_run_B_12(2)]
    run_B_next[OF _ calm_run_B_12(3)]
  by (simp_all add: calm_step calm_held_def)

lemma calm_run_B_14:
  "run_B (mid_frame calm_bars) (default_params\<lparr>hold_days := 2\<rparr>) 14 =
     init_B\<lparr>buy_reason := Some [Bullish_Candle, RSI_Low],
       trades := [\<lparr> t_buy_date = Some 11, t_buy_price = 993,
               t_buy_reason = Some [Bullish_Candle, RSI_Low],
               t_sell_date = 13, t_sell_price = 993, t_sell_reason = Hold_Days_Reached 2,
               t_profit_pct = 0, t_hold_days = 2 \<rparr>]\<rparr>"
  "run_B (mid_frame calm_bars) default_params 14 = calm_held"
  "run_B (mid_frame calm_bars) (default_params\<lparr>hold_days := 0\<rparr>) 14 = calm_held"
  using run_B_next[OF _ calm_run_B_13(1)] run_B_next[OF _ calm_run_B_13(2)]
    run_B_next[OF _ calm_run_B_13(3)]
  by (simp_all add: calm_step calm_held_def)

lemma calm_run_B_15:
  "run_B (mid_frame calm_bars) (default_params\<lparr>hold_days := 2\<rparr>) 15 =
     init_B\<lparr>buy_reason := Some [Bullish_Candle, RSI_Low],
       trades := [\<lparr> t_buy_date = Some 11, t_buy_price = 993,
               t_buy_reason = Some [Bullish_Candle, RSI_Low],
               t_sell_date = 13, t_sell_price = 993, t_sell_reason = Hold_Days_Reached 2,
               t_profit_pct = 0, t_hold_days = 2 \<rparr>]\<rparr>"
  "run_B (mid_frame calm_bars) default_params 15 = calm_held"
  "run_B (mid_frame calm_bars) (default_params\<lparr>hold_days := 0\<rparr>) 15 = calm_held"
  using run_B_next[OF _ calm_run_B_14(1)] run_B_next[OF _ calm_run_B_14(2)]
    run_B_next[OF _ calm_run_B_14(3)]
  by (simp_all add: calm_step calm_held_def)


text \<open>
  Claim C10 as stated fails on module B for \<^verbatim>\<open>hold_days = 0\<close>: the position entered at
  the open of the bar at index 10 has been held \<^verbatim>\<open>hold_days\<close> days or more at every later
  bar (two days at the bar at index 12), no stop fires, and module B does not close it
  at any bar's close: the trade list of the run is the one trade closed at the end of
  the data. The holding-period exit is guarded by \<^verbatim>\<open>hold_days > 0\<close>.
\<close>

theorem hold_days_zero_counterexample:
  "get_data calm_bars = Some (mid_frame calm_bars)
   \<and> run_B (mid_frame calm_bars) (default_params\<lparr>hold_days := 0\<rparr>) 12 = calm_held
   \<and> holding calm_held \<and> buy_date calm_held = Some 11
   \<and> days_since (buy_date calm_held) (date_at (mid_frame calm_bars) 12) = 2
   \<and> hold_days (default_params\<lparr>hold_days := 0\<rparr>)
        \<le> days_since (buy_date calm_held) (date_at (mid_frame calm_bars) 12)
   \<and> step_B (mid_frame calm_bars) (default_params\<lparr>hold_days := 0\<rparr>) 12 calm_held = calm_held
   \<and> run_B (mid_frame calm_bars) (default_params\<lparr>hold_days := 0\<rparr>) 15 = calm_held
   \<and> map t_sell_reason (details_of (backtest_strategy_realtime_B (get_data calm_bars)
         (default_params\<lparr>hold_days := 0\<rparr>))) = [Backtest_End]"
proof -
  have g: "get_data calm_bars = Some (mid_frame calm_bars)"
    by (rule get_data_mid) (simp_all add: calm_bars_def falling_bars_def)
  have n: "length (rows (mid_frame calm_bars)) = 15"
    by (simp add: rows_frame calm_bars_def falling_bars_def)
  have s: "step_B (mid_frame calm_bars) (default_params\<lparr>hold_days := 0\<rparr>) 12 calm_held
             = calm_held"
    using run_B_next[OF _ calm_run_B_12(3)] calm_run_B_13(3) by simp
  have b: "map t_sell_reason (details_of (backtest_strategy_realtime_B (get_data calm_bars)
         (default_params\<lparr>hold_days := 0\<rparr>))) = [Backtest_End]"
    by (simp add: g backtest_strategy_realtime_B_def n calm_run_B_15 finish_def init_B_def
        calm_held_def summarize_def details_of_def close_trade_def)
  show ?thesis
    using g s b calm_run_B_12(3) calm_run_B_15(3)
    by (simp add: calm_held_def init_B_def days_since_def calm_row mk_bar_def default_params_def)
qed

text \<open>
  Claim C10, amended. Module A's \<^verbatim>\<open>backtest_strategy_realtime\<close> returns the same result
  (trade list and statistics, or the same exception) for any two values of \<^verbatim>\<open>hold_days\<close>
  and never closes a trade for the holding period. Module B, when neither stop fires on
  the bar, closes the position at the current bar's close once the days held reach a
  positive \<^verbatim>\<open>hold_days\<close>, leaves it open before that, and with a \<^verbatim>\<open>hold_days\<close> of zero or
  less applies no holding-period exit at all.
\<close>

theorem hold_days_ignored_by_module_A_applied_by_module_B:
  "backtest_strategy_realtime_A df (prm\<lparr>hold_days := h1\<rparr>)
     = backtest_strategy_realtime_A df (prm\<lparr>hold_days := h2\<rparr>)
   \<and> (backtest_strategy_realtime_A df prm = Inr r \<longrightarrow>
        (\<forall>t \<in> set (details_of r). t_sell_reason t \<noteq> Hold_Days_Reached h))
   \<and> (holding st \<and> buy_date st = Some b
        \<and> \<not> stop_loss_hit prm st (close_at df i) \<and> \<not> trailing_stop_hit prm st (close_at df i)
        \<and> 0 < hold_days prm \<and> hold_days prm \<le> date_at df i - b
       \<longrightarrow> risk_exits_B df prm i st =
             reset_position (st\<lparr>trades := trades st @
               [close_trade st (date_at df i) (close_at df i)
                  (Hold_Days_Reached (hold_days prm))]\<rparr>))
   \<and> (holding st \<and> buy_date st = Some b
        \<and> \<not> stop_loss_hit prm st (close_at df i) \<and> \<not> trailing_stop_hit prm st (close_at df i)
        \<and> date_at df i - b < hold_days prm
       \<longrightarrow> risk_exits_B df prm i st = st)
   \<and> (\<not> stop_loss_hit prm st (close_at df i) \<and> \<not> trailing_stop_hit prm st (close_at df i)
        \<and> hold_days prm \<le> 0
       \<longrightarrow> risk_exits_B df prm i st = st)"
proof -
  have a: "backtest_strategy_realtime_A df (prm\<lparr>hold_days := h1\<rparr>)
     = backtest_strategy_realtime_A df (prm\<lparr>hold_days := h2\<rparr>)"
    by (simp add: backtest_strategy_realtime_A_def run_A_hold_days)
  show ?thesis
    using a no_hold_exit_A[where df=df and prm=prm and r=r and h=h]
      risk_exits_B_max_hold[where st=st and b=b and prm=prm and df=df and i=i]
      risk_exits_B_before_max_hold[where st=st and b=b and prm=prm and df=df and i=i]
      risk_exits_B_no_max_hold[where st=st and prm=prm and df=df and i=i]
    by blast
qed

theorem hold_days_ignored_by_module_A_applied_by_module_B_witness:
  "backtest_strategy_realtime_A (mid_frame cycle_bars) (default_params\<lparr>hold_days := 2\<rparr>)
     = backtest_strategy_realtime_A (mid_frame cycle_bars) (default_params\<lparr>hold_days := 10\<rparr>)
   \<and> map_sum id (\<lambda>r. map t_sell_reason (details_of r))
        (backtest_strategy_realtime_A (mid_frame cycle_bars) default_params) = Inr [Top_Fractal]
   \<and> holding calm_held \<and> buy_date calm_held = Some 11
   \<and> \<not> stop_loss_hit (default_params\<lparr>hold_days := 2\<rparr>) calm_held (close_at (mid_frame calm_bars) 12)
   \<and> \<not> trailing_stop_hit (default_params\<lparr>hold_days := 2\<rparr>) calm_held (close_at (mid_frame calm_bars) 12)
   \<and> date_at (mid_frame calm_bars) 12 - 11 = 2
   \<and> trades (risk_exits_B (mid_frame calm_bars) (default_params\<lparr>hold_days := 2\<rparr>) 12 calm_held) =
        [\<lparr> t_buy_date = Some 11, t_buy_price = 993,
               t_buy_reason = Some [Bullish_Candle, RSI_Low],
               t_sell_date = 13, t_sell_price = 993, t_sell_reason = Hold_Days_Reached 2,
               t_profit_pct = 0, t_hold_days = 2 \<rparr>]
   \<and> date_at (mid_frame calm_bars) 11 - 11 = 1
   \<and> risk_exits_B (mid_frame calm_bars) (default_params\<lparr>hold_days := 2\<rparr>) 11 calm_held = calm_held
   \<and> risk_exits_B (mid_frame calm_bars) (default_params\<lparr>hold_days := 0\<rparr>) 12 calm_held = calm_held
   \<and> get_data calm_bars = Some (mid_frame calm_bars)
   \<and> map t_sell_reason (details_of (backtest_strategy_realtime_B (get_data calm_bars)
         (default_params\<lparr>hold_days := 2\<rparr>))) = [Hold_Days_Reached 2]
   \<and> map t_sell_reason (details_of (backtest_strategy_realtime_B (get_data calm_bars)
         default_params)) = [Backtest_End]"
proof -
  have g: "get_data calm_bars = Some (mid_frame calm_bars)"
    by (rule get_data_mid) (simp_all add: calm_bars_def falling_bars_def)
  have n: "length (rows (mid_frame calm_bars)) = 15" "length (rows (mid_frame cycle_bars)) = 15"
    by (simp_all add: rows_frame calm_bars_def cycle_bars_def falling_bars_def)
  have b2: "map t_sell_reason (details_of (backtest_strategy_realtime_B (get_data calm_bars)
         (default_params\<lparr>hold_days := 2\<rparr>))) = [Hold_Days_Reached 2]"
    by (simp add: g backtest_strategy_realtime_B_def n calm_run_B_15 finish_def init_B_def
        summarize_def details_of_def)
  have b10: "map t_sell_reason (details_of (backtest_strategy_realtime_B (get_data calm_bars)
         default_params)) = [Backtest_End]"
    by (simp add: g backtest_strategy_realtime_B_def n calm_run_B_15 finish_def init_B_def
        calm_held_def summarize_def details_of_def close_trade_def)
  have a: "backtest_strategy_realtime_A (mid_frame cycle_bars) (default_params\<lparr>hold_days := 2\<rparr>)
     = backtest_strategy_realtime_A (mid_frame cycle_bars) (default_params\<lparr>hold_days := 10\<rparr>)"
    using hold_days_ignored_by_module_A_applied_by_module_B[where df="mid_frame cycle_bars"
        and prm=default_params and ?h1.0=2 and ?h2.0=10]
    by blast
  have f: "map_sum id (\<lambda>r. map t_sell_reason (details_of r))
        (backtest_strategy_realtime_A (mid_frame cycle_bars) default_params) = Inr [Top_Fractal]"
    by (simp add: backtest_strategy_realtime_A_def n cycle_run_15 finish_def init_A_def
        summarize_def details_of_def)
  have h: "holding calm_held" "buy_date calm_held = Some 11"
    "\<not> stop_loss_hit (default_params\<lparr>hold_days := 2\<rparr>) calm_held (close_at (mid_frame calm_bars) 12)"
    "\<not> trailing_stop_hit (default_params\<lparr>hold_days := 2\<rparr>) calm_held (close_at (mid_frame calm_bars) 12)"
    "\<not> stop_loss_hit (default_params\<lparr>hold_days := 2\<rparr>) calm_held (close_at (mid_frame calm_bars) 11)"
    "\<not> trailing_stop_hit (default_params\<lparr>hold_days := 2\<rparr>) calm_held (close_at (mid_frame calm_bars) 11)"
    "\<not> stop_loss_hit (default_params\<lparr>hold_days := 0\<rparr>) calm_held (close_at (mid_frame calm_bars) 12)"
    "\<not> trailing_stop_hit (default_params\<lparr>hold_days := 0\<rparr>) calm_held (close_at (mid_frame calm_bars) 12)"
    "date_at (mid_frame calm_bars) 12 - 11 = 2"
    "date_at (mid_frame calm_bars) 11 - 11 = 1"
    "0 < hold_days (default_params\<lparr>hold_days := 2\<rparr>)"
    "hold_days (default_params\<lparr>hold_days := 2\<rparr>) \<le> date_at (mid_frame calm_bars) 12 - 11"
    "date_at (mid_frame calm_bars) 11 - 11 < hold_days (default_params\<lparr>hold_days := 2\<rparr>)"
    "hold_days (default_params\<lparr>hold_days := 0\<rparr>) \<le> 0"
    by (simp_all add: calm_held_def init_B_def calm_row mk_bar_def stop_loss_hit_def
        trailing_stop_hit_def default_params_def stop_level_5 level_decided)
  have r: "trades (risk_exits_B (mid_frame calm_bars) (default_params\<lparr>hold_days := 2\<rparr>) 12 calm_held) =
        [\<lparr> t_buy_date = Some 11, t_buy_price = 993,
               t_buy_reason = Some [Bullish_Candle, RSI_Low],
               t_sell_date = 13, t_sell_price = 993, t_sell_reason = Hold_Days_Reached 2,
               t_profit_pct = 0, t_hold_days = 2 \<rparr>]"
    using hold_days_ignored_by_module_A_applied_by_module_B[where df="mid_frame calm_bars"
        and prm="default_params\<lparr>hold_days := 2\<rparr>" and st=calm_held and b=11 and i=12] h
    by (simp add: reset_position_def close_trade_def days_since_def calm_held_def init_B_def
        calm_row mk_bar_def default_params_def)
  have r1: "risk_exits_B (mid_frame calm_bars) (default_params\<lparr>hold_days := 2\<rparr>) 11 calm_held
              = calm_held"
    using hold_days_ignored_by_module_A_applied_by_module_B[where df="mid_frame calm_bars"
        and prm="default_params\<lparr>hold_days := 2\<rparr>" and st=calm_held and b=11 and i=11] h
    by blast
  have r0: "risk_exits_B (mid_frame calm_bars) (default_params\<lparr>hold_days := 0\<rparr>) 12 calm_held
              = calm_held"
    using hold_days_ignored_by_module_A_applied_by_module_B[where df="mid_frame calm_bars"
        and prm="default_params\<lparr>hold_days := 0\<rparr>" and st=calm_held and i=12] h
    by blast
  show ?thesis
    using a f h r r1 r0 g n b2 b10 by simp
qed

section \<open>The trailing stop\<close>

lemma trailing_B:
  assumes "holding st" "\<not> pending_sell_signal st" "\<not> pending_buy_signal st"
    "use_trailing_stop prm" "\<not> stop_loss_hit prm st (close_at df i)"
  shows "(\<exists>t. trades (step_B df prm i st) = trades st @ [t] \<and> t_sell_reason t = Trailing_Stop
            \<and> t_sell_price t = close_at df i \<and> t_sell_date t = date_at df i
            \<and> \<not> holding (step_B df prm i st))
         \<longleftrightarrow> (max (highest_price st) (close_at df i) > buy_price st
              \<and> close_at df i \<le> trail_level (max (highest_price st) (close_at df i)))"
proof -
  define st1 where "st1 = detect_top_B df i (update_highest_B df i st)"
  have h1: "highest_price st1 = max (highest_price st) (close_at df i)"
    and same: "holding st1" "\<not> pending_buy_signal st1"
      "buy_price st1 = buy_price st" "trades st1 = trades st"
    using assms(1-3)
    by (auto simp: st1_def update_highest_B_def detect_top_B_def split: option.splits)
  have pre: "step_B df prm i st = risk_exits_B df prm i st1"
    using assms(1-3) by (simp add: step_B_def st1_def fills_B_def detect_bottom_B_def
        update_highest_B_def)
  have nostop: "\<not> stop_loss_hit prm st1 (close_at df i)"
    using assms(5) same by (simp add: stop_loss_hit_def)
  show ?thesis
  proof (cases "trailing_stop_hit prm st1 (close_at df i)")
    case True
    then have "risk_exits_B df prm i st1 = reset_position (st1\<lparr>trades := trades st1 @
        [close_trade st1 (date_at df i) (close_at df i) Trailing_Stop]\<rparr>)"
      using same nostop by (simp add: risk_exits_B_def Let_def)
    then show ?thesis using True h1 same assms(4)
      by (simp add: pre trailing_stop_hit_def close_trade_def reset_position_def)
  next
    case False
    have "trades (risk_exits_B df prm i st1) = trades st1
       \<or> (\<exists>t. trades (risk_exits_B df prm i st1) = trades st1 @ [t]
             \<and> t_sell_reason t = Hold_Days_Reached (hold_days prm))"
      using False same nostop
      by (auto simp: risk_exits_B_def Let_def reset_position_def close_trade_def)
    then show ?thesis using False h1 same assms(4)
      by (auto simp: pre trailing_stop_hit_def)
  qed
qed

lemma peak_frame:
  "get_data (peak_bars e p m c) = Some (base_frame (peak_bars e p m c))"
  by (rule get_data_short) (simp add: peak_bars_def)

lemma peak_signals:
  "top_signal_A (base_frame (peak_bars e p m c)) 2 = None"
  "top_signal_B (base_frame (peak_bars e p m c)) 2 = None"
  by (simp_all add: top_signal_A_eq top_signal_B_eq is_top_def rows_frame peak_bars_def mk_bar_def)

lemma peak_row:
  "rows (base_frame (peak_bars e p m c)) ! 2 = mk_bar 3 m (max m c) (min m c) c 100"
  by (simp add: rows_frame peak_bars_def)

lemmas peak_step = peak_signals peak_row mk_bar_def peak_state_def

lemmas step_B_levels = step_B_def update_highest_B_def fills_B_def detect_bottom_B_def
  detect_top_B_def risk_exits_B_def reset_position_def stop_loss_hit_def trailing_stop_hit_def
  days_since_def default_params_def Let_def stop_level_5

lemma peak_114_B:
  "step_B (base_frame (peak_bars 100 120 117 114)) default_params 2 (peak_state 100 120) =
     (peak_state 100 120)\<lparr>holding := False, buy_price := 0, buy_date := None, highest_price := 0,
       trades := [close_trade (peak_state 100 120) 3 114 Trailing_Stop]\<rparr>"
proof -
  have "\<not> 114 \<le> trail_level 100" using trail_level_bounds[of 100] by simp
  then show ?thesis
    by (simp add: step_B_levels peak_step trail_level_120)
qed

lemma peak_above_114_B:
  assumes "114 < c" "c \<le> 120"
  shows "step_B (base_frame (peak_bars 100 120 117 c)) default_params 2 (peak_state 100 120)
           = peak_state 100 120"
proof -
  have "\<not> c \<le> trail_level 100" using trail_level_bounds[of 100] assms by simp
  moreover have "\<not> c \<le> trail_level 120" using assms by (simp add: trail_level_120)
  ultimately show ?thesis using assms
    by (simp add: step_B_levels peak_step)
qed

lemma peak_tie_B:
  "step_B (base_frame (peak_bars 2 3 (23 / 8) (fl64 (285 / 100)))) default_params 2 (peak_state 2 3)
     = peak_state 2 3"
proof -
  have "\<not> fl64 (285 / 100) \<le> trail_level 2"
    using trail_level_bounds[of 2] by (simp add: fl64_285)
  moreover have "\<not> fl64 (285 / 100) \<le> trail_level 3"
    by (simp add: fl64_285 trail_level_3)
  moreover have "fl64 (285 / 100) \<le> 3"
    by (simp add: fl64_285)
  ultimately show ?thesis
    by (simp add: step_B_levels peak_step)
qed

lemma peak_round_up_B:
  "step_B (base_frame (peak_bars 18 19 (37 / 2) (fl64 (1805 / 100)))) default_params 2
       (peak_state 18 19) =
     (peak_state 18 19)\<lparr>holding := False, buy_price := 0, buy_date := None, highest_price := 0,
       trades := [close_trade (peak_state 18 19) 3 (fl64 (1805 / 100)) Trailing_Stop]\<rparr>"
proof -
  have "\<not> fl64 (1805 / 100) \<le> trail_level 18"
    using trail_level_bounds[of 18] by (simp add: fl64_1805)
  moreover have "fl64 (1805 / 100) \<le> trail_level 19"
    by (simp add: fl64_1805 trail_level_19)
  moreover have "fl64 (1805 / 100) \<le> 19"
    by (simp add: fl64_1805)
  ultimately show ?thesis
    by (simp add: step_B_levels peak_step)
qed

lemma peak_114_A:
  "step_A (base_frame (peak_bars 100 120 117 114)) default_params 2 (peak_state 100 120)
     = Inl UnboundLocalError"
  by (simp add: step_A_eval Let_def peak_step trail_level_120)

text \<open>
  Claim C7 as stated fails. Where the exact product of the peak and 0.95 is not a
  binary64 number, the level that the code compares with is its rounded product: for a
  peak of 3 the level is just below 2.85, and a bar whose close is the price 2.85 (the
  binary64 number nearest to it) leaves module B's position open although 2.85 is at
  most 3 times 0.95; for a peak of 19 the level is the binary64 number nearest to 18.05,
  which is above 19 times 0.95, and a close of that value is sold by the trailing stop.
  And in module A the claim's own example, a close of exactly 114 after an entry at 100
  and a peak of 120, does not close the trade at 114: the iteration raises.
\<close>

theorem trailing_stop_boundary_counterexample:
  "get_data (peak_bars 2 3 (23 / 8) (fl64 (285 / 100)))
     = Some (base_frame (peak_bars 2 3 (23 / 8) (fl64 (285 / 100))))
   \<and> buy_price (peak_state 2 3) = 2 \<and> highest_price (peak_state 2 3) = 3
   \<and> close_at (base_frame (peak_bars 2 3 (23 / 8) (fl64 (285 / 100)))) 2 = fl64 (285 / 100)
   \<and> (285 / 100 :: real) \<le> 3 * (95 / 100)
   \<and> trail_level 3 < fl64 (285 / 100)
   \<and> step_B (base_frame (peak_bars 2 3 (23 / 8) (fl64 (285 / 100)))) default_params 2
        (peak_state 2 3) = peak_state 2 3
   \<and> get_data (peak_bars 18 19 (37 / 2) (fl64 (1805 / 100)))
     = Some (base_frame (peak_bars 18 19 (37 / 2) (fl64 (1805 / 100))))
   \<and> close_at (base_frame (peak_bars 18 19 (37 / 2) (fl64 (1805 / 100)))) 2 = fl64 (1805 / 100)
   \<and> 19 * (95 / 100) < fl64 (1805 / 100)
   \<and> trail_level 19 = fl64 (1805 / 100)
   \<and> trades (step_B (base_frame (peak_bars 18 19 (37 / 2) (fl64 (1805 / 100)))) default_params 2
        (peak_state 18 19)) = [close_trade (peak_state 18 19) 3 (fl64 (1805 / 100)) Trailing_Stop]
   \<and> get_data (peak_bars 100 120 117 114) = Some (base_frame (peak_bars 100 120 117 114))
   \<and> step_A (base_frame (peak_bars 100 120 117 114)) default_params 2 (peak_state 100 120)
       = Inl UnboundLocalError"
  using peak_tie_B peak_round_up_B peak_114_A
  by (simp add: peak_frame peak_row mk_bar_def peak_state_def fl64_285 trail_level_3 fl64_1805
      trail_level_19)

text \<open>
  Claim C7, amended. In module B, while a position is held through an iteration (no fill
  pending) with the trailing stop enabled and the fixed stop-loss not triggered, the
  iteration closes the trade with the trailing-stop reason, at the bar's close and date,
  exactly when the highest close since entry is above the entry price and the close is
  at most the binary64 product of that peak and 0.95. Entered at 100 with a peak of 120,
  that product is exactly 114: a close above 114 and up to the peak (114.01, say)
  changes nothing, and a close of exactly 114 closes the trade at 114.
\<close>

theorem trailing_stop_fires_at_inclusive_boundary:
  "(holding st \<and> \<not> pending_sell_signal st \<and> \<not> pending_buy_signal st
      \<and> use_trailing_stop prm \<and> \<not> stop_loss_hit prm st (close_at df i) \<longrightarrow>
      ((\<exists>t. trades (step_B df prm i st) = trades st @ [t] \<and> t_sell_reason t = Trailing_Stop
            \<and> t_sell_price t = close_at df i \<and> t_sell_date t = date_at df i
            \<and> \<not> holding (step_B df prm i st))
         \<longleftrightarrow> (max (highest_price st) (close_at df i) > buy_price st
              \<and> close_at df i \<le> trail_level (max (highest_price st) (close_at df i)))))
   \<and> buy_price (peak_state 100 120) = 100 \<and> highest_price (peak_state 100 120) = 120
   \<and> trail_level 120 = 114
   \<and> (114 < c \<and> c \<le> 120 \<longrightarrow>
        step_B (base_frame (peak_bars 100 120 117 c)) default_params 2 (peak_state 100 120)
          = peak_state 100 120)
   \<and> close_at (base_frame (peak_bars 100 120 117 114)) 2 = 114
   \<and> step_B (base_frame (peak_bars 100 120 117 114)) default_params 2 (peak_state 100 120) =
       (peak_state 100 120)\<lparr>holding := False, buy_price := 0, buy_date := None,
         highest_price := 0,
         trades := [close_trade (peak_state 100 120) 3 114 Trailing_Stop]\<rparr>
   \<and> t_sell_price (close_trade (peak_state 100 120) 3 114 Trailing_Stop) = 114
   \<and> t_sell_reason (close_trade (peak_state 100 120) 3 114 Trailing_Stop) = Trailing_Stop"
proof -
  have c: "buy_price (peak_state 100 120) = 100" "highest_price (peak_state 100 120) = 120"
    "close_at (base_frame (peak_bars 100 120 117 114)) 2 = 114"
    "t_sell_price (close_trade (peak_state 100 120) 3 114 Trailing_Stop) = 114"
    "t_sell_reason (close_trade (peak_state 100 120) 3 114 Trailing_Stop) = Trailing_Stop"
    by (simp_all add: peak_state_def peak_row mk_bar_def close_trade_def)
  show ?thesis
    using trailing_B[of st prm df i] c trail_level_120 peak_above_114_B[of c] peak_114_B
    by simp
qed

theorem trailing_stop_fires_at_inclusive_boundary_witness:
  "holding (peak_state 100 120) \<and> \<not> pending_sell_signal (peak_state 100 120)
   \<and> \<not> pending_buy_signal (peak_state 100 120) \<and> use_trailing_stop default_params
   \<and> \<not> stop_loss_hit default_params (peak_state 100 120)
         (close_at (base_frame (peak_bars 100 120 117 114)) 2)
   \<and> max (highest_price (peak_state 100 120)) (close_at (base_frame (peak_bars 100 120 117 114)) 2)
       = 120
   \<and> close_at (base_frame (peak_bars 100 120 117 114)) 2 = 114
   \<and> (\<exists>t. trades (step_B (base_frame (peak_bars 100 120 117 114)) default_params 2
                    (peak_state 100 120))
            = trades (peak_state 100 120) @ [t] \<and> t_sell_reason t = Trailing_Stop
          \<and> t_sell_price t = 114 \<and> t_sell_date t = 3)
   \<and> 114 < fl64 (11401 / 100) \<and> fl64 (11401 / 100) \<le> 120
   \<and> step_B (base_frame (peak_bars 100 120 117 (fl64 (11401 / 100)))) default_params 2
        (peak_state 100 120) = peak_state 100 120
   \<and> get_data (peak_bars 100 120 117 114) = Some (base_frame (peak_bars 100 120 117 114))"
proof -
  have h: "holding (peak_state 100 120)" "\<not> pending_sell_signal (peak_state 100 120)"
    "\<not> pending_buy_signal (peak_state 100 120)" "use_trailing_stop default_params"
    "\<not> stop_loss_hit default_params (peak_state 100 120)
         (close_at (base_frame (peak_bars 100 120 117 114)) 2)"
    by (simp_all add: peak_state_def default_params_def stop_loss_hit_def peak_row mk_bar_def
        stop_level_5 level_decided)
  have v: "max (highest_price (peak_state 100 120))
             (close_at (base_frame (peak_bars 100 120 117 114)) 2) = 120"
    "close_at (base_frame (peak_bars 100 120 117 114)) 2 = 114"
    "date_at (base_frame (peak_bars 100 120 117 114)) 2 = 3"
    "buy_price (peak_state 100 120) = 100" "trades (peak_state 100 120) = []"
    by (simp_all add: peak_state_def peak_row mk_bar_def)
  have f: "114 < fl64 (11401 / 100)" "fl64 (11401 / 100) \<le> 120"
    by (simp_all add: fl64_11401)
  have w: "\<exists>t. trades (step_B (base_frame (peak_bars 100 120 117 114)) default_params 2
                    (peak_state 100 120))
            = trades (peak_state 100 120) @ [t] \<and> t_sell_reason t = Trailing_Stop
          \<and> t_sell_price t = 114 \<and> t_sell_date t = 3"
    using trailing_stop_fires_at_inclusive_boundary[of "peak_state 100 120" default_params
        "base_frame (peak_bars 100 120 117 114)" 2] h v
    by (simp add: trail_level_120 close_trade_def)
  have a: "step_B (base_frame (peak_bars 100 120 117 (fl64 (11401 / 100)))) default_params 2
        (peak_state 100 120) = peak_state 100 120"
    using trailing_stop_fires_at_inclusive_boundary[where c="fl64 (11401 / 100)"] f
    by blast
  show ?thesis using h v f w a peak_frame[of 100 120 117 114] by simp
qed

section \<open>The RSI seed and the causal decision\<close>

lemmas leak_data = leak_bars_def leak_bars_changed_def leak_head_def leak_tail_def mk_bar_def

lemma leak_frames:
  "get_data leak_bars = Some (mid_frame leak_bars)"
  "get_data leak_bars_changed = Some (mid_frame leak_bars_changed)"
  by (rule get_data_mid, simp_all add: leak_bars_def leak_bars_changed_def leak_head_def leak_tail_def)+

lemma leak_seeds:
  "rsi_seed (map close leak_bars) 14 = (0, 15 / 14)"
  "rsi_seed (map close leak_bars_changed) 14 = (23 / 14, 19 / 7)"
  "spec_rsi_seed (map close leak_bars_changed) 14 = (23 / 14, 37 / 14)"
  by (simp_all add: rsi_seed_def spec_rsi_seed_def np_diff_def leak_data Let_def)

text \<open>
  Claim C6 fails on the code at the closes of the changed series. The seed sums the
  first 15 deltas (\<^verbatim>\<open>deltas[:period+1]\<close>) and divides by 14: the average loss is 38/14,
  where the first 14 deltas give 37/14, and the RSI written to the first 14 bars is
  2300/61 instead of 115/3.
\<close>

theorem rsi_seed_takes_one_delta_too_many:
  "length (map close leak_bars_changed) = 16
   \<and> rsi_seed (map close leak_bars_changed) 14 = (23 / 14, 38 / 14)
   \<and> spec_rsi_seed (map close leak_bars_changed) 14 = (23 / 14, 37 / 14)
   \<and> calculate_rsi (map close leak_bars_changed) 14 ! 0 = 2300 / 61
   \<and> rsi_value (fst (spec_rsi_seed (map close leak_bars_changed) 14))
        (snd (spec_rsi_seed (map close leak_bars_changed) 14)) = 115 / 3"
proof -
  have n: "length (map close leak_bars_changed) = 16"
    by (simp add: leak_data)
  have w: "calculate_rsi (map close leak_bars_changed) 14 ! 0 =
      rsi_value (fst (rsi_seed (map close leak_bars_changed) 14))
        (snd (rsi_seed (map close leak_bars_changed) 14))"
    by (rule calculate_rsi_warmup) (simp_all add: leak_data)
  have v: "calculate_rsi (map close leak_bars_changed) 14 ! 0 = 2300 / 61"
    unfolding w by (simp add: leak_seeds rsi_value_def)
  have s: "rsi_value (fst (spec_rsi_seed (map close leak_bars_changed) 14))
        (snd (spec_rsi_seed (map close leak_bars_changed) 14)) = 115 / 3"
    by (simp add: leak_seeds rsi_value_def)
  show ?thesis using n v s leak_seeds by simp
qed

lemma causal_on_frame_prefix:
  assumes "iloc_upto df (Suc i) = iloc_upto df' (Suc i)"
  shows "bottom_signal_A df i = bottom_signal_A df' i" "top_signal_A df i = top_signal_A df' i"
    "bottom_signal_B df i = bottom_signal_B df' i" "top_signal_B df i = top_signal_B df' i"
  using assms
  by (simp_all add: bottom_signal_A_def top_signal_A_def bottom_signal_B_def top_signal_B_def
      Let_def)

lemma leak_signals_A:
  "bottom_signal_A (mid_frame leak_bars) 2 = None"
  "bottom_signal_A (mid_frame leak_bars_changed) 2 = None"
  "bottom_signal_A (mid_frame leak_bars) 3 = Some (3, [Bullish_Candle, RSI_Low])"
  "bottom_signal_A (mid_frame leak_bars_changed) 3 = None"
  by (simp_all add: signal_eval leak_data base_frame_def mid_frame_def)

lemma leak_signals_B:
  "bottom_signal_B (mid_frame leak_bars) 2 = None"
  "bottom_signal_B (mid_frame leak_bars_changed) 2 = None"
  "bottom_signal_B (mid_frame leak_bars) 3 = Some (3, [Bullish_Candle, RSI_Low])"
  "bottom_signal_B (mid_frame leak_bars_changed) 3 = None"
  by (simp_all add: signal_B_eval leak_data base_frame_def mid_frame_def)

lemma leak_run_3:
  "run_A (mid_frame leak_bars) default_params 3 = Inr init_A"
  "run_A (mid_frame leak_bars_changed) default_params 3 = Inr init_A"
  "run_B (mid_frame leak_bars) default_params 3 = init_B"
  "run_B (mid_frame leak_bars_changed) default_params 3 = init_B"
  using run_A_next[OF _ run_A_2, of "mid_frame leak_bars" default_params]
    run_A_next[OF _ run_A_2, of "mid_frame leak_bars_changed" default_params]
    run_B_next[OF _ run_B_2, of "mid_frame leak_bars" default_params]
    run_B_next[OF _ run_B_2, of "mid_frame leak_bars_changed" default_params]
  by (simp_all add: step_A_idle step_B_idle leak_signals_A leak_signals_B init_A_def init_B_def)

lemma leak_run_4:
  "run_A (mid_frame leak_bars) default_params 4 =
     Inr (init_A\<lparr>pending_buy_signal := True, pending_buy_reason := Some [Bullish_Candle, RSI_Low]\<rparr>)"
  "run_A (mid_frame leak_bars_changed) default_params 4 = Inr init_A"
  "run_B (mid_frame leak_bars) default_params 4 =
     init_B\<lparr>pending_buy_signal := True, pending_buy_reason := Some [Bullish_Candle, RSI_Low]\<rparr>"
  "run_B (mid_frame leak_bars_changed) default_params 4 = init_B"
  using run_A_next[OF _ leak_run_3(1)] run_A_next[OF _ leak_run_3(2)]
    run_B_next[OF _ leak_run_3(3)] run_B_next[OF _ leak_run_3(4)]
  by (simp_all add: step_A_idle step_B_idle step_A_signal[OF _ _ _ leak_signals_A(3)]
      step_B_signal[OF _ _ leak_signals_B(3)] leak_signals_A leak_signals_B init_A_def init_B_def)

text \<open>
  Claim C2 fails on the code. The two series agree on bars 0 to 3 and differ only in
  bar 4; at iteration 3 both modules recognise a bottom at index 2 (score 3) on the
  first series and none on the second: the RSI that \<open>get_data\<close> writes to the first 14
  rows is computed from the first 15 deltas, that is from closes up to index 15.
\<close>

theorem causal_decision_reads_later_bars:
  "take 4 leak_bars = take 4 leak_bars_changed
   \<and> drop 5 leak_bars = drop 5 leak_bars_changed
   \<and> get_data leak_bars = Some (mid_frame leak_bars)
   \<and> get_data leak_bars_changed = Some (mid_frame leak_bars_changed)
   \<and> bottom_signal_A (mid_frame leak_bars) 3 = Some (3, [Bullish_Candle, RSI_Low])
   \<and> bottom_signal_A (mid_frame leak_bars_changed) 3 = None
   \<and> bottom_signal_B (mid_frame leak_bars) 3 = Some (3, [Bullish_Candle, RSI_Low])
   \<and> bottom_signal_B (mid_frame leak_bars_changed) 3 = None
   \<and> map_sum id pending_buy_signal (run_A (mid_frame leak_bars) default_params 4) = Inr True
   \<and> map_sum id pending_buy_signal (run_A (mid_frame leak_bars_changed) default_params 4)
       = Inr False
   \<and> pending_buy_signal (run_B (mid_frame leak_bars) default_params 4)
   \<and> \<not> pending_buy_signal (run_B (mid_frame leak_bars_changed) default_params 4)"
proof -
  have "take 4 leak_bars = take 4 leak_bars_changed" "drop 5 leak_bars = drop 5 leak_bars_changed"
    by (simp_all add: leak_bars_def leak_bars_changed_def leak_head_def)
  then show ?thesis
    by (simp add: leak_frames leak_signals_A leak_signals_B leak_run_4 init_A_def init_B_def)
qed

section \<open>A stop on the bar of a top signal\<close>

lemma stale_frame: "get_data stale_bars = Some (mid_frame stale_bars)"
  by (rule get_data_mid) (simp_all add: stale_bars_def falling_bars_def)

lemma stale_row:
  "rows (mid_frame stale_bars) ! 10 = mk_bar 11 1000 1001 930 940 300"
  "rows (mid_frame stale_bars) ! 11 = mk_bar 12 940 945 935 940 100"
  "rows (mid_frame stale_bars) ! 12 = mk_bar 13 940 944 936 940 100"
  "rows (mid_frame stale_bars) ! 13 = mk_bar 14 941 943 937 940 100"
  "rows (mid_frame stale_bars) ! 14 = mk_bar 15 940 942 938 940 100"
  by (simp_all add: rows_frame stale_bars_def falling_bars_def)

lemma stale_bottom_B:
  "bottom_signal_B (mid_frame stale_bars) 2 = None"
  "bottom_signal_B (mid_frame stale_bars) 3 = None"
  "bottom_signal_B (mid_frame stale_bars) 4 = None"
  "bottom_signal_B (mid_frame stale_bars) 5 = None"
  "bottom_signal_B (mid_frame stale_bars) 6 = None"
  "bottom_signal_B (mid_frame stale_bars) 7 = None"
  "bottom_signal_B (mid_frame stale_bars) 8 = None"
  "bottom_signal_B (mid_frame stale_bars) 9 = Some (3, [Bullish_Candle, RSI_Low])"
  "bottom_signal_B (mid_frame stale_bars) 11 = Some (4, [Volume_Expansion, Downtrend, RSI_Low])"
  "bottom_signal_B (mid_frame stale_bars) 13 = None"
  "bottom_signal_B (mid_frame stale_bars) 14 = None"
  by (simp_all add: signal_B_eval stale_bars_def bars_eval)

lemma stale_top_B:
  "top_signal_B (mid_frame stale_bars) 10 = Some (3, [Bearish_Candle, Volume_Expansion, Uptrend])"
  "top_signal_B (mid_frame stale_bars) 12 = None"
  "top_signal_B (mid_frame stale_bars) 13 = None"
  by (simp_all add: signal_B_eval stale_bars_def bars_eval)

lemma stale_run_B_9: "run_B (mid_frame stale_bars) prm 9 = init_B"
proof -
  have idle: "bottom_signal_B (mid_frame stale_bars) i = None
      \<Longrightarrow> step_B (mid_frame stale_bars) prm i init_B = init_B" for i
    by (rule step_B_idle) (simp_all add: init_B_def)
  have "run_B (mid_frame stale_bars) prm (Suc (Suc (Suc (Suc (Suc (Suc (Suc 2))))))) = init_B"
    by (simp add: run_B_def idle stale_bottom_B)
  then show ?thesis by (simp add: eval_nat_numeral)
qed

lemma stale_run_B_10:
  "run_B (mid_frame stale_bars) prm 10 =
     init_B\<lparr>pending_buy_signal := True, pending_buy_reason := Some [Bullish_Candle, RSI_Low]\<rparr>"
  using run_B_next[OF _ stale_run_B_9]
  by (simp add: step_B_signal[OF _ _ stale_bottom_B(8)] init_B_def)

lemmas stale_step_B = step_B_eval stale_row mk_bar_def stale_bottom_B stale_top_B

lemma stale_run_B_11:
  "run_B (mid_frame stale_bars) default_params 11 = stale_flat"
  using run_B_next[OF _ stale_run_B_10, of default_params]
  by (simp add: stale_step_B stale_flat_def stale_stopped_def)

lemma stale_run_B_12:
  "run_B (mid_frame stale_bars) default_params 12 =
     stale_flat\<lparr>pending_buy_signal := True,
       pending_buy_reason := Some [Volume_Expansion, Downtrend, RSI_Low]\<rparr>"
  using run_B_next[OF _ stale_run_B_11]
  by (simp add: stale_step_B stale_flat_def stale_stopped_def)

lemma stale_run_B_13:
  "run_B (mid_frame stale_bars) default_params 13 =
     stale_flat\<lparr>holding := True, buy_price := 940, buy_date := Some 13,
       buy_reason := Some [Volume_Expansion, Downtrend, RSI_Low], highest_price := 940\<rparr>"
  using run_B_next[OF _ stale_run_B_12]
  by (simp add: stale_step_B stale_flat_def stale_stopped_def)

lemma stale_run_B_14:
  "run_B (mid_frame stale_bars) default_params 14 =
     init_B\<lparr>buy_reason := Some [Volume_Expansion, Downtrend, RSI_Low],
       trades := [stale_stopped, stale_sold]\<rparr>"
  using run_B_next[OF _ stale_run_B_13]
  by (simp add: stale_step_B stale_flat_def stale_stopped_def stale_sold_def)

lemma stale_run_B_15:
  "run_B (mid_frame stale_bars) default_params 15 =
     init_B\<lparr>buy_reason := Some [Volume_Expansion, Downtrend, RSI_Low],
       trades := [stale_stopped, stale_sold]\<rparr>"
  using run_B_next[OF _ stale_run_B_14]
  by (simp add: stale_step_B stale_flat_def stale_stopped_def stale_sold_def)


lemma risk_exit_A_leaves_no_pending_exit:
  assumes "holding st" "exits_A df prm i st = Inr st'" "\<not> holding st'"
  shows "\<not> pending_sell_signal st'"
  using exits_A_cases[of df prm i st] assms by auto

lemma stale_bottom_A:
  "bottom_signal_A (mid_frame stale_bars) 2 = None"
  "bottom_signal_A (mid_frame stale_bars) 3 = None"
  "bottom_signal_A (mid_frame stale_bars) 4 = None"
  "bottom_signal_A (mid_frame stale_bars) 5 = None"
  "bottom_signal_A (mid_frame stale_bars) 6 = None"
  "bottom_signal_A (mid_frame stale_bars) 7 = None"
  "bottom_signal_A (mid_frame stale_bars) 8 = None"
  "bottom_signal_A (mid_frame stale_bars) 9 = Some (3, [Bullish_Candle, RSI_Low])"
  "bottom_signal_A (mid_frame stale_bars) 11 = Some (4, [Volume_Expansion, Downtrend, RSI_Low])"
  by (simp_all add: signal_eval stale_bars_def bars_eval)

lemma stale_top_A:
  "top_signal_A (mid_frame stale_bars) 10 = Some (3, [Bearish_Candle, Volume_Expansion, Uptrend])"
  "top_signal_A (mid_frame stale_bars) 12 = None"
  "top_signal_A (mid_frame stale_bars) 13 = None"
  "top_signal_A (mid_frame stale_bars) 14 = None"
  by (simp_all add: signal_eval stale_bars_def bars_eval)

lemma stale_run_A_9: "run_A (mid_frame stale_bars) prm 9 = Inr init_A"
  by (rule run_A_idle_9) (simp_all add: stale_bottom_A)

lemma stale_run_A_10:
  "run_A (mid_frame stale_bars) prm 10 =
     Inr (init_A\<lparr>pending_buy_signal := True, pending_buy_reason := Some [Bullish_Candle, RSI_Low]\<rparr>)"
  using run_A_next[OF _ stale_run_A_9]
  by (simp add: step_A_signal[OF _ _ _ stale_bottom_A(8)] init_A_def)

lemmas stale_step_A = step_A_eval Let_def stale_row mk_bar_def stale_bottom_A stale_top_A

lemma stale_run_A_11:
  "run_A (mid_frame stale_bars) default_params 11 =
     Inr (init_A\<lparr>buy_price := 1000, buy_date := Some 11, buy_reason := Some [Bullish_Candle, RSI_Low],
       highest_price := 1000, pending_buy_reason := Some [Bullish_Candle, RSI_Low],
       trades := [stale_stopped]\<rparr>)"
  using run_A_next[OF _ stale_run_A_10, of default_params]
  by (simp add: stale_step_A stale_stopped_def)

lemma stale_run_A_12:
  "run_A (mid_frame stale_bars) default_params 12 =
     Inr (init_A\<lparr>buy_price := 1000, buy_date := Some 11, buy_reason := Some [Bullish_Candle, RSI_Low],
       highest_price := 1000, pending_buy_signal := True,
       pending_buy_reason := Some [Volume_Expansion, Downtrend, RSI_Low],
       trades := [stale_stopped]\<rparr>)"
  using run_A_next[OF _ stale_run_A_11]
  by (simp add: stale_step_A stale_stopped_def)

lemma stale_run_A_13:
  "run_A (mid_frame stale_bars) default_params 13 =
     Inr (init_A\<lparr>holding := True, buy_price := 940, buy_date := Some 13,
       buy_reason := Some [Volume_Expansion, Downtrend, RSI_Low],
       highest_price := 940,
       pending_buy_reason := Some [Volume_Expansion, Downtrend, RSI_Low],
       trades := [stale_stopped]\<rparr>)"
  using run_A_next[OF _ stale_run_A_12]
  by (simp add: stale_step_A stale_stopped_def)

lemma stale_run_A_14:
  "run_A (mid_frame stale_bars) default_params 14 =
     Inr (init_A\<lparr>holding := True, buy_price := 940, buy_date := Some 13,
       buy_reason := Some [Volume_Expansion, Downtrend, RSI_Low],
       highest_price := 943,
       pending_buy_reason := Some [Volume_Expansion, Downtrend, RSI_Low],
       trades := [stale_stopped]\<rparr>)"
  using run_A_next[OF _ stale_run_A_13]
  by (simp add: stale_step_A stale_stopped_def)

lemma stale_run_A_15:
  "run_A (mid_frame stale_bars) default_params 15 =
     Inr (init_A\<lparr>holding := True, buy_price := 940, buy_date := Some 13,
       buy_reason := Some [Volume_Expansion, Downtrend, RSI_Low],
       highest_price := 943,
       pending_buy_reason := Some [Volume_Expansion, Downtrend, RSI_Low],
       trades := [stale_stopped]\<rparr>)"
  using run_A_next[OF _ stale_run_A_14]
  by (simp add: stale_step_A stale_stopped_def)

text \<open>
  Claim C4 fails on module B. On the fifteen bars the position entered at the open of
  bar 10 is closed by the stop-loss at that bar's close, on the iteration that also
  recognises a top at index 9; module B has then already set its pending-sell flag and
  leaves it set. The next position, entered at the open of bar 12, is sold at the open
  of bar 13 as a top-fractal exit, although no top is recognised at iterations 12 and
  13. Module A on the same bars sets no flag and holds the second position to the end.
\<close>

theorem stop_loss_leaves_pending_exit_in_module_B:
  "get_data stale_bars = Some (mid_frame stale_bars)
   \<and> top_signal_B (mid_frame stale_bars) 10 \<noteq> None
   \<and> run_B (mid_frame stale_bars) default_params 11 = stale_flat
   \<and> \<not> holding stale_flat \<and> pending_sell_signal stale_flat
   \<and> trades stale_flat = [stale_stopped] \<and> t_sell_reason stale_stopped = Stop_Loss 5
   \<and> holding (run_B (mid_frame stale_bars) default_params 13)
   \<and> top_signal_B (mid_frame stale_bars) 12 = None
   \<and> top_signal_B (mid_frame stale_bars) 13 = None
   \<and> trades (run_B (mid_frame stale_bars) default_params 14) = [stale_stopped, stale_sold]
   \<and> t_sell_reason stale_sold = Top_Fractal
   \<and> t_sell_price stale_sold = open_at (mid_frame stale_bars) 13
   \<and> details_of (backtest_strategy_realtime_B (get_data stale_bars) default_params)
        = [stale_stopped, stale_sold]
   \<and> top_signal_A (mid_frame stale_bars) 10 \<noteq> None
   \<and> map_sum id pending_sell_signal (run_A (mid_frame stale_bars) default_params 11)
        = Inr False
   \<and> map_sum id (\<lambda>r. map t_sell_reason (details_of r))
        (backtest_strategy_realtime_A (mid_frame stale_bars) default_params)
        = Inr [Stop_Loss 5, Backtest_End]"
proof -
  have n: "length (rows (mid_frame stale_bars)) = 15"
    by (simp add: rows_frame stale_bars_def falling_bars_def)
  have b: "details_of (backtest_strategy_realtime_B (get_data stale_bars) default_params)
        = [stale_stopped, stale_sold]"
    by (simp add: stale_frame backtest_strategy_realtime_B_def n stale_run_B_15 finish_def
        init_B_def summarize_def details_of_def)
  have a: "map_sum id (\<lambda>r. map t_sell_reason (details_of r))
        (backtest_strategy_realtime_A (mid_frame stale_bars) default_params)
        = Inr [Stop_Loss 5, Backtest_End]"
    by (simp add: backtest_strategy_realtime_A_def n stale_run_A_15 finish_def
        init_A_def summarize_def details_of_def close_trade_def stale_stopped_def)
  show ?thesis
    using stale_frame a b
    by (simp add: stale_top_B stale_top_A stale_run_B_11 stale_run_B_13 stale_run_B_14
        stale_run_A_11 stale_flat_def stale_stopped_def stale_sold_def init_B_def init_A_def
        stale_row mk_bar_def)
qed

section \<open>Indicators that are absent\<close>

lemma ema_fold_outside: "i \<notin> set js \<Longrightarrow> fold (ema_step src m) js e ! i = e ! i"
proof (induction js arbitrary: e)
  case Nil
  then show ?case by simp
next
  case (Cons j js)
  then have "i \<noteq> j" "i \<notin> set js" by auto
  then show ?case using Cons.IH by (simp add: ema_step_def)
qed

lemma bollinger_fold_outside:
  "i \<notin> set js \<Longrightarrow>
     fst (fold (bollinger_step prices period k) js (m, u, l)) ! i = m ! i
   \<and> fst (snd (fold (bollinger_step prices period k) js (m, u, l))) ! i = u ! i
   \<and> snd (snd (fold (bollinger_step prices period k) js (m, u, l))) ! i = l ! i"
proof (induction js arbitrary: m u l)
  case Nil
  then show ?case by simp
next
  case (Cons j js)
  then have "i \<noteq> j" "i \<notin> set js" by auto
  then show ?case using Cons.IH by (simp add: bollinger_step_def Let_def)
qed

lemma bollinger_warmup:
  assumes "i < period - 1" "i < length prices"
  shows "fst (calculate_bollinger_bands prices period k) ! i = 0"
    and "fst (snd (calculate_bollinger_bands prices period k)) ! i = 0"
    and "snd (snd (calculate_bollinger_bands prices period k)) ! i = 0"
proof -
  have "i \<notin> set [period - 1..<length prices]" using assms by simp
  from bollinger_fold_outside[OF this, of prices period k "replicate (length prices) 0"
      "replicate (length prices) 0" "replicate (length prices) 0"] assms(2)
  show "fst (calculate_bollinger_bands prices period k) ! i = 0"
    and "fst (snd (calculate_bollinger_bands prices period k)) ! i = 0"
    and "snd (snd (calculate_bollinger_bands prices period k)) ! i = 0"
    by (simp_all add: calculate_bollinger_bands_def Let_def case_prod_unfold)
qed

lemma macd_warmup:
  assumes "calculate_macd prices fp sp gp = Some (m, s, h)" "i < sp - 1" "i < length prices"
  shows "m ! i = 0"
proof -
  have out: "i \<notin> set [sp..<length prices]" using assms(2) by auto
  have z: "(replicate (length prices) (0::real))[sp - 1 := x] ! i = 0" for x
    using assms(2,3) by simp
  show ?thesis
    using assms(1,3)
    by (auto simp: calculate_macd_def Let_def ema_fold_outside[OF out] z split: if_splits)
qed

lemma get_data_columns:
  assumes "get_data bars = Some df"
  shows "length bars \<le> 14 \<Longrightarrow> rsi df = None \<and> atr df = None"
    and "length bars \<le> 20 \<Longrightarrow> bb_upper df = None \<and> bb_middle df = None \<and> bb_lower df = None"
    and "length bars \<le> 26 \<Longrightarrow> macd df = None \<and> macd_signal df = None \<and> macd_hist df = None"
    and "rows df = bars" and "ma10 df = rolling_mean 10 (map close bars)"
    and "bb_lower df = Some b \<Longrightarrow> b = snd (snd (calculate_bollinger_bands (map close bars) 20 2))"
    and "macd df = Some m \<Longrightarrow> \<exists>s h. calculate_macd (map close bars) 12 26 9 = Some (m, s, h)"
  using assms
  by (auto simp: get_data_def Let_def split: option.splits if_splits)

lemma absent_column_factors:
  "rsi df = None \<Longrightarrow> RSI_Low \<notin> set (satisfied (bottom_factors df i))"
  "rsi df = None \<Longrightarrow> RSI_High \<notin> set (satisfied (top_factors df i))"
  "bb_lower df = None \<Longrightarrow> Lower_Band_Support \<notin> set (satisfied (bottom_factors df i))"
  "bb_upper df = None \<Longrightarrow> Upper_Band_Resistance \<notin> set (satisfied (top_factors df i))"
  "macd df = None \<or> macd_hist df = None \<Longrightarrow> MACD_Bottom_Reversal \<notin> set (satisfied (bottom_factors df i))"
  "macd df = None \<or> macd_hist df = None \<Longrightarrow> MACD_Top_Turn \<notin> set (satisfied (top_factors df i))"
  by (auto simp: satisfied_def bottom_factors_def top_factors_def split: option.splits)

lemma ma10_warmup:
  assumes "get_data bars = Some df" "i < 9" "i < length bars"
  shows "ma10 df ! i = None"
    and "Downtrend \<notin> set (satisfied (bottom_factors df i))"
    and "Uptrend \<notin> set (satisfied (top_factors df i))"
proof -
  show n: "ma10 df ! i = None"
    using assms by (simp add: get_data_columns(5) rolling_mean_def)
  show "Downtrend \<notin> set (satisfied (bottom_factors df i))"
    and "Uptrend \<notin> set (satisfied (top_factors df i))"
    by (auto simp: satisfied_def bottom_factors_def top_factors_def n lt_nan_def gt_nan_def)
qed

lemma macd_warmup_factors:
  assumes "get_data bars = Some df" "i < 25" "i < length bars"
  shows "MACD_Bottom_Reversal \<notin> set (satisfied (bottom_factors df i))"
    and "MACD_Top_Turn \<notin> set (satisfied (top_factors df i))"
proof -
  have z: "m ! i = 0" if "macd df = Some m" for m
  proof -
    from get_data_columns(7)[OF assms(1) that] obtain s h
      where "calculate_macd (map close bars) 12 26 9 = Some (m, s, h)" by blast
    from macd_warmup[OF this] assms(2,3) show ?thesis by simp
  qed
  show "MACD_Bottom_Reversal \<notin> set (satisfied (bottom_factors df i))"
    and "MACD_Top_Turn \<notin> set (satisfied (top_factors df i))"
    using z by (auto simp: satisfied_def bottom_factors_def top_factors_def split: option.splits)
qed

lemma lower_band_warmup_factor:
  assumes "get_data bars = Some df" "i < 19" "i < length bars" "0 < low_at df i"
  shows "Lower_Band_Support \<notin> set (satisfied (bottom_factors df i))"
proof -
  have z: "b ! i = 0" if "bb_lower df = Some b" for b
    using get_data_columns(6)[OF assms(1) that] bollinger_warmup(3)[of i 20 "map close bars" 2]
      assms(2,3) by simp
  show ?thesis
    using z assms(4)
    by (auto simp: satisfied_def bottom_factors_def split: option.splits)
qed


lemma get_data_band:
  assumes "20 < length bars" "length bars \<le> 26"
  shows "get_data bars = Some (band_frame bars)"
proof -
  obtain a where a: "calculate_atr (map high bars) (map low bars) (map close bars) 14 = Some a"
    using calculate_atr_Some[of 14 "map high bars"] assms by auto
  show ?thesis using assms a
    by (simp add: get_data_def band_frame_def mid_frame_def base_frame_def Let_def)
qed

lemma calculate_macd_short:
  "length prices < 35 \<Longrightarrow> calculate_macd prices 12 26 9 = None"
  by (simp add: calculate_macd_def Let_def)

lemma get_data_fails_27_to_34:
  "26 < length bars \<Longrightarrow> length bars < 35 \<Longrightarrow> get_data bars = None"
  by (simp add: get_data_def Let_def calculate_macd_short)

lemma calculate_macd_long:
  "34 < length prices \<Longrightarrow> calculate_macd prices 12 26 9 \<noteq> None"
  by (simp add: calculate_macd_def Let_def)

lemma get_data_long:
  assumes "34 < length bars"
  shows "\<exists>df. get_data bars = Some df \<and> macd df \<noteq> None \<and> macd_hist df \<noteq> None
           \<and> rsi df \<noteq> None \<and> bb_lower df \<noteq> None \<and> bb_upper df \<noteq> None"
proof -
  obtain a where a: "calculate_atr (map high bars) (map low bars) (map close bars) 14 = Some a"
    using calculate_atr_Some[of 14 "map high bars"] assms by auto
  obtain m where m: "calculate_macd (map close bars) 12 26 9 = Some m"
    using calculate_macd_long[of "map close bars"] assms by auto
  show ?thesis using assms a m by (simp add: get_data_def Let_def)
qed

lemma band_top_1: "is_top (band_frame band_bars) 1"
  by (simp add: is_top_def band_frame_def rows_frame band_bars_def mk_bar_def)

lemma band_upper_1:
  "bb_upper (band_frame band_bars) = Some (fst (calculate_bollinger_bands (map close band_bars) 20 2))"
  "fst (calculate_bollinger_bands (map close band_bars) 20 2) ! 1 = 0"
proof -
  show "bb_upper (band_frame band_bars)
      = Some (fst (calculate_bollinger_bands (map close band_bars) 20 2))"
    by (simp add: band_frame_def)
  show "fst (calculate_bollinger_bands (map close band_bars) 20 2) ! 1 = 0"
    by (rule bollinger_warmup) (simp_all add: band_bars_def)
qed

lemma band_upper_factor:
  "Upper_Band_Resistance \<in> set (satisfied (top_factors (band_frame band_bars) 1))"
proof -
  have "high_at (band_frame band_bars) 1 = 12"
    by (simp add: band_frame_def rows_frame band_bars_def mk_bar_def)
  moreover have "fst (calculate_bollinger_bands (map close band_bars) 20 2) ! Suc 0 = 0"
    using band_upper_1(2) by simp
  ultimately show ?thesis
    by (simp add: satisfied_def top_factors_def band_upper_1(1))
qed

lemma stale_rsi_factor: "RSI_Low \<in> set (satisfied (bottom_factors (mid_frame stale_bars) 8))"
proof -
  have w: "calculate_rsi (map close stale_bars) 14 ! 8 =
      rsi_value (fst (rsi_seed (map close stale_bars) 14)) (snd (rsi_seed (map close stale_bars) 14))"
    by (rule calculate_rsi_warmup) (simp_all add: stale_bars_def falling_bars_def)
  have "calculate_rsi (map close stale_bars) 14 ! 8 < 30"
    unfolding w
    by (simp add: rsi_seed_def np_diff_def rsi_value_def stale_bars_def falling_bars_def mk_bar_def
        Let_def)
  then show ?thesis
    by (simp add: satisfied_def bottom_factors_def mid_frame_def base_frame_def)
qed

text \<open>
  Claim C5 as stated fails on the code. On 21 bars the Bollinger columns exist and the
  bar at index 1, inside the 20-bar warm-up, carries the value 0 in them; the top
  candidate there receives the upper-band weight because its high is at least 0. On
  the fifteen bars of the stop-loss example the bottom candidate at index 8, inside
  the RSI's 14-bar warm-up, receives the RSI weight from the seed value.
\<close>

theorem warmup_bar_carries_value_and_weight_counterexample:
  "get_data band_bars = Some (band_frame band_bars)
   \<and> is_top (band_frame band_bars) 1
   \<and> bb_upper (band_frame band_bars)
        = Some (fst (calculate_bollinger_bands (map close band_bars) 20 2))
   \<and> fst (calculate_bollinger_bands (map close band_bars) 20 2) ! 1 = 0
   \<and> Upper_Band_Resistance \<in> set (satisfied (top_factors (band_frame band_bars) 1))
   \<and> get_data stale_bars = Some (mid_frame stale_bars)
   \<and> is_bottom (mid_frame stale_bars) 8
   \<and> RSI_Low \<in> set (satisfied (bottom_factors (mid_frame stale_bars) 8))"
proof -
  have g: "get_data band_bars = Some (band_frame band_bars)"
    by (rule get_data_band) (simp_all add: band_bars_def)
  have b: "is_bottom (mid_frame stale_bars) 8"
    by (simp add: is_bottom_def rows_frame stale_bars_def falling_bars_def mk_bar_def)
  show ?thesis
    using g b band_top_1 band_upper_1 band_upper_factor stale_frame stale_rsi_factor by simp
qed

text \<open>
  Claim C5, amended. In a frame that \<open>get_data\<close> builds, an indicator is absent (its
  column is missing, not zero) when the series is too short for it: at most 14 bars
  for RSI and ATR, at most 20 for the Bollinger bands, at most 26 for MACD; the 10-day
  average is absent (NaN) on the first nine bars. A factor whose column is absent
  contributes no weight to any candidate, of the bottom or of the top detector; the
  trend factor contributes nothing where the average is NaN; the MACD factor
  contributes nothing to a candidate before index 25, and the lower-band factor
  nothing to a candidate before index 19 with a positive low. (Nothing is said of the
  RSI and upper-band factors inside the warm-up of a column that is present.)
\<close>

theorem absent_indicator_contributes_no_weight:
  "(get_data bars = Some df \<longrightarrow>
      (length bars \<le> 14 \<longrightarrow> rsi df = None \<and> atr df = None)
    \<and> (length bars \<le> 20 \<longrightarrow> bb_upper df = None \<and> bb_middle df = None \<and> bb_lower df = None)
    \<and> (length bars \<le> 26 \<longrightarrow> macd df = None \<and> macd_signal df = None \<and> macd_hist df = None)
    \<and> (i < 9 \<and> i < length bars \<longrightarrow>
          ma10 df ! i = None
          \<and> Downtrend \<notin> set (satisfied (bottom_factors df i))
          \<and> Uptrend \<notin> set (satisfied (top_factors df i)))
    \<and> (i < 25 \<and> i < length bars \<longrightarrow>
          MACD_Bottom_Reversal \<notin> set (satisfied (bottom_factors df i))
          \<and> MACD_Top_Turn \<notin> set (satisfied (top_factors df i)))
    \<and> (i < 19 \<and> i < length bars \<and> 0 < low_at df i \<longrightarrow>
          Lower_Band_Support \<notin> set (satisfied (bottom_factors df i))))
   \<and> (rsi df = None \<longrightarrow>
         RSI_Low \<notin> set (satisfied (bottom_factors df i))
         \<and> RSI_High \<notin> set (satisfied (top_factors df i)))
   \<and> (bb_lower df = None \<longrightarrow> Lower_Band_Support \<notin> set (satisfied (bottom_factors df i)))
   \<and> (bb_upper df = None \<longrightarrow> Upper_Band_Resistance \<notin> set (satisfied (top_factors df i)))
   \<and> (macd df = None \<or> macd_hist df = None \<longrightarrow>
         MACD_Bottom_Reversal \<notin> set (satisfied (bottom_factors df i))
         \<and> MACD_Top_Turn \<notin> set (satisfied (top_factors df i)))"
proof -
  have built: "(length bars \<le> 14 \<longrightarrow> rsi df = None \<and> atr df = None)
    \<and> (length bars \<le> 20 \<longrightarrow> bb_upper df = None \<and> bb_middle df = None \<and> bb_lower df = None)
    \<and> (length bars \<le> 26 \<longrightarrow> macd df = None \<and> macd_signal df = None \<and> macd_hist df = None)
    \<and> (i < 9 \<and> i < length bars \<longrightarrow>
          ma10 df ! i = None
          \<and> Downtrend \<notin> set (satisfied (bottom_factors df i))
          \<and> Uptrend \<notin> set (satisfied (top_factors df i)))
    \<and> (i < 25 \<and> i < length bars \<longrightarrow>
          MACD_Bottom_Reversal \<notin> set (satisfied (bottom_factors df i))
          \<and> MACD_Top_Turn \<notin> set (satisfied (top_factors df i)))
    \<and> (i < 19 \<and> i < length bars \<and> 0 < low_at df i \<longrightarrow>
          Lower_Band_Support \<notin> set (satisfied (bottom_factors df i)))"
    if g: "get_data bars = Some df"
    using get_data_columns(1-3)[OF g] ma10_warmup[OF g, of i] macd_warmup_factors[OF g, of i]
      lower_band_warmup_factor[OF g, of i]
    by (intro conjI impI) simp_all
  have absent: "(rsi df = None \<longrightarrow>
         RSI_Low \<notin> set (satisfied (bottom_factors df i))
         \<and> RSI_High \<notin> set (satisfied (top_factors df i)))
   \<and> (bb_lower df = None \<longrightarrow> Lower_Band_Support \<notin> set (satisfied (bottom_factors df i)))
   \<and> (bb_upper df = None \<longrightarrow> Upper_Band_Resistance \<notin> set (satisfied (top_factors df i)))
   \<and> (macd df = None \<or> macd_hist df = None \<longrightarrow>
         MACD_Bottom_Reversal \<notin> set (satisfied (bottom_factors df i))
         \<and> MACD_Top_Turn \<notin> set (satisfied (top_factors df i)))"
    using absent_column_factors[of df i] by (intro conjI impI) simp_all
  show ?thesis using built absent by (intro conjI impI) simp_all
qed

theorem absent_indicator_contributes_no_weight_witness:
  "get_data long_bars = Some (the (get_data long_bars))
   \<and> length long_bars = 35
   \<and> macd (the (get_data long_bars)) \<noteq> None
   \<and> bb_lower (the (get_data long_bars)) \<noteq> None
   \<and> 0 < low_at (the (get_data long_bars)) 3
   \<and> ma10 (the (get_data long_bars)) ! 3 = None
   \<and> Downtrend \<notin> set (satisfied (bottom_factors (the (get_data long_bars)) 3))
   \<and> MACD_Bottom_Reversal \<notin> set (satisfied (bottom_factors (the (get_data long_bars)) 3))
   \<and> MACD_Top_Turn \<notin> set (satisfied (top_factors (the (get_data long_bars)) 3))
   \<and> Lower_Band_Support \<notin> set (satisfied (bottom_factors (the (get_data long_bars)) 3))
   \<and> get_data window1 = Some (base_frame window1)
   \<and> length window1 = 11
   \<and> rsi (base_frame window1) = None \<and> bb_upper (base_frame window1) = None
   \<and> macd (base_frame window1) = None
   \<and> RSI_Low \<notin> set (satisfied (bottom_factors (base_frame window1) 9))
   \<and> Upper_Band_Resistance \<notin> set (satisfied (top_factors (base_frame window1) 9))"
proof -
  have n: "length long_bars = 35" "length window1 = 11"
    by (simp_all add: long_bars_def window1_def window_head_def)
  from get_data_long[of long_bars] n obtain df where
    df: "get_data long_bars = Some df" "macd df \<noteq> None" "bb_lower df \<noteq> None"
    by auto
  then have t: "the (get_data long_bars) = df" by simp
  have low: "0 < low_at df 3"
    using get_data_columns(4)[OF df(1)] by (simp add: long_bars_def mk_bar_def)
  have w: "get_data window1 = Some (base_frame window1)"
    by (rule get_data_short) (simp add: n)
  show ?thesis
    using absent_indicator_contributes_no_weight[of long_bars df 3]
      absent_indicator_contributes_no_weight[of window1 "base_frame window1" 9]
      df low w n
    by (simp add: t)
qed

section \<open>Alerts of the live monitor\<close>

lemma check_new_pattern_sent:
  assumes "check_new_pattern enabled now patterns last_date = (last_date', sent)" "p \<in> set sent"
  shows "patterns \<noteq> [] \<and> p = last patterns \<and> Some (p_date p) \<noteq> last_date
     \<and> now - p_date p \<le> 3 \<and> enabled \<and> last_date' = Some (p_date p) \<and> sent = [p]"
  using assms by (auto simp: check_new_pattern_def Let_def split: if_splits)

lemma alerts_over_increasing:
  assumes "sorted (latest_dates cycles)"
    and "\<forall>d. last_date = Some d \<longrightarrow> (\<forall>x \<in> set (latest_dates cycles). d \<le> x)"
  shows "distinct (map p_date (alerts_over enabled cycles last_date))
     \<and> (\<forall>a \<in> set (alerts_over enabled cycles last_date).
          (\<forall>d. last_date = Some d \<longrightarrow> d < p_date a))"
  using assms
proof (induction cycles arbitrary: last_date)
  case Nil
  then show ?case by simp
next
  case (Cons c cycles)
  obtain now patterns where c: "c = (now, patterns)" by (cases c)
  show ?case
  proof (cases "patterns = []")
    case True
    then have same: "alerts_over enabled (c # cycles) last_date = alerts_over enabled cycles last_date"
      and ld: "latest_dates (c # cycles) = latest_dates cycles"
      by (simp_all add: c check_new_pattern_def latest_dates_def)
    from Cons.IH[of last_date] Cons.prems show ?thesis unfolding same ld by blast
  next
    case False
    define x where "x = p_date (last patterns)"
    have ld: "latest_dates (c # cycles) = x # latest_dates cycles"
      using False by (simp add: c latest_dates_def x_def)
    then have srt: "sorted (latest_dates cycles)" and ge: "\<forall>y \<in> set (latest_dates cycles). x \<le> y"
      using Cons.prems(1) by simp_all
    show ?thesis
    proof (cases "Some x = last_date")
      case True
      then have same: "alerts_over enabled (c # cycles) last_date = alerts_over enabled cycles last_date"
        using False by (simp add: c check_new_pattern_def x_def)
      have "\<forall>d. last_date = Some d \<longrightarrow> (\<forall>y \<in> set (latest_dates cycles). d \<le> y)"
        using True ge by auto
      from Cons.IH[OF srt this] show ?thesis unfolding same .
    next
      case new: False
      obtain sent where ch: "check_new_pattern enabled now patterns last_date = (Some x, sent)"
        and sent: "sent = [] \<or> sent = [last patterns]"
        using False new by (auto simp: check_new_pattern_def Let_def x_def)
      have rest: "distinct (map p_date (alerts_over enabled cycles (Some x)))"
        "\<forall>a \<in> set (alerts_over enabled cycles (Some x)). x < p_date a"
        using Cons.IH[OF srt, of "Some x"] ge by auto
      have gt: "d < x" if "last_date = Some d" for d
        using that Cons.prems(2) new ld by fastforce
      have eq: "alerts_over enabled (c # cycles) last_date = sent @ alerts_over enabled cycles (Some x)"
        by (simp add: c ch)
      show ?thesis
        unfolding eq using sent rest gt by (auto simp: x_def)
    qed
  qed
qed

lemma run_monitor_bottom_alerts:
  "bottom_alerts (run_monitor enabled cycles w)
     = alerts_over enabled (map (\<lambda>c. (fst c, bottom_view (snd c))) cycles) (last_bottom w)"
proof (induction cycles arbitrary: w)
  case Nil
  then show ?case by (simp add: bottom_alerts_def)
next
  case (Cons c cycles)
  obtain now bars where c: "c = (now, bars)" by (cases c)
  have app: "bottom_alerts (xs @ ys) = bottom_alerts xs @ bottom_alerts ys" for xs ys
    by (simp add: bottom_alerts_def)
  have tops: "bottom_alerts (map Top_Alert ys) = []" for ys
    by (induction ys) (simp_all add: bottom_alerts_def)
  have bots: "bottom_alerts (map Bottom_Alert xs) = xs" for xs
    by (induction xs) (simp_all add: bottom_alerts_def)
  show ?case
  proof (cases "get_data bars")
    case None
    then show ?thesis using Cons.IH[of w]
      by (simp add: c monitor_cycle_def bottom_view_def check_new_pattern_def)
  next
    case (Some df)
    show ?thesis
    proof (cases "rows df = []")
      case True
      then show ?thesis using Some Cons.IH[of w]
        by (simp add: c monitor_cycle_def bottom_view_def check_new_pattern_def)
    next
      case False
      obtain lb bs where b: "check_new_pattern enabled now (identify_bottom_pattern df) (last_bottom w) = (lb, bs)"
        by (cases "check_new_pattern enabled now (identify_bottom_pattern df) (last_bottom w)")
      obtain lt ts where t: "check_new_pattern enabled now (identify_top_pattern df) (last_top w) = (lt, ts)"
        by (cases "check_new_pattern enabled now (identify_top_pattern df) (last_top w)")
      show ?thesis
        using Some False b t Cons.IH[of "\<lparr>last_bottom = lb, last_top = lt\<rparr>"]
        by (simp add: c monitor_cycle_def bottom_view_def app tops bots)
    qed
  qed
qed


lemma window_frames:
  "get_data window1 = Some (base_frame window1)"
  "get_data window2 = Some (base_frame window2)"
  "get_data window3 = Some (base_frame window3)"
  by (rule get_data_short, simp add: window1_def window2_def window3_def window_head_def)+

lemma window_patterns:
  "identify_bottom_pattern (base_frame window1) = [pattern_10]"
  "identify_bottom_pattern (base_frame window2) = [pattern_10, pattern_12]"
  "identify_bottom_pattern (base_frame window3) = [pattern_10]"
  "identify_top_pattern (base_frame window1) = []"
  "identify_top_pattern (base_frame window2) = []"
  "identify_top_pattern (base_frame window3) = []"
  by (simp_all add: identify_bottom_pattern_eq identify_top_pattern_eq window_eval
      pattern_10_def pattern_12_def)

lemma window_rows:
  "rows (base_frame window1) \<noteq> []" "rows (base_frame window2) \<noteq> []"
  "rows (base_frame window3) \<noteq> []"
  by (simp_all add: rows_frame window1_def window2_def window3_def window_head_def)

text \<open>
  Claim C9 as stated fails on the code. Three cycles of one instrument: on day 11 the
  fetch shows a bottom at date 10; on day 13 a newer bottom at date 12; later on day 13
  the last bar has a lower low, the bottom at date 12 is no longer a fractal, and the
  most recent pattern is again the one at date 10, which differs from the stored date
  12 and is 3 days old: it is alerted a second time.
\<close>

theorem same_pattern_date_alerted_twice_counterexample:
  "run_monitor True [(11, window1), (13, window2), (13, window3)]
       \<lparr> last_bottom = None, last_top = None \<rparr>
     = [Bottom_Alert pattern_10, Bottom_Alert pattern_12, Bottom_Alert pattern_10]
   \<and> \<not> distinct (map p_date (bottom_alerts
         (run_monitor True [(11, window1), (13, window2), (13, window3)]
            \<lparr> last_bottom = None, last_top = None \<rparr>)))"
proof -
  have "run_monitor True [(11, window1), (13, window2), (13, window3)]
       \<lparr> last_bottom = None, last_top = None \<rparr>
     = [Bottom_Alert pattern_10, Bottom_Alert pattern_12, Bottom_Alert pattern_10]"
    by (simp add: monitor_cycle_def window_frames window_patterns window_rows
        check_new_pattern_def Let_def pattern_10_def pattern_12_def)
  then show ?thesis by (simp add: bottom_alerts_def pattern_10_def pattern_12_def)
qed

text \<open>
  Claim C9, amended. In a polling cycle a monitor sends a bottom (a top) alert for an
  instrument only for the most recent detected pattern, only if its date differs from
  the stored last-signal date, and only if it is at most 3 days before the current
  date; the stored date then is that pattern's date. Consequently, as long as the date
  of the most recent pattern never moves backwards from one cycle to a later one, no
  pattern date is alerted twice for the instrument; the bottom alerts of the monitor
  loop are those of this check on the cycles' detector lists.
\<close>

theorem alert_only_for_new_recent_pattern:
  "(check_new_pattern enabled now patterns last_date = (last_date', sent) \<and> p \<in> set sent \<longrightarrow>
      patterns \<noteq> [] \<and> p = last patterns \<and> Some (p_date p) \<noteq> last_date
      \<and> now - p_date p \<le> 3 \<and> last_date' = Some (p_date p))
   \<and> (sorted (latest_dates cycles) \<longrightarrow>
        distinct (map p_date (alerts_over enabled cycles None)))
   \<and> bottom_alerts (run_monitor enabled fetches w)
        = alerts_over enabled (map (\<lambda>c. (fst c, bottom_view (snd c))) fetches) (last_bottom w)"
  using check_new_pattern_sent[of enabled now patterns last_date last_date' sent p]
    alerts_over_increasing[of cycles None enabled]
    run_monitor_bottom_alerts[of enabled fetches w]
  by blast

theorem alert_only_for_new_recent_pattern_witness:
  "check_new_pattern True 13 [pattern_10, pattern_12] (Some 10) = (Some 12, [pattern_12])
   \<and> pattern_12 \<in> set [pattern_12]
   \<and> Some (p_date pattern_12) \<noteq> Some (10::int) \<and> 13 - p_date pattern_12 \<le> 3
   \<and> sorted (latest_dates [(11, [pattern_10]), (13, [pattern_10, pattern_12]),
         (14, [pattern_10, pattern_12])])
   \<and> map p_date (alerts_over True [(11, [pattern_10]), (13, [pattern_10, pattern_12]),
         (14, [pattern_10, pattern_12])] None) = [10, 12]
   \<and> distinct (map p_date (alerts_over True [(11, [pattern_10]), (13, [pattern_10, pattern_12]),
         (14, [pattern_10, pattern_12])] None))
   \<and> bottom_alerts (run_monitor True [(11, window1), (13, window2)]
         \<lparr> last_bottom = None, last_top = None \<rparr>) = [pattern_10, pattern_12]"
proof -
  have c: "check_new_pattern True 13 [pattern_10, pattern_12] (Some 10) = (Some 12, [pattern_12])"
    by (simp add: check_new_pattern_def Let_def pattern_10_def pattern_12_def)
  have s: "sorted (latest_dates [(11, [pattern_10]), (13, [pattern_10, pattern_12]),
         (14, [pattern_10, pattern_12])])"
    by (simp add: latest_dates_def pattern_10_def pattern_12_def)
  have a: "map p_date (alerts_over True [(11, [pattern_10]), (13, [pattern_10, pattern_12]),
         (14, [pattern_10, pattern_12])] None) = [10, 12]"
    by (simp add: check_new_pattern_def Let_def pattern_10_def pattern_12_def)
  have v: "map (\<lambda>c. (fst c, bottom_view (snd c))) [(11, window1), (13, window2)]
      = [(11, [pattern_10]), (13, [pattern_10, pattern_12])]"
    by (simp add: bottom_view_def window_frames window_patterns window_rows)
  have r: "alerts_over True [(11, [pattern_10]), (13, [pattern_10, pattern_12])] None
      = [pattern_10, pattern_12]"
    by (simp add: check_new_pattern_def Let_def pattern_10_def pattern_12_def)
  show ?thesis
    using alert_only_for_new_recent_pattern[of True 13 "[pattern_10, pattern_12]" "Some 10"
        "Some 12" "[pattern_12]" pattern_12
        "[(11, [pattern_10]), (13, [pattern_10, pattern_12]), (14, [pattern_10, pattern_12])]"
        "[(11, window1), (13, window2)]" "\<lparr> last_bottom = None, last_top = None \<rparr>"]
      c s a v r
    by (simp add: pattern_12_def)
qed

text \<open>
  In module B's cycle an instrument's check reads and writes only that instrument's
  entry, and its alerts are those of the single-instrument cycle on that entry.
\<close>

lemma multi_step_own:
  assumes "last_signals code = Some w"
  shows "fst (multi_step enabled now fetch code (last_signals, sent)) code
           = Some (fst (monitor_cycle enabled now (get_data (fetch code)) w))"
    and "snd (multi_step enabled now fetch code (last_signals, sent))
           = sent @ map (Pair code) (snd (monitor_cycle enabled now (get_data (fetch code)) w))"
  using assms by (simp_all add: multi_step_def case_prod_unfold)

lemma multi_step_other:
  "c \<noteq> code \<Longrightarrow> fst (multi_step enabled now fetch code (last_signals, sent)) c = last_signals c"
  by (simp add: multi_step_def case_prod_unfold split: option.splits)

section \<open>Module B: the exits at the close\<close>

text \<open>
  Each of module B's three exits appends one trade, sold at the close and the date of
  the bar whose close meets its condition, and leaves the position closed.
\<close>

lemma risk_exits_B_fill_at_close:
  "risk_exits_B df prm i st = st
   \<or> (holding st \<and> \<not> holding (risk_exits_B df prm i st)
      \<and> (\<exists>t. trades (risk_exits_B df prm i st) = trades st @ [t]
             \<and> t_sell_price t = close_at df i \<and> t_sell_date t = date_at df i
             \<and> ((t_sell_reason t = Stop_Loss (stop_loss_pct prm)
                    \<and> stop_loss_hit prm st (close_at df i))
                \<or> (t_sell_reason t = Trailing_Stop
                    \<and> trailing_stop_hit prm st (close_at df i))
                \<or> (t_sell_reason t = Hold_Days_Reached (hold_days prm)
                    \<and> 0 < hold_days prm
                    \<and> hold_days prm \<le> days_since (buy_date st) (date_at df i)))))"
  by (auto simp: risk_exits_B_def Let_def reset_position_def close_trade_def)

end
